theory Spec2Isabelle
  imports Main "HOL-Library.Word"
begin

unbundle bit_operations_syntax

section \<open>Values, faults and the recorded world\<close>

text \<open>
  Pointers are addresses, \<open>0\<close> is the null pointer. The opaque handle types of the API
  (\<open>SDL_GpuCommandBuffer*\<close>, \<open>SDL_GpuRenderPass*\<close>, \<open>SDL_GpuDevice*\<close>, ...) are distinct
  C types, so each gets its own address space here. A pass handle is the address of one of
  the three \<open>Pass\<close> members embedded in a command buffer header; it is represented by the
  address of the header that embeds it (the member is fixed by the handle's C type).
\<close>

type_synonym ptr = nat

abbreviation NULL :: ptr where
  "NULL \<equiv> 0"

type_synonym Uint32 = "32 word"

type_synonym SDL_GpuBackend = "64 word"

text \<open>
  The texture formats this file names, from \<open>SDL_GpuTextureFormatTexelBlockSize\<close> and the
  two depth fallback switches. A C enum variable can hold any integer; the last constructor
  stands for every value without a name here.
\<close>

datatype SDL_GpuTextureFormat =
    SDL_GPU_TEXTUREFORMAT_R8G8B8A8
  | SDL_GPU_TEXTUREFORMAT_B8G8R8A8
  | SDL_GPU_TEXTUREFORMAT_R5G6B5
  | SDL_GPU_TEXTUREFORMAT_A1R5G5B5
  | SDL_GPU_TEXTUREFORMAT_B4G4R4A4
  | SDL_GPU_TEXTUREFORMAT_A2R10G10B10
  | SDL_GPU_TEXTUREFORMAT_R16G16B16A16
  | SDL_GPU_TEXTUREFORMAT_R8
  | SDL_GPU_TEXTUREFORMAT_A8
  | SDL_GPU_TEXTUREFORMAT_BC1
  | SDL_GPU_TEXTUREFORMAT_BC2
  | SDL_GPU_TEXTUREFORMAT_BC3
  | SDL_GPU_TEXTUREFORMAT_BC7
  | SDL_GPU_TEXTUREFORMAT_R8G8_SNORM
  | SDL_GPU_TEXTUREFORMAT_R8G8B8A8_SNORM
  | SDL_GPU_TEXTUREFORMAT_R16_SFLOAT
  | SDL_GPU_TEXTUREFORMAT_R16G16_SFLOAT
  | SDL_GPU_TEXTUREFORMAT_R16G16B16A16_SFLOAT
  | SDL_GPU_TEXTUREFORMAT_R32_SFLOAT
  | SDL_GPU_TEXTUREFORMAT_R32G32_SFLOAT
  | SDL_GPU_TEXTUREFORMAT_R32G32B32A32_SFLOAT
  | SDL_GPU_TEXTUREFORMAT_R8_UINT
  | SDL_GPU_TEXTUREFORMAT_R8G8_UINT
  | SDL_GPU_TEXTUREFORMAT_R8G8B8A8_UINT
  | SDL_GPU_TEXTUREFORMAT_R16_UINT
  | SDL_GPU_TEXTUREFORMAT_R16G16_UINT
  | SDL_GPU_TEXTUREFORMAT_R16G16B16A16_UINT
  | SDL_GPU_TEXTUREFORMAT_R8G8B8A8_SRGB
  | SDL_GPU_TEXTUREFORMAT_B8G8R8A8_SRGB
  | SDL_GPU_TEXTUREFORMAT_BC3_SRGB
  | SDL_GPU_TEXTUREFORMAT_BC7_SRGB
  | SDL_GPU_TEXTUREFORMAT_D16_UNORM
  | SDL_GPU_TEXTUREFORMAT_D24_UNORM
  | SDL_GPU_TEXTUREFORMAT_D32_SFLOAT
  | SDL_GPU_TEXTUREFORMAT_D24_UNORM_S8_UINT
  | SDL_GPU_TEXTUREFORMAT_D32_SFLOAT_S8_UINT
  | SDL_GPU_TEXTUREFORMAT_unnamed int

datatype SDL_GpuTextureType = SDL_GPU_TEXTURETYPE_2D | SDL_GPU_TEXTURETYPE_unnamed int

text \<open>
  The create-info structures are declared in a public header that is not among the
  sources. The members this file reads or writes are fields of their own; everything else
  of the structure is one opaque field.
\<close>

record SDL_GpuTextureCreateInfo =
  format :: SDL_GpuTextureFormat
  usageFlags :: Uint32
  textureOtherMembers :: "Uint32 list"

record SDL_GpuGraphicsPipelineAttachmentInfo =
  hasDepthStencilAttachment :: bool
  depthStencilFormat :: SDL_GpuTextureFormat
  attachmentOtherMembers :: "Uint32 list"

record SDL_GpuGraphicsPipelineCreateInfo =
  attachmentInfo :: SDL_GpuGraphicsPipelineAttachmentInfo
  pipelineOtherMembers :: "Uint32 list"

datatype SDL_GpuShaderFormat = SDL_GPU_SHADERFORMAT_SPIRV | SDL_GPU_SHADERFORMAT_unnamed int

record SDL_GpuShaderCreateInfo =
  shaderFormat :: SDL_GpuShaderFormat
  code :: ptr
  codeSize :: nat
  stage :: nat
  entryPointName :: string

text \<open>An argument handed to an entry point of the driver's function table.\<close>

datatype arg =
    Pv ptr
  | Uv Uint32
  | Bv bool
  | Ev nat
  | Sv string
  | Fv SDL_GpuTextureFormat
  | Tv SDL_GpuTextureType
  | TextureInfo SDL_GpuTextureCreateInfo
  | PipelineInfo SDL_GpuGraphicsPipelineCreateInfo
  | ShaderInfo SDL_GpuShaderCreateInfo

text \<open>
  One call that reached a backend: the device it went through, the member of the function
  table that was called, and the arguments in order.
\<close>

type_synonym driver_call = "ptr \<times> string \<times> arg list"

datatype log_arg = ArgFormat SDL_GpuTextureFormat | ArgString string

datatype log_entry =
    LogError string "log_arg list"
  | LogWarn string "log_arg list"
  | SetError string

datatype fault = AssertionFailure | BadPointer

text \<open>
  \<open>SDL_GpuDevice\<close>: the backend identifier, the driver's private data and the function
  table. The backends are external; an entry point is known here by the value it returns
  (a pointer, or an \<open>SDL_bool\<close> where zero is \<open>SDL_FALSE\<close>), which may depend on every
  call that reached a backend before.
\<close>

record SDL_GpuDevice =
  backend :: SDL_GpuBackend
  driverData :: ptr
  table :: "driver_call list \<Rightarrow> string \<Rightarrow> arg list \<Rightarrow> ptr"

text \<open>
  \<open>Pass\<close> and \<open>CommandBufferCommonHeader\<close> are declared in \<open>SDL_gpu_driver.h\<close>, which is
  not among the sources; their members are the ones this file reads and writes, all of
  which \<open>SDL_GpuAcquireCommandBuffer\<close> initialises.
\<close>

record Pass =
  commandBuffer :: ptr
  inProgress :: bool

record CommandBufferCommonHeader =
  device :: ptr
  renderPass :: Pass
  graphicsPipelineBound :: bool
  computePass :: Pass
  computePipelineBound :: bool
  copyPass :: Pass
  submitted :: bool

text \<open>
  The world: the devices and the command buffer headers in memory, the calls that reached
  a backend (latest last), the messages logged (latest last), and whether \<open>SDL_assert\<close>
  is compiled in. \<open>SDL_assert\<close> is a macro of the SDL core: enabled, a failed assertion
  stops the call (should its handler let the call go on, the dereference that follows
  faults); disabled, it expands to nothing. A backend is taken to leave the common header
  of a command buffer and the create-info handed to it as they are.
\<close>

record gpu_state =
  devices :: "ptr \<rightharpoonup> SDL_GpuDevice"
  heap :: "ptr \<rightharpoonup> CommandBufferCommonHeader"
  calls :: "driver_call list"
  logs :: "log_entry list"
  assertions_enabled :: bool

type_synonym 'r outcome = "fault + ('r \<times> gpu_state)"

definition seq :: "fault + 'a \<Rightarrow> ('a \<Rightarrow> fault + 'b) \<Rightarrow> fault + 'b" where
  "seq m k = (case m of Inl f \<Rightarrow> Inl f | Inr x \<Rightarrow> k x)"

definition log_msg :: "log_entry \<Rightarrow> gpu_state \<Rightarrow> gpu_state" where
  "log_msg e s = s\<lparr>logs := logs s @ [e]\<rparr>"

text \<open>Reading a command buffer header through a pointer; a null or wild pointer faults.\<close>

definition header :: "gpu_state \<Rightarrow> ptr \<Rightarrow> fault + CommandBufferCommonHeader" where
  "header s p =
     (if p = NULL then Inl BadPointer
      else case heap s p of None \<Rightarrow> Inl BadPointer | Some h \<Rightarrow> Inr h)"

definition deref_device :: "gpu_state \<Rightarrow> ptr \<Rightarrow> fault + SDL_GpuDevice" where
  "deref_device s p =
     (if p = NULL then Inl BadPointer
      else case devices s p of None \<Rightarrow> Inl BadPointer | Some d \<Rightarrow> Inr d)"

text \<open>\<open>dev->entry(args)\<close>: the call is recorded and the driver's answer returned.\<close>

definition driver_invoke :: "ptr \<Rightarrow> string \<Rightarrow> arg list \<Rightarrow> gpu_state \<Rightarrow> ptr outcome" where
  "driver_invoke dev entry args s =
     seq (deref_device s dev) (\<lambda>d.
       Inr (table d (calls s) entry args, s\<lparr>calls := calls s @ [(dev, entry, args)]\<rparr>))"

text \<open>\<open>device->entry(device->driverData, args)\<close>\<close>

definition device_call :: "ptr \<Rightarrow> string \<Rightarrow> arg list \<Rightarrow> gpu_state \<Rightarrow> ptr outcome" where
  "device_call dev entry args s =
     seq (deref_device s dev) (\<lambda>d. driver_invoke dev entry (Pv (driverData d) # args) s)"

definition void :: "ptr outcome \<Rightarrow> unit outcome" where
  "void m = seq m (\<lambda>(r, s). Inr ((), s))"

section \<open>The validation macros\<close>

text \<open>
  Each macro either leaves the function early or falls through to the rest of the body,
  which is its last argument.
\<close>

definition NULL_ASSERT :: "ptr \<Rightarrow> gpu_state \<Rightarrow> 'r outcome \<Rightarrow> 'r outcome" where
  "NULL_ASSERT name s rest =
     (if name = NULL \<and> assertions_enabled s then Inl AssertionFailure else rest)"

definition CHECK_COMMAND_BUFFER :: "ptr \<Rightarrow> gpu_state \<Rightarrow> unit outcome \<Rightarrow> unit outcome" where
  "CHECK_COMMAND_BUFFER cb s rest =
     (if cb = NULL then Inr ((), s)
      else seq (header s cb) (\<lambda>h.
        if submitted h
        then Inr ((), log_msg (LogError ''Command buffer already submitted!'' []) s)
        else rest))"

definition CHECK_COMMAND_BUFFER_RETURN_NULL :: "ptr \<Rightarrow> gpu_state \<Rightarrow> ptr outcome \<Rightarrow> ptr outcome" where
  "CHECK_COMMAND_BUFFER_RETURN_NULL cb s rest =
     (if cb = NULL then Inr (NULL, s)
      else seq (header s cb) (\<lambda>h.
        if submitted h
        then Inr (NULL, log_msg (LogError ''Command buffer already submitted!'' []) s)
        else rest))"

definition CHECK_ANY_PASS_IN_PROGRESS :: "ptr \<Rightarrow> gpu_state \<Rightarrow> ptr outcome \<Rightarrow> ptr outcome" where
  "CHECK_ANY_PASS_IN_PROGRESS cb s rest =
     seq (header s cb) (\<lambda>h.
       if inProgress (renderPass h) \<or> inProgress (computePass h) \<or> inProgress (copyPass h)
       then Inr (NULL, log_msg (LogError ''Pass already in progress!'' []) s)
       else rest)"

definition CHECK_RENDERPASS :: "ptr \<Rightarrow> gpu_state \<Rightarrow> unit outcome \<Rightarrow> unit outcome" where
  "CHECK_RENDERPASS rp s rest =
     seq (header s rp) (\<lambda>p.
       if \<not> inProgress (renderPass p)
       then Inr ((), log_msg (LogError ''Render pass not in progress!'' []) s)
       else rest)"

definition RENDERPASS_COMMAND_BUFFER :: "gpu_state \<Rightarrow> ptr \<Rightarrow> fault + ptr" where
  "RENDERPASS_COMMAND_BUFFER s rp = seq (header s rp) (\<lambda>p. Inr (commandBuffer (renderPass p)))"

definition RENDERPASS_DEVICE :: "gpu_state \<Rightarrow> ptr \<Rightarrow> fault + ptr" where
  "RENDERPASS_DEVICE s rp =
     seq (RENDERPASS_COMMAND_BUFFER s rp) (\<lambda>cb. seq (header s cb) (\<lambda>h. Inr (device h)))"

definition CHECK_GRAPHICS_PIPELINE_BOUND :: "ptr \<Rightarrow> gpu_state \<Rightarrow> unit outcome \<Rightarrow> unit outcome" where
  "CHECK_GRAPHICS_PIPELINE_BOUND rp s rest =
     seq (RENDERPASS_COMMAND_BUFFER s rp) (\<lambda>cb. seq (header s cb) (\<lambda>h.
       if \<not> graphicsPipelineBound h
       then Inr ((), log_msg (LogError ''Graphics pipeline not bound!'' []) s)
       else rest))"

definition CHECK_COMPUTEPASS :: "ptr \<Rightarrow> gpu_state \<Rightarrow> unit outcome \<Rightarrow> unit outcome" where
  "CHECK_COMPUTEPASS cp s rest =
     seq (header s cp) (\<lambda>p.
       if \<not> inProgress (computePass p)
       then Inr ((), log_msg (LogError ''Compute pass not in progress!'' []) s)
       else rest)"

definition COMPUTEPASS_COMMAND_BUFFER :: "gpu_state \<Rightarrow> ptr \<Rightarrow> fault + ptr" where
  "COMPUTEPASS_COMMAND_BUFFER s cp = seq (header s cp) (\<lambda>p. Inr (commandBuffer (computePass p)))"

definition COMPUTEPASS_DEVICE :: "gpu_state \<Rightarrow> ptr \<Rightarrow> fault + ptr" where
  "COMPUTEPASS_DEVICE s cp =
     seq (COMPUTEPASS_COMMAND_BUFFER s cp) (\<lambda>cb. seq (header s cb) (\<lambda>h. Inr (device h)))"

definition CHECK_COMPUTE_PIPELINE_BOUND :: "ptr \<Rightarrow> gpu_state \<Rightarrow> unit outcome \<Rightarrow> unit outcome" where
  "CHECK_COMPUTE_PIPELINE_BOUND cp s rest =
     seq (COMPUTEPASS_COMMAND_BUFFER s cp) (\<lambda>cb. seq (header s cb) (\<lambda>h.
       if \<not> computePipelineBound h
       then Inr ((), log_msg (LogError ''Compute pipeline not bound!'' []) s)
       else rest))"

definition CHECK_COPYPASS :: "ptr \<Rightarrow> gpu_state \<Rightarrow> unit outcome \<Rightarrow> unit outcome" where
  "CHECK_COPYPASS xp s rest =
     seq (header s xp) (\<lambda>p.
       if \<not> inProgress (copyPass p)
       then Inr ((), log_msg (LogError ''Copy pass not in progress!'' []) s)
       else rest)"

definition COPYPASS_COMMAND_BUFFER :: "gpu_state \<Rightarrow> ptr \<Rightarrow> fault + ptr" where
  "COPYPASS_COMMAND_BUFFER s xp = seq (header s xp) (\<lambda>p. Inr (commandBuffer (copyPass p)))"

definition COPYPASS_DEVICE :: "gpu_state \<Rightarrow> ptr \<Rightarrow> fault + ptr" where
  "COPYPASS_DEVICE s xp =
     seq (COPYPASS_COMMAND_BUFFER s xp) (\<lambda>cb. seq (header s cb) (\<lambda>h. Inr (device h)))"

definition COMMAND_BUFFER_DEVICE :: "gpu_state \<Rightarrow> ptr \<Rightarrow> fault + ptr" where
  "COMMAND_BUFFER_DEVICE s cb = seq (header s cb) (\<lambda>h. Inr (device h))"

text \<open>
  The forwarding statements \<open>X_DEVICE->Entry(X_COMMAND_BUFFER, args)\<close> of the three pass
  kinds and \<open>COMMAND_BUFFER_DEVICE->Entry(commandBuffer, args)\<close>.
\<close>

definition renderpass_forward :: "ptr \<Rightarrow> string \<Rightarrow> arg list \<Rightarrow> gpu_state \<Rightarrow> ptr outcome" where
  "renderpass_forward rp entry args s =
     seq (RENDERPASS_DEVICE s rp) (\<lambda>dev. seq (RENDERPASS_COMMAND_BUFFER s rp) (\<lambda>cb.
       driver_invoke dev entry (Pv cb # args) s))"

definition computepass_forward :: "ptr \<Rightarrow> string \<Rightarrow> arg list \<Rightarrow> gpu_state \<Rightarrow> ptr outcome" where
  "computepass_forward cp entry args s =
     seq (COMPUTEPASS_DEVICE s cp) (\<lambda>dev. seq (COMPUTEPASS_COMMAND_BUFFER s cp) (\<lambda>cb.
       driver_invoke dev entry (Pv cb # args) s))"

definition copypass_forward :: "ptr \<Rightarrow> string \<Rightarrow> arg list \<Rightarrow> gpu_state \<Rightarrow> ptr outcome" where
  "copypass_forward xp entry args s =
     seq (COPYPASS_DEVICE s xp) (\<lambda>dev. seq (COPYPASS_COMMAND_BUFFER s xp) (\<lambda>cb.
       driver_invoke dev entry (Pv cb # args) s))"

definition command_buffer_forward :: "ptr \<Rightarrow> string \<Rightarrow> arg list \<Rightarrow> gpu_state \<Rightarrow> ptr outcome" where
  "command_buffer_forward cb entry args s =
     seq (COMMAND_BUFFER_DEVICE s cb) (\<lambda>dev. driver_invoke dev entry (Pv cb # args) s)"

text \<open>Writing one member of a header in place.\<close>

definition store :: "ptr \<Rightarrow> (CommandBufferCommonHeader \<Rightarrow> CommandBufferCommonHeader) \<Rightarrow> gpu_state \<Rightarrow> fault + gpu_state" where
  "store p upd s = seq (header s p) (\<lambda>h. Inr (s\<lparr>heap := (heap s)(p \<mapsto> upd h)\<rparr>))"

section \<open>Render pass\<close>

definition SDL_GpuBeginRenderPass :: "ptr \<Rightarrow> ptr \<Rightarrow> Uint32 \<Rightarrow> ptr \<Rightarrow> gpu_state \<Rightarrow> ptr outcome" where
  "SDL_GpuBeginRenderPass cb colorAttachmentInfos colorAttachmentCount depthStencilAttachmentInfo s =
     CHECK_COMMAND_BUFFER_RETURN_NULL cb s (
     CHECK_ANY_PASS_IN_PROGRESS cb s (
     seq (command_buffer_forward cb ''BeginRenderPass''
            [Pv colorAttachmentInfos, Uv colorAttachmentCount, Pv depthStencilAttachmentInfo] s) (\<lambda>(r, s1).
     seq (store cb (\<lambda>h. h\<lparr>renderPass := (renderPass h)\<lparr>inProgress := True\<rparr>\<rparr>) s1) (\<lambda>s2.
     Inr (cb, s2)))))"

definition SDL_GpuBindGraphicsPipeline :: "ptr \<Rightarrow> ptr \<Rightarrow> gpu_state \<Rightarrow> unit outcome" where
  "SDL_GpuBindGraphicsPipeline rp graphicsPipeline s =
     NULL_ASSERT rp s (
     seq (renderpass_forward rp ''BindGraphicsPipeline'' [Pv graphicsPipeline] s) (\<lambda>(r, s1).
     seq (RENDERPASS_COMMAND_BUFFER s1 rp) (\<lambda>cb.
     seq (store cb (\<lambda>h. h\<lparr>graphicsPipelineBound := True\<rparr>) s1) (\<lambda>s2.
     Inr ((), s2)))))"

definition SDL_GpuEndRenderPass :: "ptr \<Rightarrow> gpu_state \<Rightarrow> unit outcome" where
  "SDL_GpuEndRenderPass rp s =
     NULL_ASSERT rp s (
     CHECK_RENDERPASS rp s (
     seq (renderpass_forward rp ''EndRenderPass'' [] s) (\<lambda>(r, s1).
     seq (RENDERPASS_COMMAND_BUFFER s1 rp) (\<lambda>cb.
     seq (store cb (\<lambda>h. h\<lparr>renderPass := (renderPass h)\<lparr>inProgress := False\<rparr>\<rparr>) s1) (\<lambda>s2.
     seq (store cb (\<lambda>h. h\<lparr>graphicsPipelineBound := False\<rparr>) s2) (\<lambda>s3.
     Inr ((), s3)))))))"

definition SDL_GpuSetViewport :: "ptr \<Rightarrow> ptr \<Rightarrow> gpu_state \<Rightarrow> unit outcome" where
  "SDL_GpuSetViewport rp viewport s =
     NULL_ASSERT rp s (
     CHECK_RENDERPASS rp s (
     void (renderpass_forward rp ''SetViewport'' [Pv viewport] s)))"

definition SDL_GpuSetScissor :: "ptr \<Rightarrow> ptr \<Rightarrow> gpu_state \<Rightarrow> unit outcome" where
  "SDL_GpuSetScissor rp scissor s =
     NULL_ASSERT rp s (
     CHECK_RENDERPASS rp s (
     void (renderpass_forward rp ''SetScissor'' [Pv scissor] s)))"

definition SDL_GpuBindVertexBuffers :: "ptr \<Rightarrow> Uint32 \<Rightarrow> ptr \<Rightarrow> Uint32 \<Rightarrow> gpu_state \<Rightarrow> unit outcome" where
  "SDL_GpuBindVertexBuffers rp firstBinding pBindings bindingCount s =
     NULL_ASSERT rp s (
     CHECK_RENDERPASS rp s (
     CHECK_GRAPHICS_PIPELINE_BOUND rp s (
     void (renderpass_forward rp ''BindVertexBuffers'' [Uv firstBinding, Pv pBindings, Uv bindingCount] s))))"

definition SDL_GpuBindIndexBuffer :: "ptr \<Rightarrow> ptr \<Rightarrow> nat \<Rightarrow> gpu_state \<Rightarrow> unit outcome" where
  "SDL_GpuBindIndexBuffer rp pBinding indexElementSize s =
     NULL_ASSERT rp s (
     CHECK_RENDERPASS rp s (
     CHECK_GRAPHICS_PIPELINE_BOUND rp s (
     void (renderpass_forward rp ''BindIndexBuffer'' [Pv pBinding, Ev indexElementSize] s))))"

definition SDL_GpuBindVertexSamplers :: "ptr \<Rightarrow> Uint32 \<Rightarrow> ptr \<Rightarrow> Uint32 \<Rightarrow> gpu_state \<Rightarrow> unit outcome" where
  "SDL_GpuBindVertexSamplers rp firstSlot textureSamplerBindings bindingCount s =
     NULL_ASSERT rp s (
     CHECK_RENDERPASS rp s (
     CHECK_GRAPHICS_PIPELINE_BOUND rp s (
     void (renderpass_forward rp ''BindVertexSamplers'' [Uv firstSlot, Pv textureSamplerBindings, Uv bindingCount] s))))"

definition SDL_GpuBindVertexStorageTextures :: "ptr \<Rightarrow> Uint32 \<Rightarrow> ptr \<Rightarrow> Uint32 \<Rightarrow> gpu_state \<Rightarrow> unit outcome" where
  "SDL_GpuBindVertexStorageTextures rp firstSlot storageTextureSlices bindingCount s =
     NULL_ASSERT rp s (
     CHECK_RENDERPASS rp s (
     CHECK_GRAPHICS_PIPELINE_BOUND rp s (
     void (renderpass_forward rp ''BindVertexStorageTextures'' [Uv firstSlot, Pv storageTextureSlices, Uv bindingCount] s))))"

definition SDL_GpuBindVertexStorageBuffers :: "ptr \<Rightarrow> Uint32 \<Rightarrow> ptr \<Rightarrow> Uint32 \<Rightarrow> gpu_state \<Rightarrow> unit outcome" where
  "SDL_GpuBindVertexStorageBuffers rp firstSlot storageBuffers bindingCount s =
     NULL_ASSERT rp s (
     CHECK_RENDERPASS rp s (
     CHECK_GRAPHICS_PIPELINE_BOUND rp s (
     void (renderpass_forward rp ''BindVertexStorageBuffers'' [Uv firstSlot, Pv storageBuffers, Uv bindingCount] s))))"

definition SDL_GpuBindFragmentSamplers :: "ptr \<Rightarrow> Uint32 \<Rightarrow> ptr \<Rightarrow> Uint32 \<Rightarrow> gpu_state \<Rightarrow> unit outcome" where
  "SDL_GpuBindFragmentSamplers rp firstSlot textureSamplerBindings bindingCount s =
     NULL_ASSERT rp s (
     CHECK_RENDERPASS rp s (
     CHECK_GRAPHICS_PIPELINE_BOUND rp s (
     void (renderpass_forward rp ''BindFragmentSamplers'' [Uv firstSlot, Pv textureSamplerBindings, Uv bindingCount] s))))"

definition SDL_GpuBindFragmentStorageTextures :: "ptr \<Rightarrow> Uint32 \<Rightarrow> ptr \<Rightarrow> Uint32 \<Rightarrow> gpu_state \<Rightarrow> unit outcome" where
  "SDL_GpuBindFragmentStorageTextures rp firstSlot storageTextureSlices bindingCount s =
     NULL_ASSERT rp s (
     CHECK_RENDERPASS rp s (
     CHECK_GRAPHICS_PIPELINE_BOUND rp s (
     void (renderpass_forward rp ''BindFragmentStorageTextures'' [Uv firstSlot, Pv storageTextureSlices, Uv bindingCount] s))))"

definition SDL_GpuBindFragmentStorageBuffers :: "ptr \<Rightarrow> Uint32 \<Rightarrow> ptr \<Rightarrow> Uint32 \<Rightarrow> gpu_state \<Rightarrow> unit outcome" where
  "SDL_GpuBindFragmentStorageBuffers rp firstSlot storageBuffers bindingCount s =
     NULL_ASSERT rp s (
     CHECK_RENDERPASS rp s (
     CHECK_GRAPHICS_PIPELINE_BOUND rp s (
     void (renderpass_forward rp ''BindFragmentStorageBuffers'' [Uv firstSlot, Pv storageBuffers, Uv bindingCount] s))))"

definition SDL_GpuPushVertexUniformData :: "ptr \<Rightarrow> Uint32 \<Rightarrow> ptr \<Rightarrow> Uint32 \<Rightarrow> gpu_state \<Rightarrow> unit outcome" where
  "SDL_GpuPushVertexUniformData rp slotIndex data dataLengthInBytes s =
     NULL_ASSERT rp s (
     CHECK_RENDERPASS rp s (
     CHECK_GRAPHICS_PIPELINE_BOUND rp s (
     void (renderpass_forward rp ''PushVertexUniformData'' [Uv slotIndex, Pv data, Uv dataLengthInBytes] s))))"

definition SDL_GpuPushFragmentUniformData :: "ptr \<Rightarrow> Uint32 \<Rightarrow> ptr \<Rightarrow> Uint32 \<Rightarrow> gpu_state \<Rightarrow> unit outcome" where
  "SDL_GpuPushFragmentUniformData rp slotIndex data dataLengthInBytes s =
     NULL_ASSERT rp s (
     CHECK_RENDERPASS rp s (
     CHECK_GRAPHICS_PIPELINE_BOUND rp s (
     void (renderpass_forward rp ''PushFragmentUniformData'' [Uv slotIndex, Pv data, Uv dataLengthInBytes] s))))"

definition SDL_GpuDrawIndexedPrimitives :: "ptr \<Rightarrow> Uint32 \<Rightarrow> Uint32 \<Rightarrow> Uint32 \<Rightarrow> Uint32 \<Rightarrow> gpu_state \<Rightarrow> unit outcome" where
  "SDL_GpuDrawIndexedPrimitives rp baseVertex startIndex primitiveCount instanceCount s =
     NULL_ASSERT rp s (
     CHECK_RENDERPASS rp s (
     CHECK_GRAPHICS_PIPELINE_BOUND rp s (
     void (renderpass_forward rp ''DrawIndexedPrimitives'' [Uv baseVertex, Uv startIndex, Uv primitiveCount, Uv instanceCount] s))))"

definition SDL_GpuDrawPrimitives :: "ptr \<Rightarrow> Uint32 \<Rightarrow> Uint32 \<Rightarrow> gpu_state \<Rightarrow> unit outcome" where
  "SDL_GpuDrawPrimitives rp vertexStart primitiveCount s =
     NULL_ASSERT rp s (
     CHECK_RENDERPASS rp s (
     CHECK_GRAPHICS_PIPELINE_BOUND rp s (
     void (renderpass_forward rp ''DrawPrimitives'' [Uv vertexStart, Uv primitiveCount] s))))"

definition SDL_GpuDrawPrimitivesIndirect :: "ptr \<Rightarrow> ptr \<Rightarrow> Uint32 \<Rightarrow> Uint32 \<Rightarrow> Uint32 \<Rightarrow> gpu_state \<Rightarrow> unit outcome" where
  "SDL_GpuDrawPrimitivesIndirect rp buffer offsetInBytes drawCount stride s =
     NULL_ASSERT rp s (
     CHECK_RENDERPASS rp s (
     CHECK_GRAPHICS_PIPELINE_BOUND rp s (
     void (renderpass_forward rp ''DrawPrimitivesIndirect'' [Pv buffer, Uv offsetInBytes, Uv drawCount, Uv stride] s))))"

definition SDL_GpuDrawIndexedPrimitivesIndirect :: "ptr \<Rightarrow> ptr \<Rightarrow> Uint32 \<Rightarrow> Uint32 \<Rightarrow> Uint32 \<Rightarrow> gpu_state \<Rightarrow> unit outcome" where
  "SDL_GpuDrawIndexedPrimitivesIndirect rp buffer offsetInBytes drawCount stride s =
     NULL_ASSERT rp s (
     CHECK_RENDERPASS rp s (
     CHECK_GRAPHICS_PIPELINE_BOUND rp s (
     void (renderpass_forward rp ''DrawIndexedPrimitivesIndirect'' [Pv buffer, Uv offsetInBytes, Uv drawCount, Uv stride] s))))"

section \<open>Compute pass\<close>

definition SDL_GpuBeginComputePass :: "ptr \<Rightarrow> ptr \<Rightarrow> Uint32 \<Rightarrow> ptr \<Rightarrow> Uint32 \<Rightarrow> gpu_state \<Rightarrow> ptr outcome" where
  "SDL_GpuBeginComputePass cb storageTextureBindings storageTextureBindingCount
       storageBufferBindings storageBufferBindingCount s =
     CHECK_COMMAND_BUFFER_RETURN_NULL cb s (
     CHECK_ANY_PASS_IN_PROGRESS cb s (
     seq (command_buffer_forward cb ''BeginComputePass''
            [Pv storageTextureBindings, Uv storageTextureBindingCount,
             Pv storageBufferBindings, Uv storageBufferBindingCount] s) (\<lambda>(r, s1).
     seq (store cb (\<lambda>h. h\<lparr>computePass := (computePass h)\<lparr>inProgress := True\<rparr>\<rparr>) s1) (\<lambda>s2.
     Inr (cb, s2)))))"

definition SDL_GpuBindComputePipeline :: "ptr \<Rightarrow> ptr \<Rightarrow> gpu_state \<Rightarrow> unit outcome" where
  "SDL_GpuBindComputePipeline cp computePipeline s =
     NULL_ASSERT cp s (
     CHECK_COMPUTEPASS cp s (
     seq (computepass_forward cp ''BindComputePipeline'' [Pv computePipeline] s) (\<lambda>(r, s1).
     seq (COMPUTEPASS_COMMAND_BUFFER s1 cp) (\<lambda>cb.
     seq (store cb (\<lambda>h. h\<lparr>computePipelineBound := True\<rparr>) s1) (\<lambda>s2.
     Inr ((), s2))))))"

definition SDL_GpuBindComputeStorageTextures :: "ptr \<Rightarrow> Uint32 \<Rightarrow> ptr \<Rightarrow> Uint32 \<Rightarrow> gpu_state \<Rightarrow> unit outcome" where
  "SDL_GpuBindComputeStorageTextures cp firstSlot storageTextureSlices bindingCount s =
     NULL_ASSERT cp s (
     CHECK_COMPUTEPASS cp s (
     CHECK_COMPUTE_PIPELINE_BOUND cp s (
     void (computepass_forward cp ''BindComputeStorageTextures'' [Uv firstSlot, Pv storageTextureSlices, Uv bindingCount] s))))"

definition SDL_GpuBindComputeStorageBuffers :: "ptr \<Rightarrow> Uint32 \<Rightarrow> ptr \<Rightarrow> Uint32 \<Rightarrow> gpu_state \<Rightarrow> unit outcome" where
  "SDL_GpuBindComputeStorageBuffers cp firstSlot storageBuffers bindingCount s =
     NULL_ASSERT cp s (
     CHECK_COMPUTEPASS cp s (
     CHECK_COMPUTE_PIPELINE_BOUND cp s (
     void (computepass_forward cp ''BindComputeStorageBuffers'' [Uv firstSlot, Pv storageBuffers, Uv bindingCount] s))))"

definition SDL_GpuPushComputeUniformData :: "ptr \<Rightarrow> Uint32 \<Rightarrow> ptr \<Rightarrow> Uint32 \<Rightarrow> gpu_state \<Rightarrow> unit outcome" where
  "SDL_GpuPushComputeUniformData cp slotIndex data dataLengthInBytes s =
     NULL_ASSERT cp s (
     CHECK_COMPUTEPASS cp s (
     CHECK_COMPUTE_PIPELINE_BOUND cp s (
     void (computepass_forward cp ''PushComputeUniformData'' [Uv slotIndex, Pv data, Uv dataLengthInBytes] s))))"

definition SDL_GpuDispatchCompute :: "ptr \<Rightarrow> Uint32 \<Rightarrow> Uint32 \<Rightarrow> Uint32 \<Rightarrow> gpu_state \<Rightarrow> unit outcome" where
  "SDL_GpuDispatchCompute cp groupCountX groupCountY groupCountZ s =
     NULL_ASSERT cp s (
     CHECK_COMPUTEPASS cp s (
     CHECK_COMPUTE_PIPELINE_BOUND cp s (
     void (computepass_forward cp ''DispatchCompute'' [Uv groupCountX, Uv groupCountY, Uv groupCountZ] s))))"

definition SDL_GpuEndComputePass :: "ptr \<Rightarrow> gpu_state \<Rightarrow> unit outcome" where
  "SDL_GpuEndComputePass cp s =
     NULL_ASSERT cp s (
     CHECK_COMPUTEPASS cp s (
     seq (computepass_forward cp ''EndComputePass'' [] s) (\<lambda>(r, s1).
     seq (COMPUTEPASS_COMMAND_BUFFER s1 cp) (\<lambda>cb.
     seq (store cb (\<lambda>h. h\<lparr>computePass := (computePass h)\<lparr>inProgress := False\<rparr>\<rparr>) s1) (\<lambda>s2.
     seq (store cb (\<lambda>h. h\<lparr>computePipelineBound := False\<rparr>) s2) (\<lambda>s3.
     Inr ((), s3)))))))"

section \<open>Copy pass\<close>

definition SDL_GpuBeginCopyPass :: "ptr \<Rightarrow> gpu_state \<Rightarrow> ptr outcome" where
  "SDL_GpuBeginCopyPass cb s =
     CHECK_COMMAND_BUFFER_RETURN_NULL cb s (
     CHECK_ANY_PASS_IN_PROGRESS cb s (
     seq (command_buffer_forward cb ''BeginCopyPass'' [] s) (\<lambda>(r, s1).
     seq (store cb (\<lambda>h. h\<lparr>copyPass := (copyPass h)\<lparr>inProgress := True\<rparr>\<rparr>) s1) (\<lambda>s2.
     Inr (cb, s2)))))"

definition SDL_GpuUploadToTexture :: "ptr \<Rightarrow> ptr \<Rightarrow> ptr \<Rightarrow> ptr \<Rightarrow> bool \<Rightarrow> gpu_state \<Rightarrow> unit outcome" where
  "SDL_GpuUploadToTexture xp transferBuffer textureRegion copyParams cycle s =
     NULL_ASSERT xp s (
     CHECK_COPYPASS xp s (
     void (copypass_forward xp ''UploadToTexture'' [Pv transferBuffer, Pv textureRegion, Pv copyParams, Bv cycle] s)))"

definition SDL_GpuUploadToBuffer :: "ptr \<Rightarrow> ptr \<Rightarrow> ptr \<Rightarrow> ptr \<Rightarrow> bool \<Rightarrow> gpu_state \<Rightarrow> unit outcome" where
  "SDL_GpuUploadToBuffer xp transferBuffer buffer copyParams cycle s =
     NULL_ASSERT xp s (
     void (copypass_forward xp ''UploadToBuffer'' [Pv transferBuffer, Pv buffer, Pv copyParams, Bv cycle] s))"

definition SDL_GpuCopyTextureToTexture :: "ptr \<Rightarrow> ptr \<Rightarrow> ptr \<Rightarrow> bool \<Rightarrow> gpu_state \<Rightarrow> unit outcome" where
  "SDL_GpuCopyTextureToTexture xp source destination cycle s =
     NULL_ASSERT xp s (
     void (copypass_forward xp ''CopyTextureToTexture'' [Pv source, Pv destination, Bv cycle] s))"

definition SDL_GpuCopyBufferToBuffer :: "ptr \<Rightarrow> ptr \<Rightarrow> ptr \<Rightarrow> ptr \<Rightarrow> bool \<Rightarrow> gpu_state \<Rightarrow> unit outcome" where
  "SDL_GpuCopyBufferToBuffer xp source destination copyParams cycle s =
     NULL_ASSERT xp s (
     void (copypass_forward xp ''CopyBufferToBuffer'' [Pv source, Pv destination, Pv copyParams, Bv cycle] s))"

definition SDL_GpuGenerateMipmaps :: "ptr \<Rightarrow> ptr \<Rightarrow> gpu_state \<Rightarrow> unit outcome" where
  "SDL_GpuGenerateMipmaps xp texture s =
     NULL_ASSERT xp s (
     void (copypass_forward xp ''GenerateMipmaps'' [Pv texture] s))"

definition SDL_GpuDownloadFromTexture :: "ptr \<Rightarrow> ptr \<Rightarrow> ptr \<Rightarrow> ptr \<Rightarrow> gpu_state \<Rightarrow> unit outcome" where
  "SDL_GpuDownloadFromTexture xp textureRegion transferBuffer copyParams s =
     NULL_ASSERT xp s (
     void (copypass_forward xp ''DownloadFromTexture'' [Pv textureRegion, Pv transferBuffer, Pv copyParams] s))"

definition SDL_GpuDownloadFromBuffer :: "ptr \<Rightarrow> ptr \<Rightarrow> ptr \<Rightarrow> ptr \<Rightarrow> gpu_state \<Rightarrow> unit outcome" where
  "SDL_GpuDownloadFromBuffer xp buffer transferBuffer copyParams s =
     NULL_ASSERT xp s (
     void (copypass_forward xp ''DownloadFromBuffer'' [Pv buffer, Pv transferBuffer, Pv copyParams] s))"

definition SDL_GpuEndCopyPass :: "ptr \<Rightarrow> gpu_state \<Rightarrow> unit outcome" where
  "SDL_GpuEndCopyPass xp s =
     NULL_ASSERT xp s (
     CHECK_COPYPASS xp s (
     seq (copypass_forward xp ''EndCopyPass'' [] s) (\<lambda>(r, s1).
     seq (COPYPASS_COMMAND_BUFFER s1 xp) (\<lambda>cb.
     seq (store cb (\<lambda>h. h\<lparr>copyPass := (copyPass h)\<lparr>inProgress := False\<rparr>\<rparr>) s1) (\<lambda>s2.
     Inr ((), s2))))))"

section \<open>Other command buffer functions\<close>

definition SDL_GpuSetStringMarker :: "ptr \<Rightarrow> string \<Rightarrow> gpu_state \<Rightarrow> unit outcome" where
  "SDL_GpuSetStringMarker cb text s =
     CHECK_COMMAND_BUFFER cb s (
     void (command_buffer_forward cb ''SetStringMarker'' [Sv text] s))"

definition SDL_GpuBlit :: "ptr \<Rightarrow> ptr \<Rightarrow> ptr \<Rightarrow> nat \<Rightarrow> bool \<Rightarrow> gpu_state \<Rightarrow> unit outcome" where
  "SDL_GpuBlit cb source destination filterMode cycle s =
     CHECK_COMMAND_BUFFER cb s (
     void (command_buffer_forward cb ''Blit'' [Pv source, Pv destination, Ev filterMode, Bv cycle] s))"

definition SDL_GpuOcclusionQueryBegin :: "ptr \<Rightarrow> ptr \<Rightarrow> gpu_state \<Rightarrow> unit outcome" where
  "SDL_GpuOcclusionQueryBegin cb query s =
     NULL_ASSERT cb s (
     void (command_buffer_forward cb ''OcclusionQueryBegin'' [Pv query] s))"

definition SDL_GpuOcclusionQueryEnd :: "ptr \<Rightarrow> ptr \<Rightarrow> gpu_state \<Rightarrow> unit outcome" where
  "SDL_GpuOcclusionQueryEnd cb query s =
     NULL_ASSERT cb s (
     void (command_buffer_forward cb ''OcclusionQueryEnd'' [Pv query] s))"

definition SDL_GpuAcquireSwapchainTexture :: "ptr \<Rightarrow> ptr \<Rightarrow> ptr \<Rightarrow> ptr \<Rightarrow> gpu_state \<Rightarrow> ptr outcome" where
  "SDL_GpuAcquireSwapchainTexture cb window pWidth pHeight s =
     CHECK_COMMAND_BUFFER_RETURN_NULL cb s (
     command_buffer_forward cb ''AcquireSwapchainTexture'' [Pv window, Pv pWidth, Pv pHeight] s)"

section \<open>Acquisition and submission\<close>

definition SDL_GpuAcquireCommandBuffer :: "ptr \<Rightarrow> gpu_state \<Rightarrow> ptr outcome" where
  "SDL_GpuAcquireCommandBuffer dev s =
     NULL_ASSERT dev s (
     seq (device_call dev ''AcquireCommandBuffer'' [] s) (\<lambda>(cb, s1).
     if cb = NULL then Inr (NULL, s1)
     else Inr (cb, s1\<lparr>heap := (heap s1)(cb \<mapsto>
       \<lparr>device = dev,
        renderPass = \<lparr>commandBuffer = cb, inProgress = False\<rparr>,
        graphicsPipelineBound = False,
        computePass = \<lparr>commandBuffer = cb, inProgress = False\<rparr>,
        computePipelineBound = False,
        copyPass = \<lparr>commandBuffer = cb, inProgress = False\<rparr>,
        submitted = False\<rparr>)\<rparr>)))"

definition SDL_GpuSubmit :: "ptr \<Rightarrow> gpu_state \<Rightarrow> unit outcome" where
  "SDL_GpuSubmit cb s =
     CHECK_COMMAND_BUFFER cb s (
     seq (header s cb) (\<lambda>h.
     if inProgress (renderPass h) \<or> inProgress (computePass h) \<or> inProgress (copyPass h)
     then Inr ((), log_msg (LogError ''Cannot submit command buffer while a pass is in progress!'' []) s)
     else
     seq (store cb (\<lambda>h. h\<lparr>submitted := True\<rparr>) s) (\<lambda>s1.
     void (command_buffer_forward cb ''Submit'' [] s1))))"

definition SDL_GpuSubmitAndAcquireFence :: "ptr \<Rightarrow> gpu_state \<Rightarrow> ptr outcome" where
  "SDL_GpuSubmitAndAcquireFence cb s =
     CHECK_COMMAND_BUFFER_RETURN_NULL cb s (
     seq (header s cb) (\<lambda>h.
     if inProgress (renderPass h) \<or> inProgress (computePass h) \<or> inProgress (copyPass h)
     then Inr (NULL, log_msg (LogError ''Cannot submit command buffer while a pass is in progress!'' []) s)
     else
     seq (store cb (\<lambda>h. h\<lparr>submitted := True\<rparr>) s) (\<lambda>s1.
     command_buffer_forward cb ''SubmitAndAcquireFence'' [] s1)))"

section \<open>Resource creation and disposal\<close>

text \<open>
  \<open>IsDepthFormat\<close> and the usage bit \<open>SDL_GPU_TEXTUREUSAGE_DEPTH_STENCIL_TARGET_BIT\<close>
  come from headers that are not among the sources; the functions that use them take them
  as their first argument.
\<close>

text \<open>
  The switch over the requested format, as it stands in \<open>SDL_GpuCreateTexture\<close> and
  again in \<open>SDL_GpuCreateGraphicsPipeline\<close>, and the warning both log.
\<close>

definition texture_depth_fallback :: "SDL_GpuTextureFormat \<Rightarrow> SDL_GpuTextureFormat" where
  "texture_depth_fallback f =
     (case f of
        SDL_GPU_TEXTUREFORMAT_D24_UNORM \<Rightarrow> SDL_GPU_TEXTUREFORMAT_D32_SFLOAT
      | SDL_GPU_TEXTUREFORMAT_D32_SFLOAT \<Rightarrow> SDL_GPU_TEXTUREFORMAT_D24_UNORM
      | SDL_GPU_TEXTUREFORMAT_D24_UNORM_S8_UINT \<Rightarrow> SDL_GPU_TEXTUREFORMAT_D32_SFLOAT_S8_UINT
      | SDL_GPU_TEXTUREFORMAT_D32_SFLOAT_S8_UINT \<Rightarrow> SDL_GPU_TEXTUREFORMAT_D24_UNORM_S8_UINT
      | _ \<Rightarrow> SDL_GPU_TEXTUREFORMAT_D16_UNORM)"

definition pipeline_depth_fallback :: "SDL_GpuTextureFormat \<Rightarrow> SDL_GpuTextureFormat" where
  "pipeline_depth_fallback f =
     (case f of
        SDL_GPU_TEXTUREFORMAT_D24_UNORM \<Rightarrow> SDL_GPU_TEXTUREFORMAT_D32_SFLOAT
      | SDL_GPU_TEXTUREFORMAT_D32_SFLOAT \<Rightarrow> SDL_GPU_TEXTUREFORMAT_D24_UNORM
      | SDL_GPU_TEXTUREFORMAT_D24_UNORM_S8_UINT \<Rightarrow> SDL_GPU_TEXTUREFORMAT_D32_SFLOAT_S8_UINT
      | SDL_GPU_TEXTUREFORMAT_D32_SFLOAT_S8_UINT \<Rightarrow> SDL_GPU_TEXTUREFORMAT_D24_UNORM_S8_UINT
      | _ \<Rightarrow> SDL_GPU_TEXTUREFORMAT_D16_UNORM)"

text \<open>
  The create-info is passed by a pointer, taken to be valid, and may be written; the
  functions return the driver's result together with the structure as the call leaves it.
\<close>

definition SDL_GpuCreateTexture ::
  "(SDL_GpuTextureFormat \<Rightarrow> bool) \<Rightarrow> ptr \<Rightarrow> SDL_GpuTextureCreateInfo \<Rightarrow> gpu_state
     \<Rightarrow> (ptr \<times> SDL_GpuTextureCreateInfo) outcome" where
  "SDL_GpuCreateTexture IsDepthFormat dev textureCreateInfo s =
     NULL_ASSERT dev s (
     seq (if IsDepthFormat (format textureCreateInfo)
          then seq (device_call dev ''IsTextureFormatSupported''
                      [Fv (format textureCreateInfo), Tv SDL_GPU_TEXTURETYPE_2D,
                       Uv (usageFlags textureCreateInfo)] s) (\<lambda>(supported, s1).
               if supported = 0
               then (let newFormat = texture_depth_fallback (format textureCreateInfo)
                     in Inr (textureCreateInfo\<lparr>format := newFormat\<rparr>,
                             log_msg (LogWarn ''Requested unsupported depth format %d, falling back to format %d!''
                                        [ArgFormat (format textureCreateInfo),
                                         ArgFormat newFormat]) s1))
               else Inr (textureCreateInfo, s1))
          else Inr (textureCreateInfo, s)) (\<lambda>(info, s2).
     seq (device_call dev ''CreateTexture'' [TextureInfo info] s2) (\<lambda>(r, s3).
     Inr ((r, info), s3))))"

definition SDL_GpuCreateGraphicsPipeline ::
  "Uint32 \<Rightarrow> ptr \<Rightarrow> SDL_GpuGraphicsPipelineCreateInfo \<Rightarrow> gpu_state
     \<Rightarrow> (ptr \<times> SDL_GpuGraphicsPipelineCreateInfo) outcome" where
  "SDL_GpuCreateGraphicsPipeline DEPTH_STENCIL_TARGET_BIT dev graphicsPipelineCreateInfo s =
     NULL_ASSERT dev s (
     seq (if hasDepthStencilAttachment (attachmentInfo graphicsPipelineCreateInfo)
          then seq (device_call dev ''IsTextureFormatSupported''
                      [Fv (depthStencilFormat (attachmentInfo graphicsPipelineCreateInfo)),
                       Tv SDL_GPU_TEXTURETYPE_2D, Uv DEPTH_STENCIL_TARGET_BIT] s) (\<lambda>(supported, s1).
               if supported = 0
               then (let requested = depthStencilFormat (attachmentInfo graphicsPipelineCreateInfo);
                         newFormat = pipeline_depth_fallback requested
                     in Inr (graphicsPipelineCreateInfo\<lparr>attachmentInfo :=
                               (attachmentInfo graphicsPipelineCreateInfo)\<lparr>depthStencilFormat := newFormat\<rparr>\<rparr>,
                             log_msg (LogWarn ''Requested unsupported depth format %d, falling back to format %d!''
                                        [ArgFormat requested,
                                         ArgFormat newFormat]) s1))
               else Inr (graphicsPipelineCreateInfo, s1))
          else Inr (graphicsPipelineCreateInfo, s)) (\<lambda>(info, s2).
     seq (device_call dev ''CreateGraphicsPipeline'' [PipelineInfo info] s2) (\<lambda>(r, s3).
     Inr ((r, info), s3))))"



definition SDL_GpuCreateBuffer :: "ptr \<Rightarrow> Uint32 \<Rightarrow> Uint32 \<Rightarrow> gpu_state \<Rightarrow> ptr outcome" where
  "SDL_GpuCreateBuffer dev usage sizeInBytes s =
     NULL_ASSERT dev s (
     device_call dev ''CreateBuffer'' [Uv usage, Uv sizeInBytes] s)"












section \<open>Shaders\<close>

text \<open>
  Modelled from the spec: SDL_GPU_BACKEND_INVALID is declared in a header that is not
  among the sources. It is the failure sentinel of backend selection, and the preferred
  mask is tested against it for emptiness, so it is the empty mask.
\<close>

definition SDL_GPU_BACKEND_INVALID :: SDL_GpuBackend where
  "SDL_GPU_BACKEND_INVALID = 0"





section \<open>Backend selection\<close>

text \<open>
  An entry of the registry \<open>backends[]\<close>. The registry is fixed at build time by the
  \<open>SDL_GPU_VULKAN\<close>, \<open>SDL_GPU_D3D11\<close> and \<open>SDL_GPU_METAL\<close> switches and is an argument.
  \<open>PrepareDriver\<close> is the outcome of the driver's probe; \<open>CreateDevice\<close> yields the new
  device and its address, or nothing.
\<close>

record SDL_GpuDriver =
  Name :: string
  backendflag :: SDL_GpuBackend
  PrepareDriver :: bool
  CreateDevice :: "bool \<Rightarrow> (ptr \<times> SDL_GpuDevice) option"

text \<open>
  \<open>SDL_strcasecmp\<close> belongs to the SDL core: it is zero exactly when the two strings are
  equal up to the case of ASCII letters (the sign of a non-zero result is not used).
\<close>

definition SDL_tolower :: "char \<Rightarrow> char" where
  "SDL_tolower c =
     (let n = (of_char c :: nat) in if 65 \<le> n \<and> n \<le> 90 then char_of (n + 32) else c)"

definition SDL_strcasecmp :: "string \<Rightarrow> string \<Rightarrow> int" where
  "SDL_strcasecmp a b = (if map SDL_tolower a = map SDL_tolower b then 0 else 1)"

text \<open>
  The three loops over the registry differ only in the test that precedes the probe:
  \<open>for (i = 0; backends[i]; i += 1) if (test(backends[i]) && backends[i]->PrepareDriver())
  return backends[i]->backendflag;\<close>. The result is the flag returned, if any, and the
  names of the drivers whose probe was called, in order.
\<close>

fun probe_loop :: "(SDL_GpuDriver \<Rightarrow> bool) \<Rightarrow> SDL_GpuDriver list \<Rightarrow> SDL_GpuBackend option \<times> string list" where
  "probe_loop test [] = (None, [])"
| "probe_loop test (b # bs) =
     (if test b
      then (if PrepareDriver b then (Some (backendflag b), [Name b])
            else (case probe_loop test bs of (r, probed) \<Rightarrow> (r, Name b # probed)))
      else probe_loop test bs)"

text \<open>
  The result: the backend selected, the probes called in order, the messages logged.
  \<open>gpudriver\<close> is the value of the hint \<open>SDL_HINT_GPU_BACKEND\<close>, if set.
\<close>

definition SDL_GpuSelectBackend ::
  "SDL_GpuDriver list \<Rightarrow> string option \<Rightarrow> SDL_GpuBackend \<Rightarrow> SDL_GpuBackend \<times> string list \<times> log_entry list" where
  "SDL_GpuSelectBackend backends gpudriver preferredBackends =
     (case gpudriver of
        Some g \<Rightarrow>
          (case probe_loop (\<lambda>b. SDL_strcasecmp g (Name b) = 0) backends of
             (Some flag, probed) \<Rightarrow> (flag, probed, [])
           | (None, probed) \<Rightarrow>
               (SDL_GPU_BACKEND_INVALID, probed,
                [LogError ''SDL_HINT_GPU_BACKEND %s unsupported!'' [ArgString g]]))
      | None \<Rightarrow>
          (case (if preferredBackends \<noteq> SDL_GPU_BACKEND_INVALID
                 then (case probe_loop (\<lambda>b. preferredBackends AND backendflag b \<noteq> 0) backends of
                         (Some flag, probed) \<Rightarrow> (Some flag, probed, [])
                       | (None, probed) \<Rightarrow>
                           (None, probed, [LogWarn ''No preferred SDL_Gpu backend found!'' []]))
                 else (None, [], [])) of
             (Some flag, probed, msgs) \<Rightarrow> (flag, probed, msgs)
           | (None, probed, msgs) \<Rightarrow>
               (case probe_loop (\<lambda>b. True) backends of
                  (Some flag, probed') \<Rightarrow> (flag, probed @ probed', msgs)
                | (None, probed') \<Rightarrow>
                    (SDL_GPU_BACKEND_INVALID, probed @ probed',
                     msgs @ [LogError ''No supported SDL_Gpu backend found!'' []]))))"

fun create_device_loop :: "SDL_GpuDriver list \<Rightarrow> SDL_GpuBackend \<Rightarrow> bool \<Rightarrow> (ptr \<times> SDL_GpuDevice) option" where
  "create_device_loop [] selectedBackend debugMode = None"
| "create_device_loop (b # bs) selectedBackend debugMode =
     (if backendflag b = selectedBackend
      then (case CreateDevice b debugMode of
              Some (p, d) \<Rightarrow> Some (p, d\<lparr>backend := backendflag b\<rparr>)
            | None \<Rightarrow> create_device_loop bs selectedBackend debugMode)
      else create_device_loop bs selectedBackend debugMode)"

text \<open>The device created, if any (nothing is the null result), and the messages logged.\<close>

definition SDL_GpuCreateDevice ::
  "SDL_GpuDriver list \<Rightarrow> string option \<Rightarrow> SDL_GpuBackend \<Rightarrow> bool
     \<Rightarrow> (ptr \<times> SDL_GpuDevice) option \<times> log_entry list" where
  "SDL_GpuCreateDevice backends gpudriver preferredBackends debugMode =
     (case SDL_GpuSelectBackend backends gpudriver preferredBackends of
        (selectedBackend, probed, msgs) \<Rightarrow>
          (if selectedBackend \<noteq> SDL_GPU_BACKEND_INVALID
           then create_device_loop backends selectedBackend debugMode
           else None, msgs))"

section \<open>Histories\<close>

text \<open>
  One call of a function of this file that takes a command buffer or a pass handle and
  returns. Every such function has a rule.
\<close>

inductive command_step :: "gpu_state \<Rightarrow> gpu_state \<Rightarrow> bool" where
  BeginRenderPass: "SDL_GpuBeginRenderPass cb a1 a2 a3 s = Inr (r, s') \<Longrightarrow> command_step s s'"
  | BindGraphicsPipeline: "SDL_GpuBindGraphicsPipeline rp a1 s = Inr (r, s') \<Longrightarrow> command_step s s'"
  | EndRenderPass: "SDL_GpuEndRenderPass rp s = Inr (r, s') \<Longrightarrow> command_step s s'"
  | SetViewport: "SDL_GpuSetViewport rp a1 s = Inr (r, s') \<Longrightarrow> command_step s s'"
  | SetScissor: "SDL_GpuSetScissor rp a1 s = Inr (r, s') \<Longrightarrow> command_step s s'"
  | BindVertexBuffers: "SDL_GpuBindVertexBuffers rp a1 a2 a3 s = Inr (r, s') \<Longrightarrow> command_step s s'"
  | BindIndexBuffer: "SDL_GpuBindIndexBuffer rp a1 a2 s = Inr (r, s') \<Longrightarrow> command_step s s'"
  | BindVertexSamplers: "SDL_GpuBindVertexSamplers rp a1 a2 a3 s = Inr (r, s') \<Longrightarrow> command_step s s'"
  | BindVertexStorageTextures: "SDL_GpuBindVertexStorageTextures rp a1 a2 a3 s = Inr (r, s') \<Longrightarrow> command_step s s'"
  | BindVertexStorageBuffers: "SDL_GpuBindVertexStorageBuffers rp a1 a2 a3 s = Inr (r, s') \<Longrightarrow> command_step s s'"
  | BindFragmentSamplers: "SDL_GpuBindFragmentSamplers rp a1 a2 a3 s = Inr (r, s') \<Longrightarrow> command_step s s'"
  | BindFragmentStorageTextures: "SDL_GpuBindFragmentStorageTextures rp a1 a2 a3 s = Inr (r, s') \<Longrightarrow> command_step s s'"
  | BindFragmentStorageBuffers: "SDL_GpuBindFragmentStorageBuffers rp a1 a2 a3 s = Inr (r, s') \<Longrightarrow> command_step s s'"
  | PushVertexUniformData: "SDL_GpuPushVertexUniformData rp a1 a2 a3 s = Inr (r, s') \<Longrightarrow> command_step s s'"
  | PushFragmentUniformData: "SDL_GpuPushFragmentUniformData rp a1 a2 a3 s = Inr (r, s') \<Longrightarrow> command_step s s'"
  | DrawIndexedPrimitives: "SDL_GpuDrawIndexedPrimitives rp a1 a2 a3 a4 s = Inr (r, s') \<Longrightarrow> command_step s s'"
  | DrawPrimitives: "SDL_GpuDrawPrimitives rp a1 a2 s = Inr (r, s') \<Longrightarrow> command_step s s'"
  | DrawPrimitivesIndirect: "SDL_GpuDrawPrimitivesIndirect rp a1 a2 a3 a4 s = Inr (r, s') \<Longrightarrow> command_step s s'"
  | DrawIndexedPrimitivesIndirect: "SDL_GpuDrawIndexedPrimitivesIndirect rp a1 a2 a3 a4 s = Inr (r, s') \<Longrightarrow> command_step s s'"
  | BeginComputePass: "SDL_GpuBeginComputePass cb a1 a2 a3 a4 s = Inr (r, s') \<Longrightarrow> command_step s s'"
  | BindComputePipeline: "SDL_GpuBindComputePipeline cp a1 s = Inr (r, s') \<Longrightarrow> command_step s s'"
  | BindComputeStorageTextures: "SDL_GpuBindComputeStorageTextures cp a1 a2 a3 s = Inr (r, s') \<Longrightarrow> command_step s s'"
  | BindComputeStorageBuffers: "SDL_GpuBindComputeStorageBuffers cp a1 a2 a3 s = Inr (r, s') \<Longrightarrow> command_step s s'"
  | PushComputeUniformData: "SDL_GpuPushComputeUniformData cp a1 a2 a3 s = Inr (r, s') \<Longrightarrow> command_step s s'"
  | DispatchCompute: "SDL_GpuDispatchCompute cp a1 a2 a3 s = Inr (r, s') \<Longrightarrow> command_step s s'"
  | EndComputePass: "SDL_GpuEndComputePass cp s = Inr (r, s') \<Longrightarrow> command_step s s'"
  | BeginCopyPass: "SDL_GpuBeginCopyPass cb s = Inr (r, s') \<Longrightarrow> command_step s s'"
  | UploadToTexture: "SDL_GpuUploadToTexture xp a1 a2 a3 a4 s = Inr (r, s') \<Longrightarrow> command_step s s'"
  | UploadToBuffer: "SDL_GpuUploadToBuffer xp a1 a2 a3 a4 s = Inr (r, s') \<Longrightarrow> command_step s s'"
  | CopyTextureToTexture: "SDL_GpuCopyTextureToTexture xp a1 a2 a3 s = Inr (r, s') \<Longrightarrow> command_step s s'"
  | CopyBufferToBuffer: "SDL_GpuCopyBufferToBuffer xp a1 a2 a3 a4 s = Inr (r, s') \<Longrightarrow> command_step s s'"
  | GenerateMipmaps: "SDL_GpuGenerateMipmaps xp a1 s = Inr (r, s') \<Longrightarrow> command_step s s'"
  | DownloadFromTexture: "SDL_GpuDownloadFromTexture xp a1 a2 a3 s = Inr (r, s') \<Longrightarrow> command_step s s'"
  | DownloadFromBuffer: "SDL_GpuDownloadFromBuffer xp a1 a2 a3 s = Inr (r, s') \<Longrightarrow> command_step s s'"
  | EndCopyPass: "SDL_GpuEndCopyPass xp s = Inr (r, s') \<Longrightarrow> command_step s s'"
  | SetStringMarker: "SDL_GpuSetStringMarker cb a1 s = Inr (r, s') \<Longrightarrow> command_step s s'"
  | Blit: "SDL_GpuBlit cb a1 a2 a3 a4 s = Inr (r, s') \<Longrightarrow> command_step s s'"
  | OcclusionQueryBegin: "SDL_GpuOcclusionQueryBegin cb a1 s = Inr (r, s') \<Longrightarrow> command_step s s'"
  | OcclusionQueryEnd: "SDL_GpuOcclusionQueryEnd cb a1 s = Inr (r, s') \<Longrightarrow> command_step s s'"
  | AcquireSwapchainTexture: "SDL_GpuAcquireSwapchainTexture cb a1 a2 a3 s = Inr (r, s') \<Longrightarrow> command_step s s'"
  | Submit: "SDL_GpuSubmit cb s = Inr (r, s') \<Longrightarrow> command_step s s'"
  | SubmitAndAcquireFence: "SDL_GpuSubmitAndAcquireFence cb s = Inr (r, s') \<Longrightarrow> command_step s s'"

text \<open>
  One call of the API: a command buffer function, an acquisition, or any other function
  of the API (those take a device and never write a command buffer header).
\<close>

inductive api_step :: "gpu_state \<Rightarrow> gpu_state \<Rightarrow> bool" where
    Command: "command_step s s' \<Longrightarrow> api_step s s'"
  | Acquire: "SDL_GpuAcquireCommandBuffer dev s = Inr (r, s') \<Longrightarrow> api_step s s'"
  | Device: "heap s' = heap s \<Longrightarrow> api_step s s'"

text \<open>The states a program reaches from one in which no command buffer was acquired yet.\<close>

inductive reachable :: "gpu_state \<Rightarrow> bool" where
    Start: "heap s = Map.empty \<Longrightarrow> reachable s"
  | Step: "reachable s \<Longrightarrow> api_step s s' \<Longrightarrow> reachable s'"

text \<open>
  A run of API calls from one state to a later one in which no acquisition hands out the
  command buffer \<open>cb\<close>.
\<close>

inductive not_reacquired :: "ptr \<Rightarrow> gpu_state \<Rightarrow> gpu_state \<Rightarrow> bool" for cb s where
    Here: "not_reacquired cb s s"
  | Later: "not_reacquired cb s s' \<Longrightarrow> api_step s' s''
      \<Longrightarrow> (\<forall>dev. SDL_GpuAcquireCommandBuffer dev s' \<noteq> Inr (cb, s''))
      \<Longrightarrow> not_reacquired cb s s''"

text \<open>The three in-progress flags of a header, and how many of them are set.\<close>

definition any_pass_in_progress :: "CommandBufferCommonHeader \<Rightarrow> bool" where
  "any_pass_in_progress h =
     (inProgress (renderPass h) \<or> inProgress (computePass h) \<or> inProgress (copyPass h))"

definition passes_in_progress :: "CommandBufferCommonHeader \<Rightarrow> nat" where
  "passes_in_progress h =
     (if inProgress (renderPass h) then 1 else 0) + (if inProgress (computePass h) then 1 else 0)
       + (if inProgress (copyPass h) then 1 else 0)"

text \<open>
  A command buffer as acquisition leaves it: the three pass trackers point back at the
  header that embeds them.
\<close>

definition linked :: "gpu_state \<Rightarrow> ptr \<Rightarrow> bool" where
  "linked s cb =
     (case heap s cb of
        None \<Rightarrow> False
      | Some h \<Rightarrow>
          cb \<noteq> NULL \<and> commandBuffer (renderPass h) = cb \<and> commandBuffer (computePass h) = cb
          \<and> commandBuffer (copyPass h) = cb)"

text \<open>A linked command buffer whose device is still there to forward to.\<close>

definition usable :: "gpu_state \<Rightarrow> ptr \<Rightarrow> bool" where
  "usable s cb =
     (linked s cb \<and>
      (case heap s cb of
         None \<Rightarrow> False
       | Some h \<Rightarrow> device h \<noteq> NULL \<and> devices s (device h) \<noteq> None))"

definition heap_linked :: "gpu_state \<Rightarrow> bool" where
  "heap_linked s = (\<forall>cb. heap s cb \<noteq> None \<longrightarrow> linked s cb)"

text \<open>
  What the functions of this file do to the header of a linked command buffer: the three
  begins, the three ends, the two pipeline binds and submission. Every other function
  leaves the headers alone.
\<close>

inductive header_step :: "CommandBufferCommonHeader \<Rightarrow> CommandBufferCommonHeader \<Rightarrow> bool" where
    begin_render: "\<not> submitted h \<Longrightarrow> \<not> any_pass_in_progress h
      \<Longrightarrow> header_step h (h\<lparr>renderPass := (renderPass h)\<lparr>inProgress := True\<rparr>\<rparr>)"
  | begin_compute: "\<not> submitted h \<Longrightarrow> \<not> any_pass_in_progress h
      \<Longrightarrow> header_step h (h\<lparr>computePass := (computePass h)\<lparr>inProgress := True\<rparr>\<rparr>)"
  | begin_copy: "\<not> submitted h \<Longrightarrow> \<not> any_pass_in_progress h
      \<Longrightarrow> header_step h (h\<lparr>copyPass := (copyPass h)\<lparr>inProgress := True\<rparr>\<rparr>)"
  | end_render: "inProgress (renderPass h)
      \<Longrightarrow> header_step h (h\<lparr>renderPass := (renderPass h)\<lparr>inProgress := False\<rparr>,
                            graphicsPipelineBound := False\<rparr>)"
  | end_compute: "inProgress (computePass h)
      \<Longrightarrow> header_step h (h\<lparr>computePass := (computePass h)\<lparr>inProgress := False\<rparr>,
                            computePipelineBound := False\<rparr>)"
  | end_copy: "inProgress (copyPass h)
      \<Longrightarrow> header_step h (h\<lparr>copyPass := (copyPass h)\<lparr>inProgress := False\<rparr>\<rparr>)"
  | bind_graphics: "header_step h (h\<lparr>graphicsPipelineBound := True\<rparr>)"
  | bind_compute: "inProgress (computePass h)
      \<Longrightarrow> header_step h (h\<lparr>computePipelineBound := True\<rparr>)"
  | submit: "\<not> submitted h \<Longrightarrow> \<not> any_pass_in_progress h
      \<Longrightarrow> header_step h (h\<lparr>submitted := True\<rparr>)"

section \<open>The specification's gates\<close>

text \<open>
  The two-gate rule in the specification's words: a pass-scoped resource call first
  requires its pass to be in progress, then its pipeline to be bound; a call that violates
  either is refused with the diagnostic given here, and nothing else happens.
\<close>

definition spec_render_gate :: "CommandBufferCommonHeader \<Rightarrow> string option" where
  "spec_render_gate h =
     (if \<not> inProgress (renderPass h) then Some ''Render pass not in progress!''
      else if \<not> graphicsPipelineBound h then Some ''Graphics pipeline not bound!''
      else None)"

definition spec_compute_gate :: "CommandBufferCommonHeader \<Rightarrow> string option" where
  "spec_compute_gate h =
     (if \<not> inProgress (computePass h) then Some ''Compute pass not in progress!''
      else if \<not> computePipelineBound h then Some ''Compute pipeline not bound!''
      else None)"

text \<open>
  A refused call logs its diagnostic and changes nothing else; an admitted call reaches the
  backend with the given arguments and changes nothing else.
\<close>

definition spec_gated :: "string option \<Rightarrow> driver_call \<Rightarrow> gpu_state \<Rightarrow> unit outcome" where
  "spec_gated refusal call s =
     (case refusal of
        Some diagnostic \<Rightarrow> Inr ((), s\<lparr>logs := logs s @ [LogError diagnostic []]\<rparr>)
      | None \<Rightarrow> Inr ((), s\<lparr>calls := calls s @ [call]\<rparr>))"

text \<open>The fallback table of depth format negotiation as the specification documents it.\<close>

definition spec_depth_fallback :: "SDL_GpuTextureFormat \<Rightarrow> SDL_GpuTextureFormat" where
  "spec_depth_fallback f =
     (if f = SDL_GPU_TEXTUREFORMAT_D24_UNORM then SDL_GPU_TEXTUREFORMAT_D32_SFLOAT
      else if f = SDL_GPU_TEXTUREFORMAT_D32_SFLOAT then SDL_GPU_TEXTUREFORMAT_D24_UNORM
      else if f = SDL_GPU_TEXTUREFORMAT_D24_UNORM_S8_UINT then SDL_GPU_TEXTUREFORMAT_D32_SFLOAT_S8_UINT
      else if f = SDL_GPU_TEXTUREFORMAT_D32_SFLOAT_S8_UINT then SDL_GPU_TEXTUREFORMAT_D24_UNORM_S8_UINT
      else SDL_GPU_TEXTUREFORMAT_D16_UNORM)"

section \<open>A concrete device and command buffer\<close>

text \<open>
  A device at address 5 whose driver hands out the command buffer at address 2 and
  supports no texture format, a device at address 6 whose driver answers 1 to everything,
  a device at address 7 whose driver answers null to everything, the state before anything
  was acquired, and the header of a command buffer as
  acquisition leaves it.
\<close>

definition sample_device :: SDL_GpuDevice where
  "sample_device =
     \<lparr>backend = 1, driverData = 40,
      table = (\<lambda>trace entry args.
         if entry = ''AcquireCommandBuffer'' then 2
         else if entry = ''IsTextureFormatSupported'' then 0 else 77)\<rparr>"

definition permissive_device :: SDL_GpuDevice where
  "permissive_device = \<lparr>backend = 2, driverData = 41, table = (\<lambda>trace entry args. 1)\<rparr>"

definition exhausted_device :: SDL_GpuDevice where
  "exhausted_device = \<lparr>backend = 4, driverData = 42, table = (\<lambda>trace entry args. NULL)\<rparr>"

definition sample_start :: gpu_state where
  "sample_start =
     \<lparr>devices = [5 \<mapsto> sample_device, 6 \<mapsto> permissive_device, 7 \<mapsto> exhausted_device],
      heap = Map.empty, calls = [], logs = [], assertions_enabled = True\<rparr>"

definition idle_header :: "ptr \<Rightarrow> ptr \<Rightarrow> CommandBufferCommonHeader" where
  "idle_header dev cb =
     \<lparr>device = dev,
      renderPass = \<lparr>commandBuffer = cb, inProgress = False\<rparr>,
      graphicsPipelineBound = False,
      computePass = \<lparr>commandBuffer = cb, inProgress = False\<rparr>,
      computePipelineBound = False,
      copyPass = \<lparr>commandBuffer = cb, inProgress = False\<rparr>,
      submitted = False\<rparr>"

definition sample_idle :: gpu_state where
  "sample_idle =
     sample_start\<lparr>heap := [2 \<mapsto> idle_header 5 2],
       calls := [(5, ''AcquireCommandBuffer'', [Pv 40])]\<rparr>"

text \<open>The same command buffer with its render pass begun.\<close>

definition rendering_header :: "ptr \<Rightarrow> ptr \<Rightarrow> CommandBufferCommonHeader" where
  "rendering_header dev cb =
     (idle_header dev cb)\<lparr>renderPass := \<lparr>commandBuffer = cb, inProgress = True\<rparr>\<rparr>"

definition sample_rendering :: gpu_state where
  "sample_rendering =
     sample_idle\<lparr>heap := [2 \<mapsto> rendering_header 5 2],
       calls := [(5, ''AcquireCommandBuffer'', [Pv 40]),
                 (5, ''BeginRenderPass'', [Pv 2, Pv 0, Uv 0, Pv 0])]\<rparr>"

text \<open>The idle command buffer after it was submitted.\<close>

definition submitted_header :: "ptr \<Rightarrow> ptr \<Rightarrow> CommandBufferCommonHeader" where
  "submitted_header dev cb = (idle_header dev cb)\<lparr>submitted := True\<rparr>"

definition sample_submitted :: gpu_state where
  "sample_submitted =
     sample_idle\<lparr>heap := [2 \<mapsto> submitted_header 5 2],
       calls := [(5, ''AcquireCommandBuffer'', [Pv 40]), (5, ''Submit'', [Pv 2])]\<rparr>"

text \<open>
  The submitted command buffer after the driver has handed it out again, and the states
  after a refused begin and a buffer creation on another device that follow the submission.
\<close>

definition sample_reacquired :: gpu_state where
  "sample_reacquired =
     sample_idle\<lparr>heap := [2 \<mapsto> idle_header 5 2],
       calls := [(5, ''AcquireCommandBuffer'', [Pv 40]), (5, ''Submit'', [Pv 2]),
                 (5, ''AcquireCommandBuffer'', [Pv 40])]\<rparr>"

definition sample_refused :: gpu_state where
  "sample_refused = sample_submitted\<lparr>logs := [LogError ''Command buffer already submitted!'' []]\<rparr>"

definition sample_refused_later :: gpu_state where
  "sample_refused_later =
     sample_refused\<lparr>calls := [(5, ''AcquireCommandBuffer'', [Pv 40]), (5, ''Submit'', [Pv 2]),
                               (6, ''CreateBuffer'', [Pv 41, Uv 0, Uv 16])]\<rparr>"

text \<open>The command buffer with its render pass begun and a graphics pipeline bound.\<close>

definition drawing_header :: "ptr \<Rightarrow> ptr \<Rightarrow> CommandBufferCommonHeader" where
  "drawing_header dev cb = (rendering_header dev cb)\<lparr>graphicsPipelineBound := True\<rparr>"

definition sample_drawing :: gpu_state where
  "sample_drawing =
     sample_idle\<lparr>heap := [2 \<mapsto> drawing_header 5 2],
       calls := [(5, ''AcquireCommandBuffer'', [Pv 40]),
                 (5, ''BeginRenderPass'', [Pv 2, Pv 0, Uv 0, Pv 0]),
                 (5, ''BindGraphicsPipeline'', [Pv 2, Pv 9])]\<rparr>"

text \<open>
  A registry of three drivers: the first one's probe fails, the second probes and creates
  the sample device, the third probes but cannot create a device.
\<close>

definition sample_vulkan :: SDL_GpuDriver where
  "sample_vulkan =
     \<lparr>Name = ''Vulkan'', backendflag = 1, PrepareDriver = False,
      CreateDevice = (\<lambda>debugMode. None)\<rparr>"

definition sample_d3d11 :: SDL_GpuDriver where
  "sample_d3d11 =
     \<lparr>Name = ''D3D11'', backendflag = 2, PrepareDriver = True,
      CreateDevice = (\<lambda>debugMode. Some (5, sample_device))\<rparr>"

definition sample_metal :: SDL_GpuDriver where
  "sample_metal =
     \<lparr>Name = ''Metal'', backendflag = 4, PrepareDriver = True,
      CreateDevice = (\<lambda>debugMode. None)\<rparr>"

definition sample_backends :: "SDL_GpuDriver list" where
  "sample_backends = [sample_vulkan, sample_d3d11, sample_metal]"

text \<open>Create-infos that ask for a depth format, and a depth format test.\<close>

definition sample_IsDepthFormat :: "SDL_GpuTextureFormat \<Rightarrow> bool" where
  "sample_IsDepthFormat f =
     (f \<in> {SDL_GPU_TEXTUREFORMAT_D16_UNORM, SDL_GPU_TEXTUREFORMAT_D24_UNORM,
            SDL_GPU_TEXTUREFORMAT_D32_SFLOAT, SDL_GPU_TEXTUREFORMAT_D24_UNORM_S8_UINT,
            SDL_GPU_TEXTUREFORMAT_D32_SFLOAT_S8_UINT})"

definition sample_texture_info :: SDL_GpuTextureCreateInfo where
  "sample_texture_info =
     \<lparr>format = SDL_GPU_TEXTUREFORMAT_D24_UNORM, usageFlags = 4, textureOtherMembers = [64, 64, 1]\<rparr>"

definition sample_pipeline_info :: SDL_GpuGraphicsPipelineCreateInfo where
  "sample_pipeline_info =
     \<lparr>attachmentInfo =
        \<lparr>hasDepthStencilAttachment = True,
         depthStencilFormat = SDL_GPU_TEXTUREFORMAT_D32_SFLOAT_S8_UINT,
         attachmentOtherMembers = [1]\<rparr>,
      pipelineOtherMembers = [7, 8]\<rparr>"





section \<open>Basic facts\<close>

lemma seq_Inr [simp]: "seq (Inr x) k = k x"
  by (simp add: seq_def)

lemma seq_Inl [simp]: "seq (Inl f) k = Inl f"
  by (simp add: seq_def)

lemmas macro_defs =
  NULL_ASSERT_def CHECK_COMMAND_BUFFER_def CHECK_COMMAND_BUFFER_RETURN_NULL_def
  CHECK_ANY_PASS_IN_PROGRESS_def CHECK_RENDERPASS_def CHECK_GRAPHICS_PIPELINE_BOUND_def
  CHECK_COMPUTEPASS_def CHECK_COMPUTE_PIPELINE_BOUND_def CHECK_COPYPASS_def
  RENDERPASS_COMMAND_BUFFER_def RENDERPASS_DEVICE_def COMPUTEPASS_COMMAND_BUFFER_def
  COMPUTEPASS_DEVICE_def COPYPASS_COMMAND_BUFFER_def COPYPASS_DEVICE_def COMMAND_BUFFER_DEVICE_def
  renderpass_forward_def computepass_forward_def copypass_forward_def command_buffer_forward_def
  void_def driver_invoke_def device_call_def store_def log_msg_def

lemmas outcome_splits = if_splits sum.splits option.splits prod.splits

lemma header_Some: "p \<noteq> NULL \<Longrightarrow> heap s p = Some h \<Longrightarrow> header s p = Inr h"
  by (simp add: header_def)

lemma device_Some: "p \<noteq> NULL \<Longrightarrow> devices s p = Some d \<Longrightarrow> deref_device s p = Inr d"
  by (simp add: deref_device_def)

lemma usableD:
  "usable s cb \<Longrightarrow> heap s cb = Some h \<Longrightarrow>
     cb \<noteq> NULL \<and> commandBuffer (renderPass h) = cb \<and> commandBuffer (computePass h) = cb
     \<and> commandBuffer (copyPass h) = cb \<and> device h \<noteq> NULL \<and> (\<exists>d. devices s (device h) = Some d)"
  by (auto simp: usable_def linked_def)

lemma SetViewport_heap:
  "SDL_GpuSetViewport rp viewport s = Inr (r, s') \<Longrightarrow>
     heap s' = heap s"
  by (auto simp: SDL_GpuSetViewport_def macro_defs seq_def header_def deref_device_def
      split: outcome_splits)

lemma SetScissor_heap:
  "SDL_GpuSetScissor rp scissor s = Inr (r, s') \<Longrightarrow>
     heap s' = heap s"
  by (auto simp: SDL_GpuSetScissor_def macro_defs seq_def header_def deref_device_def
      split: outcome_splits)

lemma BindVertexBuffers_heap:
  "SDL_GpuBindVertexBuffers rp firstBinding pBindings bindingCount s = Inr (r, s') \<Longrightarrow>
     heap s' = heap s"
  by (auto simp: SDL_GpuBindVertexBuffers_def macro_defs seq_def header_def deref_device_def
      split: outcome_splits)

lemma BindIndexBuffer_heap:
  "SDL_GpuBindIndexBuffer rp pBinding indexElementSize s = Inr (r, s') \<Longrightarrow>
     heap s' = heap s"
  by (auto simp: SDL_GpuBindIndexBuffer_def macro_defs seq_def header_def deref_device_def
      split: outcome_splits)

lemma BindVertexSamplers_heap:
  "SDL_GpuBindVertexSamplers rp firstSlot textureSamplerBindings bindingCount s = Inr (r, s') \<Longrightarrow>
     heap s' = heap s"
  by (auto simp: SDL_GpuBindVertexSamplers_def macro_defs seq_def header_def deref_device_def
      split: outcome_splits)

lemma BindVertexStorageTextures_heap:
  "SDL_GpuBindVertexStorageTextures rp firstSlot storageTextureSlices bindingCount s = Inr (r, s') \<Longrightarrow>
     heap s' = heap s"
  by (auto simp: SDL_GpuBindVertexStorageTextures_def macro_defs seq_def header_def deref_device_def
      split: outcome_splits)

lemma BindVertexStorageBuffers_heap:
  "SDL_GpuBindVertexStorageBuffers rp firstSlot storageBuffers bindingCount s = Inr (r, s') \<Longrightarrow>
     heap s' = heap s"
  by (auto simp: SDL_GpuBindVertexStorageBuffers_def macro_defs seq_def header_def deref_device_def
      split: outcome_splits)

lemma BindFragmentSamplers_heap:
  "SDL_GpuBindFragmentSamplers rp firstSlot textureSamplerBindings bindingCount s = Inr (r, s') \<Longrightarrow>
     heap s' = heap s"
  by (auto simp: SDL_GpuBindFragmentSamplers_def macro_defs seq_def header_def deref_device_def
      split: outcome_splits)

lemma BindFragmentStorageTextures_heap:
  "SDL_GpuBindFragmentStorageTextures rp firstSlot storageTextureSlices bindingCount s = Inr (r, s') \<Longrightarrow>
     heap s' = heap s"
  by (auto simp: SDL_GpuBindFragmentStorageTextures_def macro_defs seq_def header_def deref_device_def
      split: outcome_splits)

lemma BindFragmentStorageBuffers_heap:
  "SDL_GpuBindFragmentStorageBuffers rp firstSlot storageBuffers bindingCount s = Inr (r, s') \<Longrightarrow>
     heap s' = heap s"
  by (auto simp: SDL_GpuBindFragmentStorageBuffers_def macro_defs seq_def header_def deref_device_def
      split: outcome_splits)

lemma PushVertexUniformData_heap:
  "SDL_GpuPushVertexUniformData rp slotIndex data dataLengthInBytes s = Inr (r, s') \<Longrightarrow>
     heap s' = heap s"
  by (auto simp: SDL_GpuPushVertexUniformData_def macro_defs seq_def header_def deref_device_def
      split: outcome_splits)

lemma PushFragmentUniformData_heap:
  "SDL_GpuPushFragmentUniformData rp slotIndex data dataLengthInBytes s = Inr (r, s') \<Longrightarrow>
     heap s' = heap s"
  by (auto simp: SDL_GpuPushFragmentUniformData_def macro_defs seq_def header_def deref_device_def
      split: outcome_splits)

lemma DrawIndexedPrimitives_heap:
  "SDL_GpuDrawIndexedPrimitives rp baseVertex startIndex primitiveCount instanceCount s = Inr (r, s') \<Longrightarrow>
     heap s' = heap s"
  by (auto simp: SDL_GpuDrawIndexedPrimitives_def macro_defs seq_def header_def deref_device_def
      split: outcome_splits)

lemma DrawPrimitives_heap:
  "SDL_GpuDrawPrimitives rp vertexStart primitiveCount s = Inr (r, s') \<Longrightarrow>
     heap s' = heap s"
  by (auto simp: SDL_GpuDrawPrimitives_def macro_defs seq_def header_def deref_device_def
      split: outcome_splits)

lemma DrawPrimitivesIndirect_heap:
  "SDL_GpuDrawPrimitivesIndirect rp buffer offsetInBytes drawCount stride s = Inr (r, s') \<Longrightarrow>
     heap s' = heap s"
  by (auto simp: SDL_GpuDrawPrimitivesIndirect_def macro_defs seq_def header_def deref_device_def
      split: outcome_splits)

lemma DrawIndexedPrimitivesIndirect_heap:
  "SDL_GpuDrawIndexedPrimitivesIndirect rp buffer offsetInBytes drawCount stride s = Inr (r, s') \<Longrightarrow>
     heap s' = heap s"
  by (auto simp: SDL_GpuDrawIndexedPrimitivesIndirect_def macro_defs seq_def header_def deref_device_def
      split: outcome_splits)

lemma BindComputeStorageTextures_heap:
  "SDL_GpuBindComputeStorageTextures cp firstSlot storageTextureSlices bindingCount s = Inr (r, s') \<Longrightarrow>
     heap s' = heap s"
  by (auto simp: SDL_GpuBindComputeStorageTextures_def macro_defs seq_def header_def deref_device_def
      split: outcome_splits)

lemma BindComputeStorageBuffers_heap:
  "SDL_GpuBindComputeStorageBuffers cp firstSlot storageBuffers bindingCount s = Inr (r, s') \<Longrightarrow>
     heap s' = heap s"
  by (auto simp: SDL_GpuBindComputeStorageBuffers_def macro_defs seq_def header_def deref_device_def
      split: outcome_splits)

lemma PushComputeUniformData_heap:
  "SDL_GpuPushComputeUniformData cp slotIndex data dataLengthInBytes s = Inr (r, s') \<Longrightarrow>
     heap s' = heap s"
  by (auto simp: SDL_GpuPushComputeUniformData_def macro_defs seq_def header_def deref_device_def
      split: outcome_splits)

lemma DispatchCompute_heap:
  "SDL_GpuDispatchCompute cp groupCountX groupCountY groupCountZ s = Inr (r, s') \<Longrightarrow>
     heap s' = heap s"
  by (auto simp: SDL_GpuDispatchCompute_def macro_defs seq_def header_def deref_device_def
      split: outcome_splits)

lemma UploadToTexture_heap:
  "SDL_GpuUploadToTexture xp transferBuffer textureRegion copyParams cycle s = Inr (r, s') \<Longrightarrow>
     heap s' = heap s"
  by (auto simp: SDL_GpuUploadToTexture_def macro_defs seq_def header_def deref_device_def
      split: outcome_splits)

lemma UploadToBuffer_heap:
  "SDL_GpuUploadToBuffer xp transferBuffer buffer copyParams cycle s = Inr (r, s') \<Longrightarrow>
     heap s' = heap s"
  by (auto simp: SDL_GpuUploadToBuffer_def macro_defs seq_def header_def deref_device_def
      split: outcome_splits)

lemma CopyTextureToTexture_heap:
  "SDL_GpuCopyTextureToTexture xp source destination cycle s = Inr (r, s') \<Longrightarrow>
     heap s' = heap s"
  by (auto simp: SDL_GpuCopyTextureToTexture_def macro_defs seq_def header_def deref_device_def
      split: outcome_splits)

lemma CopyBufferToBuffer_heap:
  "SDL_GpuCopyBufferToBuffer xp source destination copyParams cycle s = Inr (r, s') \<Longrightarrow>
     heap s' = heap s"
  by (auto simp: SDL_GpuCopyBufferToBuffer_def macro_defs seq_def header_def deref_device_def
      split: outcome_splits)

lemma GenerateMipmaps_heap:
  "SDL_GpuGenerateMipmaps xp texture s = Inr (r, s') \<Longrightarrow>
     heap s' = heap s"
  by (auto simp: SDL_GpuGenerateMipmaps_def macro_defs seq_def header_def deref_device_def
      split: outcome_splits)

lemma DownloadFromTexture_heap:
  "SDL_GpuDownloadFromTexture xp textureRegion transferBuffer copyParams s = Inr (r, s') \<Longrightarrow>
     heap s' = heap s"
  by (auto simp: SDL_GpuDownloadFromTexture_def macro_defs seq_def header_def deref_device_def
      split: outcome_splits)

lemma DownloadFromBuffer_heap:
  "SDL_GpuDownloadFromBuffer xp buffer transferBuffer copyParams s = Inr (r, s') \<Longrightarrow>
     heap s' = heap s"
  by (auto simp: SDL_GpuDownloadFromBuffer_def macro_defs seq_def header_def deref_device_def
      split: outcome_splits)

lemma SetStringMarker_heap:
  "SDL_GpuSetStringMarker cb text s = Inr (r, s') \<Longrightarrow>
     heap s' = heap s"
  by (auto simp: SDL_GpuSetStringMarker_def macro_defs seq_def header_def deref_device_def
      split: outcome_splits)

lemma Blit_heap:
  "SDL_GpuBlit cb source destination filterMode cycle s = Inr (r, s') \<Longrightarrow>
     heap s' = heap s"
  by (auto simp: SDL_GpuBlit_def macro_defs seq_def header_def deref_device_def
      split: outcome_splits)

lemma OcclusionQueryBegin_heap:
  "SDL_GpuOcclusionQueryBegin cb query s = Inr (r, s') \<Longrightarrow>
     heap s' = heap s"
  by (auto simp: SDL_GpuOcclusionQueryBegin_def macro_defs seq_def header_def deref_device_def
      split: outcome_splits)

lemma OcclusionQueryEnd_heap:
  "SDL_GpuOcclusionQueryEnd cb query s = Inr (r, s') \<Longrightarrow>
     heap s' = heap s"
  by (auto simp: SDL_GpuOcclusionQueryEnd_def macro_defs seq_def header_def deref_device_def
      split: outcome_splits)


lemma SetViewport_eq:
  assumes "usable s rp" "heap s rp = Some h"
  shows "SDL_GpuSetViewport rp viewport s =
     spec_gated (if \<not> inProgress (renderPass h) then Some ''Render pass not in progress!'' else None) (device h, ''SetViewport'', [Pv rp, Pv viewport]) s"
  using usableD[OF assms] assms(2)
  by (auto simp: SDL_GpuSetViewport_def macro_defs header_def deref_device_def spec_gated_def
      spec_render_gate_def spec_compute_gate_def)

lemma SetScissor_eq:
  assumes "usable s rp" "heap s rp = Some h"
  shows "SDL_GpuSetScissor rp scissor s =
     spec_gated (if \<not> inProgress (renderPass h) then Some ''Render pass not in progress!'' else None) (device h, ''SetScissor'', [Pv rp, Pv scissor]) s"
  using usableD[OF assms] assms(2)
  by (auto simp: SDL_GpuSetScissor_def macro_defs header_def deref_device_def spec_gated_def
      spec_render_gate_def spec_compute_gate_def)

lemma BindVertexBuffers_eq:
  assumes "usable s rp" "heap s rp = Some h"
  shows "SDL_GpuBindVertexBuffers rp firstBinding pBindings bindingCount s =
     spec_gated (spec_render_gate h) (device h, ''BindVertexBuffers'', [Pv rp, Uv firstBinding, Pv pBindings, Uv bindingCount]) s"
  using usableD[OF assms] assms(2)
  by (auto simp: SDL_GpuBindVertexBuffers_def macro_defs header_def deref_device_def spec_gated_def
      spec_render_gate_def spec_compute_gate_def)

lemma BindIndexBuffer_eq:
  assumes "usable s rp" "heap s rp = Some h"
  shows "SDL_GpuBindIndexBuffer rp pBinding indexElementSize s =
     spec_gated (spec_render_gate h) (device h, ''BindIndexBuffer'', [Pv rp, Pv pBinding, Ev indexElementSize]) s"
  using usableD[OF assms] assms(2)
  by (auto simp: SDL_GpuBindIndexBuffer_def macro_defs header_def deref_device_def spec_gated_def
      spec_render_gate_def spec_compute_gate_def)

lemma BindVertexSamplers_eq:
  assumes "usable s rp" "heap s rp = Some h"
  shows "SDL_GpuBindVertexSamplers rp firstSlot textureSamplerBindings bindingCount s =
     spec_gated (spec_render_gate h) (device h, ''BindVertexSamplers'', [Pv rp, Uv firstSlot, Pv textureSamplerBindings, Uv bindingCount]) s"
  using usableD[OF assms] assms(2)
  by (auto simp: SDL_GpuBindVertexSamplers_def macro_defs header_def deref_device_def spec_gated_def
      spec_render_gate_def spec_compute_gate_def)

lemma BindVertexStorageTextures_eq:
  assumes "usable s rp" "heap s rp = Some h"
  shows "SDL_GpuBindVertexStorageTextures rp firstSlot storageTextureSlices bindingCount s =
     spec_gated (spec_render_gate h) (device h, ''BindVertexStorageTextures'', [Pv rp, Uv firstSlot, Pv storageTextureSlices, Uv bindingCount]) s"
  using usableD[OF assms] assms(2)
  by (auto simp: SDL_GpuBindVertexStorageTextures_def macro_defs header_def deref_device_def spec_gated_def
      spec_render_gate_def spec_compute_gate_def)

lemma BindVertexStorageBuffers_eq:
  assumes "usable s rp" "heap s rp = Some h"
  shows "SDL_GpuBindVertexStorageBuffers rp firstSlot storageBuffers bindingCount s =
     spec_gated (spec_render_gate h) (device h, ''BindVertexStorageBuffers'', [Pv rp, Uv firstSlot, Pv storageBuffers, Uv bindingCount]) s"
  using usableD[OF assms] assms(2)
  by (auto simp: SDL_GpuBindVertexStorageBuffers_def macro_defs header_def deref_device_def spec_gated_def
      spec_render_gate_def spec_compute_gate_def)

lemma BindFragmentSamplers_eq:
  assumes "usable s rp" "heap s rp = Some h"
  shows "SDL_GpuBindFragmentSamplers rp firstSlot textureSamplerBindings bindingCount s =
     spec_gated (spec_render_gate h) (device h, ''BindFragmentSamplers'', [Pv rp, Uv firstSlot, Pv textureSamplerBindings, Uv bindingCount]) s"
  using usableD[OF assms] assms(2)
  by (auto simp: SDL_GpuBindFragmentSamplers_def macro_defs header_def deref_device_def spec_gated_def
      spec_render_gate_def spec_compute_gate_def)

lemma BindFragmentStorageTextures_eq:
  assumes "usable s rp" "heap s rp = Some h"
  shows "SDL_GpuBindFragmentStorageTextures rp firstSlot storageTextureSlices bindingCount s =
     spec_gated (spec_render_gate h) (device h, ''BindFragmentStorageTextures'', [Pv rp, Uv firstSlot, Pv storageTextureSlices, Uv bindingCount]) s"
  using usableD[OF assms] assms(2)
  by (auto simp: SDL_GpuBindFragmentStorageTextures_def macro_defs header_def deref_device_def spec_gated_def
      spec_render_gate_def spec_compute_gate_def)

lemma BindFragmentStorageBuffers_eq:
  assumes "usable s rp" "heap s rp = Some h"
  shows "SDL_GpuBindFragmentStorageBuffers rp firstSlot storageBuffers bindingCount s =
     spec_gated (spec_render_gate h) (device h, ''BindFragmentStorageBuffers'', [Pv rp, Uv firstSlot, Pv storageBuffers, Uv bindingCount]) s"
  using usableD[OF assms] assms(2)
  by (auto simp: SDL_GpuBindFragmentStorageBuffers_def macro_defs header_def deref_device_def spec_gated_def
      spec_render_gate_def spec_compute_gate_def)

lemma PushVertexUniformData_eq:
  assumes "usable s rp" "heap s rp = Some h"
  shows "SDL_GpuPushVertexUniformData rp slotIndex data dataLengthInBytes s =
     spec_gated (spec_render_gate h) (device h, ''PushVertexUniformData'', [Pv rp, Uv slotIndex, Pv data, Uv dataLengthInBytes]) s"
  using usableD[OF assms] assms(2)
  by (auto simp: SDL_GpuPushVertexUniformData_def macro_defs header_def deref_device_def spec_gated_def
      spec_render_gate_def spec_compute_gate_def)

lemma PushFragmentUniformData_eq:
  assumes "usable s rp" "heap s rp = Some h"
  shows "SDL_GpuPushFragmentUniformData rp slotIndex data dataLengthInBytes s =
     spec_gated (spec_render_gate h) (device h, ''PushFragmentUniformData'', [Pv rp, Uv slotIndex, Pv data, Uv dataLengthInBytes]) s"
  using usableD[OF assms] assms(2)
  by (auto simp: SDL_GpuPushFragmentUniformData_def macro_defs header_def deref_device_def spec_gated_def
      spec_render_gate_def spec_compute_gate_def)

lemma DrawIndexedPrimitives_eq:
  assumes "usable s rp" "heap s rp = Some h"
  shows "SDL_GpuDrawIndexedPrimitives rp baseVertex startIndex primitiveCount instanceCount s =
     spec_gated (spec_render_gate h) (device h, ''DrawIndexedPrimitives'', [Pv rp, Uv baseVertex, Uv startIndex, Uv primitiveCount, Uv instanceCount]) s"
  using usableD[OF assms] assms(2)
  by (auto simp: SDL_GpuDrawIndexedPrimitives_def macro_defs header_def deref_device_def spec_gated_def
      spec_render_gate_def spec_compute_gate_def)

lemma DrawPrimitives_eq:
  assumes "usable s rp" "heap s rp = Some h"
  shows "SDL_GpuDrawPrimitives rp vertexStart primitiveCount s =
     spec_gated (spec_render_gate h) (device h, ''DrawPrimitives'', [Pv rp, Uv vertexStart, Uv primitiveCount]) s"
  using usableD[OF assms] assms(2)
  by (auto simp: SDL_GpuDrawPrimitives_def macro_defs header_def deref_device_def spec_gated_def
      spec_render_gate_def spec_compute_gate_def)

lemma DrawPrimitivesIndirect_eq:
  assumes "usable s rp" "heap s rp = Some h"
  shows "SDL_GpuDrawPrimitivesIndirect rp buffer offsetInBytes drawCount stride s =
     spec_gated (spec_render_gate h) (device h, ''DrawPrimitivesIndirect'', [Pv rp, Pv buffer, Uv offsetInBytes, Uv drawCount, Uv stride]) s"
  using usableD[OF assms] assms(2)
  by (auto simp: SDL_GpuDrawPrimitivesIndirect_def macro_defs header_def deref_device_def spec_gated_def
      spec_render_gate_def spec_compute_gate_def)

lemma DrawIndexedPrimitivesIndirect_eq:
  assumes "usable s rp" "heap s rp = Some h"
  shows "SDL_GpuDrawIndexedPrimitivesIndirect rp buffer offsetInBytes drawCount stride s =
     spec_gated (spec_render_gate h) (device h, ''DrawIndexedPrimitivesIndirect'', [Pv rp, Pv buffer, Uv offsetInBytes, Uv drawCount, Uv stride]) s"
  using usableD[OF assms] assms(2)
  by (auto simp: SDL_GpuDrawIndexedPrimitivesIndirect_def macro_defs header_def deref_device_def spec_gated_def
      spec_render_gate_def spec_compute_gate_def)

lemma BindComputeStorageTextures_eq:
  assumes "usable s cp" "heap s cp = Some h"
  shows "SDL_GpuBindComputeStorageTextures cp firstSlot storageTextureSlices bindingCount s =
     spec_gated (spec_compute_gate h) (device h, ''BindComputeStorageTextures'', [Pv cp, Uv firstSlot, Pv storageTextureSlices, Uv bindingCount]) s"
  using usableD[OF assms] assms(2)
  by (auto simp: SDL_GpuBindComputeStorageTextures_def macro_defs header_def deref_device_def spec_gated_def
      spec_render_gate_def spec_compute_gate_def)

lemma BindComputeStorageBuffers_eq:
  assumes "usable s cp" "heap s cp = Some h"
  shows "SDL_GpuBindComputeStorageBuffers cp firstSlot storageBuffers bindingCount s =
     spec_gated (spec_compute_gate h) (device h, ''BindComputeStorageBuffers'', [Pv cp, Uv firstSlot, Pv storageBuffers, Uv bindingCount]) s"
  using usableD[OF assms] assms(2)
  by (auto simp: SDL_GpuBindComputeStorageBuffers_def macro_defs header_def deref_device_def spec_gated_def
      spec_render_gate_def spec_compute_gate_def)

lemma PushComputeUniformData_eq:
  assumes "usable s cp" "heap s cp = Some h"
  shows "SDL_GpuPushComputeUniformData cp slotIndex data dataLengthInBytes s =
     spec_gated (spec_compute_gate h) (device h, ''PushComputeUniformData'', [Pv cp, Uv slotIndex, Pv data, Uv dataLengthInBytes]) s"
  using usableD[OF assms] assms(2)
  by (auto simp: SDL_GpuPushComputeUniformData_def macro_defs header_def deref_device_def spec_gated_def
      spec_render_gate_def spec_compute_gate_def)

lemma DispatchCompute_eq:
  assumes "usable s cp" "heap s cp = Some h"
  shows "SDL_GpuDispatchCompute cp groupCountX groupCountY groupCountZ s =
     spec_gated (spec_compute_gate h) (device h, ''DispatchCompute'', [Pv cp, Uv groupCountX, Uv groupCountY, Uv groupCountZ]) s"
  using usableD[OF assms] assms(2)
  by (auto simp: SDL_GpuDispatchCompute_def macro_defs header_def deref_device_def spec_gated_def
      spec_render_gate_def spec_compute_gate_def)

lemma UploadToTexture_eq:
  assumes "usable s xp" "heap s xp = Some h"
  shows "SDL_GpuUploadToTexture xp transferBuffer textureRegion copyParams cycle s =
     spec_gated (if \<not> inProgress (copyPass h) then Some ''Copy pass not in progress!'' else None) (device h, ''UploadToTexture'', [Pv xp, Pv transferBuffer, Pv textureRegion, Pv copyParams, Bv cycle]) s"
  using usableD[OF assms] assms(2)
  by (auto simp: SDL_GpuUploadToTexture_def macro_defs header_def deref_device_def spec_gated_def
      spec_render_gate_def spec_compute_gate_def)

lemma UploadToBuffer_eq:
  assumes "usable s xp" "heap s xp = Some h"
  shows "SDL_GpuUploadToBuffer xp transferBuffer buffer copyParams cycle s =
     Inr ((), s\<lparr>calls := calls s @ [(device h, ''UploadToBuffer'', [Pv xp, Pv transferBuffer, Pv buffer, Pv copyParams, Bv cycle])]\<rparr>)"
  using usableD[OF assms] assms(2)
  by (auto simp: SDL_GpuUploadToBuffer_def macro_defs header_def deref_device_def spec_gated_def
      spec_render_gate_def spec_compute_gate_def)

lemma CopyTextureToTexture_eq:
  assumes "usable s xp" "heap s xp = Some h"
  shows "SDL_GpuCopyTextureToTexture xp source destination cycle s =
     Inr ((), s\<lparr>calls := calls s @ [(device h, ''CopyTextureToTexture'', [Pv xp, Pv source, Pv destination, Bv cycle])]\<rparr>)"
  using usableD[OF assms] assms(2)
  by (auto simp: SDL_GpuCopyTextureToTexture_def macro_defs header_def deref_device_def spec_gated_def
      spec_render_gate_def spec_compute_gate_def)

lemma CopyBufferToBuffer_eq:
  assumes "usable s xp" "heap s xp = Some h"
  shows "SDL_GpuCopyBufferToBuffer xp source destination copyParams cycle s =
     Inr ((), s\<lparr>calls := calls s @ [(device h, ''CopyBufferToBuffer'', [Pv xp, Pv source, Pv destination, Pv copyParams, Bv cycle])]\<rparr>)"
  using usableD[OF assms] assms(2)
  by (auto simp: SDL_GpuCopyBufferToBuffer_def macro_defs header_def deref_device_def spec_gated_def
      spec_render_gate_def spec_compute_gate_def)

lemma GenerateMipmaps_eq:
  assumes "usable s xp" "heap s xp = Some h"
  shows "SDL_GpuGenerateMipmaps xp texture s =
     Inr ((), s\<lparr>calls := calls s @ [(device h, ''GenerateMipmaps'', [Pv xp, Pv texture])]\<rparr>)"
  using usableD[OF assms] assms(2)
  by (auto simp: SDL_GpuGenerateMipmaps_def macro_defs header_def deref_device_def spec_gated_def
      spec_render_gate_def spec_compute_gate_def)

lemma DownloadFromTexture_eq:
  assumes "usable s xp" "heap s xp = Some h"
  shows "SDL_GpuDownloadFromTexture xp textureRegion transferBuffer copyParams s =
     Inr ((), s\<lparr>calls := calls s @ [(device h, ''DownloadFromTexture'', [Pv xp, Pv textureRegion, Pv transferBuffer, Pv copyParams])]\<rparr>)"
  using usableD[OF assms] assms(2)
  by (auto simp: SDL_GpuDownloadFromTexture_def macro_defs header_def deref_device_def spec_gated_def
      spec_render_gate_def spec_compute_gate_def)

lemma DownloadFromBuffer_eq:
  assumes "usable s xp" "heap s xp = Some h"
  shows "SDL_GpuDownloadFromBuffer xp buffer transferBuffer copyParams s =
     Inr ((), s\<lparr>calls := calls s @ [(device h, ''DownloadFromBuffer'', [Pv xp, Pv buffer, Pv transferBuffer, Pv copyParams])]\<rparr>)"
  using usableD[OF assms] assms(2)
  by (auto simp: SDL_GpuDownloadFromBuffer_def macro_defs header_def deref_device_def spec_gated_def
      spec_render_gate_def spec_compute_gate_def)

lemma SetStringMarker_eq:
  assumes "usable s cb" "heap s cb = Some h"
  shows "SDL_GpuSetStringMarker cb text s =
     spec_gated (if submitted h then Some ''Command buffer already submitted!'' else None) (device h, ''SetStringMarker'', [Pv cb, Sv text]) s"
  using usableD[OF assms] assms(2)
  by (auto simp: SDL_GpuSetStringMarker_def macro_defs header_def deref_device_def spec_gated_def
      spec_render_gate_def spec_compute_gate_def)

lemma Blit_eq:
  assumes "usable s cb" "heap s cb = Some h"
  shows "SDL_GpuBlit cb source destination filterMode cycle s =
     spec_gated (if submitted h then Some ''Command buffer already submitted!'' else None) (device h, ''Blit'', [Pv cb, Pv source, Pv destination, Ev filterMode, Bv cycle]) s"
  using usableD[OF assms] assms(2)
  by (auto simp: SDL_GpuBlit_def macro_defs header_def deref_device_def spec_gated_def
      spec_render_gate_def spec_compute_gate_def)

lemma OcclusionQueryBegin_eq:
  assumes "usable s cb" "heap s cb = Some h"
  shows "SDL_GpuOcclusionQueryBegin cb query s =
     Inr ((), s\<lparr>calls := calls s @ [(device h, ''OcclusionQueryBegin'', [Pv cb, Pv query])]\<rparr>)"
  using usableD[OF assms] assms(2)
  by (auto simp: SDL_GpuOcclusionQueryBegin_def macro_defs header_def deref_device_def spec_gated_def
      spec_render_gate_def spec_compute_gate_def)

lemma OcclusionQueryEnd_eq:
  assumes "usable s cb" "heap s cb = Some h"
  shows "SDL_GpuOcclusionQueryEnd cb query s =
     Inr ((), s\<lparr>calls := calls s @ [(device h, ''OcclusionQueryEnd'', [Pv cb, Pv query])]\<rparr>)"
  using usableD[OF assms] assms(2)
  by (auto simp: SDL_GpuOcclusionQueryEnd_def macro_defs header_def deref_device_def spec_gated_def
      spec_render_gate_def spec_compute_gate_def)

lemma begin_render_eq:
  assumes "usable s cb" "heap s cb = Some h"
  shows "SDL_GpuBeginRenderPass cb a b c s =
    (if submitted h
     then Inr (NULL, s\<lparr>logs := logs s @ [LogError ''Command buffer already submitted!'' []]\<rparr>)
     else if any_pass_in_progress h
     then Inr (NULL, s\<lparr>logs := logs s @ [LogError ''Pass already in progress!'' []]\<rparr>)
     else Inr (cb, s\<lparr>calls := calls s @ [(device h, ''BeginRenderPass'', [Pv cb, Pv a, Uv b, Pv c])],
                     heap := (heap s)(cb \<mapsto> h\<lparr>renderPass := (renderPass h)\<lparr>inProgress := True\<rparr>\<rparr>)\<rparr>))"
  using usableD[OF assms] assms(2)
  by (auto simp: SDL_GpuBeginRenderPass_def macro_defs header_def deref_device_def any_pass_in_progress_def)

lemma begin_render_NULL: "SDL_GpuBeginRenderPass NULL a b c s = Inr (NULL, s)"
  by (simp add: SDL_GpuBeginRenderPass_def CHECK_COMMAND_BUFFER_RETURN_NULL_def)

lemma begin_render_raw:
  "SDL_GpuBeginRenderPass cb a b c s = Inr (r, s') \<Longrightarrow>
     heap s' = heap s \<or>
     (\<exists>h. heap s cb = Some h \<and> \<not> submitted h \<and> \<not> any_pass_in_progress h \<and>
          heap s' = (heap s)(cb \<mapsto> h\<lparr>renderPass := (renderPass h)\<lparr>inProgress := True\<rparr>\<rparr>))"
  by (auto simp: SDL_GpuBeginRenderPass_def macro_defs seq_def header_def deref_device_def any_pass_in_progress_def
      split: outcome_splits)

lemma begin_compute_eq:
  assumes "usable s cb" "heap s cb = Some h"
  shows "SDL_GpuBeginComputePass cb a b c d s =
    (if submitted h
     then Inr (NULL, s\<lparr>logs := logs s @ [LogError ''Command buffer already submitted!'' []]\<rparr>)
     else if any_pass_in_progress h
     then Inr (NULL, s\<lparr>logs := logs s @ [LogError ''Pass already in progress!'' []]\<rparr>)
     else Inr (cb, s\<lparr>calls := calls s @ [(device h, ''BeginComputePass'', [Pv cb, Pv a, Uv b, Pv c, Uv d])],
                     heap := (heap s)(cb \<mapsto> h\<lparr>computePass := (computePass h)\<lparr>inProgress := True\<rparr>\<rparr>)\<rparr>))"
  using usableD[OF assms] assms(2)
  by (auto simp: SDL_GpuBeginComputePass_def macro_defs header_def deref_device_def any_pass_in_progress_def)

lemma begin_compute_NULL: "SDL_GpuBeginComputePass NULL a b c d s = Inr (NULL, s)"
  by (simp add: SDL_GpuBeginComputePass_def CHECK_COMMAND_BUFFER_RETURN_NULL_def)

lemma begin_compute_raw:
  "SDL_GpuBeginComputePass cb a b c d s = Inr (r, s') \<Longrightarrow>
     heap s' = heap s \<or>
     (\<exists>h. heap s cb = Some h \<and> \<not> submitted h \<and> \<not> any_pass_in_progress h \<and>
          heap s' = (heap s)(cb \<mapsto> h\<lparr>computePass := (computePass h)\<lparr>inProgress := True\<rparr>\<rparr>))"
  by (auto simp: SDL_GpuBeginComputePass_def macro_defs seq_def header_def deref_device_def any_pass_in_progress_def
      split: outcome_splits)

lemma begin_copy_eq:
  assumes "usable s cb" "heap s cb = Some h"
  shows "SDL_GpuBeginCopyPass cb  s =
    (if submitted h
     then Inr (NULL, s\<lparr>logs := logs s @ [LogError ''Command buffer already submitted!'' []]\<rparr>)
     else if any_pass_in_progress h
     then Inr (NULL, s\<lparr>logs := logs s @ [LogError ''Pass already in progress!'' []]\<rparr>)
     else Inr (cb, s\<lparr>calls := calls s @ [(device h, ''BeginCopyPass'', [Pv cb])],
                     heap := (heap s)(cb \<mapsto> h\<lparr>copyPass := (copyPass h)\<lparr>inProgress := True\<rparr>\<rparr>)\<rparr>))"
  using usableD[OF assms] assms(2)
  by (auto simp: SDL_GpuBeginCopyPass_def macro_defs header_def deref_device_def any_pass_in_progress_def)

lemma begin_copy_NULL: "SDL_GpuBeginCopyPass NULL  s = Inr (NULL, s)"
  by (simp add: SDL_GpuBeginCopyPass_def CHECK_COMMAND_BUFFER_RETURN_NULL_def)

lemma begin_copy_raw:
  "SDL_GpuBeginCopyPass cb  s = Inr (r, s') \<Longrightarrow>
     heap s' = heap s \<or>
     (\<exists>h. heap s cb = Some h \<and> \<not> submitted h \<and> \<not> any_pass_in_progress h \<and>
          heap s' = (heap s)(cb \<mapsto> h\<lparr>copyPass := (copyPass h)\<lparr>inProgress := True\<rparr>\<rparr>))"
  by (auto simp: SDL_GpuBeginCopyPass_def macro_defs seq_def header_def deref_device_def any_pass_in_progress_def
      split: outcome_splits)

lemma end_render_eq:
  assumes "usable s rp" "heap s rp = Some h"
  shows "SDL_GpuEndRenderPass rp s =
    (if \<not> inProgress (renderPass h)
     then Inr ((), s\<lparr>logs := logs s @ [LogError ''Render pass not in progress!'' []]\<rparr>)
     else Inr ((), s\<lparr>calls := calls s @ [(device h, ''EndRenderPass'', [Pv rp])],
                     heap := (heap s)(rp \<mapsto> h\<lparr>renderPass := (renderPass h)\<lparr>inProgress := False\<rparr>, graphicsPipelineBound := False\<rparr>)\<rparr>))"
  using usableD[OF assms] assms(2)
  by (auto simp: SDL_GpuEndRenderPass_def macro_defs header_def deref_device_def)

lemma end_render_raw:
  "SDL_GpuEndRenderPass rp s = Inr (r, s') \<Longrightarrow>
     \<exists>h. heap s rp = Some h \<and> rp \<noteq> NULL \<and>
       (heap s' = heap s \<or>
        (inProgress (renderPass h) \<and>
         (\<exists>g. heap s (commandBuffer (renderPass h)) = Some g \<and>
            heap s' = (heap s)(commandBuffer (renderPass h) \<mapsto>
              g\<lparr>renderPass := (renderPass g)\<lparr>inProgress := False\<rparr>, graphicsPipelineBound := False\<rparr>))))"
  by (auto simp: SDL_GpuEndRenderPass_def macro_defs seq_def header_def deref_device_def
      split: outcome_splits)

lemma end_compute_eq:
  assumes "usable s cp" "heap s cp = Some h"
  shows "SDL_GpuEndComputePass cp s =
    (if \<not> inProgress (computePass h)
     then Inr ((), s\<lparr>logs := logs s @ [LogError ''Compute pass not in progress!'' []]\<rparr>)
     else Inr ((), s\<lparr>calls := calls s @ [(device h, ''EndComputePass'', [Pv cp])],
                     heap := (heap s)(cp \<mapsto> h\<lparr>computePass := (computePass h)\<lparr>inProgress := False\<rparr>, computePipelineBound := False\<rparr>)\<rparr>))"
  using usableD[OF assms] assms(2)
  by (auto simp: SDL_GpuEndComputePass_def macro_defs header_def deref_device_def)

lemma end_compute_raw:
  "SDL_GpuEndComputePass cp s = Inr (r, s') \<Longrightarrow>
     \<exists>h. heap s cp = Some h \<and> cp \<noteq> NULL \<and>
       (heap s' = heap s \<or>
        (inProgress (computePass h) \<and>
         (\<exists>g. heap s (commandBuffer (computePass h)) = Some g \<and>
            heap s' = (heap s)(commandBuffer (computePass h) \<mapsto>
              g\<lparr>computePass := (computePass g)\<lparr>inProgress := False\<rparr>, computePipelineBound := False\<rparr>))))"
  by (auto simp: SDL_GpuEndComputePass_def macro_defs seq_def header_def deref_device_def
      split: outcome_splits)

lemma end_copy_eq:
  assumes "usable s xp" "heap s xp = Some h"
  shows "SDL_GpuEndCopyPass xp s =
    (if \<not> inProgress (copyPass h)
     then Inr ((), s\<lparr>logs := logs s @ [LogError ''Copy pass not in progress!'' []]\<rparr>)
     else Inr ((), s\<lparr>calls := calls s @ [(device h, ''EndCopyPass'', [Pv xp])],
                     heap := (heap s)(xp \<mapsto> h\<lparr>copyPass := (copyPass h)\<lparr>inProgress := False\<rparr>\<rparr>)\<rparr>))"
  using usableD[OF assms] assms(2)
  by (auto simp: SDL_GpuEndCopyPass_def macro_defs header_def deref_device_def)

lemma end_copy_raw:
  "SDL_GpuEndCopyPass xp s = Inr (r, s') \<Longrightarrow>
     \<exists>h. heap s xp = Some h \<and> xp \<noteq> NULL \<and>
       (heap s' = heap s \<or>
        (inProgress (copyPass h) \<and>
         (\<exists>g. heap s (commandBuffer (copyPass h)) = Some g \<and>
            heap s' = (heap s)(commandBuffer (copyPass h) \<mapsto>
              g\<lparr>copyPass := (copyPass g)\<lparr>inProgress := False\<rparr>\<rparr>))))"
  by (auto simp: SDL_GpuEndCopyPass_def macro_defs seq_def header_def deref_device_def
      split: outcome_splits)

lemma bind_graphics_eq:
  assumes "usable s rp" "heap s rp = Some h"
  shows "SDL_GpuBindGraphicsPipeline rp graphicsPipeline s =
     Inr ((), s\<lparr>calls := calls s @ [(device h, ''BindGraphicsPipeline'', [Pv rp, Pv graphicsPipeline])],
                  heap := (heap s)(rp \<mapsto> h\<lparr>graphicsPipelineBound := True\<rparr>)\<rparr>)"
  using usableD[OF assms] assms(2)
  by (auto simp: SDL_GpuBindGraphicsPipeline_def macro_defs header_def deref_device_def)

lemma bind_graphics_raw:
  "SDL_GpuBindGraphicsPipeline rp graphicsPipeline s = Inr (r, s') \<Longrightarrow>
     \<exists>h g. heap s rp = Some h \<and> rp \<noteq> NULL \<and> heap s (commandBuffer (renderPass h)) = Some g \<and>
        heap s' = (heap s)(commandBuffer (renderPass h) \<mapsto> g\<lparr>graphicsPipelineBound := True\<rparr>)"
  by (auto simp: SDL_GpuBindGraphicsPipeline_def macro_defs seq_def header_def deref_device_def
      split: outcome_splits)

lemma bind_compute_eq:
  assumes "usable s cp" "heap s cp = Some h"
  shows "SDL_GpuBindComputePipeline cp computePipeline s =
    (if \<not> inProgress (computePass h)
     then Inr ((), s\<lparr>logs := logs s @ [LogError ''Compute pass not in progress!'' []]\<rparr>)
     else Inr ((), s\<lparr>calls := calls s @ [(device h, ''BindComputePipeline'', [Pv cp, Pv computePipeline])],
                  heap := (heap s)(cp \<mapsto> h\<lparr>computePipelineBound := True\<rparr>)\<rparr>))"
  using usableD[OF assms] assms(2)
  by (auto simp: SDL_GpuBindComputePipeline_def macro_defs header_def deref_device_def)

lemma bind_compute_raw:
  "SDL_GpuBindComputePipeline cp computePipeline s = Inr (r, s') \<Longrightarrow>
     \<exists>h. heap s cp = Some h \<and> cp \<noteq> NULL \<and>
       (heap s' = heap s \<or>
        (inProgress (computePass h) \<and>
         (\<exists>g. heap s (commandBuffer (computePass h)) = Some g \<and>
            heap s' = (heap s)(commandBuffer (computePass h) \<mapsto> g\<lparr>computePipelineBound := True\<rparr>))))"
  by (auto simp: SDL_GpuBindComputePipeline_def macro_defs seq_def header_def deref_device_def
      split: outcome_splits)

lemma submit_eq:
  assumes "usable s cb" "heap s cb = Some h"
  shows "SDL_GpuSubmit cb s =
    (if submitted h
     then Inr ((), s\<lparr>logs := logs s @ [LogError ''Command buffer already submitted!'' []]\<rparr>)
     else if any_pass_in_progress h
     then Inr ((), s\<lparr>logs := logs s @ [LogError ''Cannot submit command buffer while a pass is in progress!'' []]\<rparr>)
     else Inr ((), s\<lparr>calls := calls s @ [(device h, ''Submit'', [Pv cb])],
                     heap := (heap s)(cb \<mapsto> h\<lparr>submitted := True\<rparr>)\<rparr>))"
  using usableD[OF assms] assms(2)
  by (auto simp: SDL_GpuSubmit_def macro_defs header_def deref_device_def any_pass_in_progress_def)

lemma submit_fence_eq:
  assumes "usable s cb" "heap s cb = Some h" "devices s (device h) = Some d"
  shows "SDL_GpuSubmitAndAcquireFence cb s =
    (if submitted h
     then Inr (NULL, s\<lparr>logs := logs s @ [LogError ''Command buffer already submitted!'' []]\<rparr>)
     else if any_pass_in_progress h
     then Inr (NULL, s\<lparr>logs := logs s @ [LogError ''Cannot submit command buffer while a pass is in progress!'' []]\<rparr>)
     else Inr (table d (calls s) ''SubmitAndAcquireFence'' [Pv cb],
               s\<lparr>calls := calls s @ [(device h, ''SubmitAndAcquireFence'', [Pv cb])],
                 heap := (heap s)(cb \<mapsto> h\<lparr>submitted := True\<rparr>)\<rparr>))"
  using usableD[OF assms(1,2)] assms(2,3)
  by (auto simp: SDL_GpuSubmitAndAcquireFence_def macro_defs header_def deref_device_def any_pass_in_progress_def)

lemma submit_NULL: "SDL_GpuSubmit NULL s = Inr ((), s)"
  by (simp add: SDL_GpuSubmit_def CHECK_COMMAND_BUFFER_def)

lemma submit_fence_NULL: "SDL_GpuSubmitAndAcquireFence NULL s = Inr (NULL, s)"
  by (simp add: SDL_GpuSubmitAndAcquireFence_def CHECK_COMMAND_BUFFER_RETURN_NULL_def)

lemma submit_raw:
  "SDL_GpuSubmit cb s = Inr (r, s') \<Longrightarrow>
     heap s' = heap s \<or>
     (\<exists>h. heap s cb = Some h \<and> \<not> submitted h \<and> \<not> any_pass_in_progress h \<and>
          heap s' = (heap s)(cb \<mapsto> h\<lparr>submitted := True\<rparr>))"
  by (auto simp: SDL_GpuSubmit_def macro_defs seq_def header_def deref_device_def any_pass_in_progress_def
      split: outcome_splits)

lemma submit_fence_raw:
  "SDL_GpuSubmitAndAcquireFence cb s = Inr (r, s') \<Longrightarrow>
     heap s' = heap s \<or>
     (\<exists>h. heap s cb = Some h \<and> \<not> submitted h \<and> \<not> any_pass_in_progress h \<and>
          heap s' = (heap s)(cb \<mapsto> h\<lparr>submitted := True\<rparr>))"
  by (auto simp: SDL_GpuSubmitAndAcquireFence_def macro_defs seq_def header_def deref_device_def any_pass_in_progress_def
      split: outcome_splits)

lemma swapchain_heap:
  "SDL_GpuAcquireSwapchainTexture cb a b c s = Inr (r, s') \<Longrightarrow> heap s' = heap s"
  by (auto simp: SDL_GpuAcquireSwapchainTexture_def macro_defs seq_def header_def deref_device_def
      split: outcome_splits)

lemma acquire_eq:
  assumes "dev \<noteq> NULL" "devices s dev = Some d"
  shows "SDL_GpuAcquireCommandBuffer dev s =
    (let cb = table d (calls s) ''AcquireCommandBuffer'' [Pv (driverData d)];
         s1 = s\<lparr>calls := calls s @ [(dev, ''AcquireCommandBuffer'', [Pv (driverData d)])]\<rparr>
     in if cb = NULL then Inr (NULL, s1)
        else Inr (cb, s1\<lparr>heap := (heap s)(cb \<mapsto> idle_header dev cb)\<rparr>))"
  using assms
  by (auto simp: SDL_GpuAcquireCommandBuffer_def macro_defs deref_device_def idle_header_def Let_def)

lemma acquire_raw:
  "SDL_GpuAcquireCommandBuffer dev s = Inr (r, s') \<Longrightarrow>
     heap s' = heap s \<or> (r \<noteq> NULL \<and> heap s' = (heap s)(r \<mapsto> idle_header dev r))"
  by (auto simp: SDL_GpuAcquireCommandBuffer_def macro_defs seq_def deref_device_def idle_header_def
      split: outcome_splits)


lemma sample_idle_acquired: "SDL_GpuAcquireCommandBuffer 5 sample_start = Inr (2, sample_idle)"
  by (simp add: SDL_GpuAcquireCommandBuffer_def macro_defs deref_device_def sample_start_def
      sample_idle_def sample_device_def idle_header_def)

lemma reachable_sample_idle: "reachable sample_idle"
proof -
  have "reachable sample_start"
    by (rule reachable.Start) (simp add: sample_start_def)
  then show ?thesis
    using sample_idle_acquired by (blast intro: reachable.Step api_step.Acquire)
qed

lemmas forward_heap = SetViewport_heap SetScissor_heap BindVertexBuffers_heap BindIndexBuffer_heap BindVertexSamplers_heap BindVertexStorageTextures_heap BindVertexStorageBuffers_heap BindFragmentSamplers_heap BindFragmentStorageTextures_heap BindFragmentStorageBuffers_heap PushVertexUniformData_heap PushFragmentUniformData_heap DrawIndexedPrimitives_heap DrawPrimitives_heap DrawPrimitivesIndirect_heap DrawIndexedPrimitivesIndirect_heap BindComputeStorageTextures_heap BindComputeStorageBuffers_heap PushComputeUniformData_heap DispatchCompute_heap UploadToTexture_heap UploadToBuffer_heap CopyTextureToTexture_heap CopyBufferToBuffer_heap GenerateMipmaps_heap DownloadFromTexture_heap DownloadFromBuffer_heap SetStringMarker_heap Blit_heap OcclusionQueryBegin_heap OcclusionQueryEnd_heap swapchain_heap

lemma header_step_links:
  "header_step h h' \<Longrightarrow>
     commandBuffer (renderPass h') = commandBuffer (renderPass h)
     \<and> commandBuffer (computePass h') = commandBuffer (computePass h)
     \<and> commandBuffer (copyPass h') = commandBuffer (copyPass h) \<and> device h' = device h"
  by (induction rule: header_step.induct) simp_all

lemma header_step_passes:
  "header_step h h' \<Longrightarrow> passes_in_progress h \<le> 1 \<Longrightarrow> (submitted h \<longrightarrow> \<not> any_pass_in_progress h)
     \<Longrightarrow> passes_in_progress h' \<le> 1 \<and> (submitted h' \<longrightarrow> \<not> any_pass_in_progress h')"
  by (induction rule: header_step.induct)
     (auto simp: passes_in_progress_def any_pass_in_progress_def split: if_splits)

lemma header_step_compute_gate:
  "header_step h h' \<Longrightarrow> (computePipelineBound h \<longrightarrow> inProgress (computePass h))
     \<Longrightarrow> (computePipelineBound h' \<longrightarrow> inProgress (computePass h'))"
  by (induction rule: header_step.induct) auto

lemma header_step_submitted: "header_step h h' \<Longrightarrow> submitted h \<Longrightarrow> submitted h'"
  by (induction rule: header_step.induct) auto

lemma heap_linkedD:
  "heap_linked s \<Longrightarrow> heap s p = Some h \<Longrightarrow>
     p \<noteq> NULL \<and> commandBuffer (renderPass h) = p \<and> commandBuffer (computePass h) = p
     \<and> commandBuffer (copyPass h) = p"
  by (auto simp: heap_linked_def linked_def split: option.splits)

lemma begin_render_step:
  "SDL_GpuBeginRenderPass cb a b c s = Inr (r, s') \<Longrightarrow>
     heap s' = heap s \<or> (\<exists>p h h'. heap s p = Some h \<and> header_step h h' \<and> heap s' = (heap s)(p \<mapsto> h'))"
  by (drule begin_render_raw) (blast intro: header_step.begin_render)

lemma begin_compute_step:
  "SDL_GpuBeginComputePass cb a b c d s = Inr (r, s') \<Longrightarrow>
     heap s' = heap s \<or> (\<exists>p h h'. heap s p = Some h \<and> header_step h h' \<and> heap s' = (heap s)(p \<mapsto> h'))"
  by (drule begin_compute_raw) (blast intro: header_step.begin_compute)

lemma begin_copy_step:
  "SDL_GpuBeginCopyPass cb s = Inr (r, s') \<Longrightarrow>
     heap s' = heap s \<or> (\<exists>p h h'. heap s p = Some h \<and> header_step h h' \<and> heap s' = (heap s)(p \<mapsto> h'))"
  by (drule begin_copy_raw) (blast intro: header_step.begin_copy)

lemma submit_step:
  "SDL_GpuSubmit cb s = Inr (r, s') \<Longrightarrow>
     heap s' = heap s \<or> (\<exists>p h h'. heap s p = Some h \<and> header_step h h' \<and> heap s' = (heap s)(p \<mapsto> h'))"
  by (drule submit_raw) (blast intro: header_step.submit)

lemma submit_fence_step:
  "SDL_GpuSubmitAndAcquireFence cb s = Inr (r, s') \<Longrightarrow>
     heap s' = heap s \<or> (\<exists>p h h'. heap s p = Some h \<and> header_step h h' \<and> heap s' = (heap s)(p \<mapsto> h'))"
  by (drule submit_fence_raw) (blast intro: header_step.submit)

lemma end_render_step:
  assumes "SDL_GpuEndRenderPass rp s = Inr (r, s')" "heap_linked s"
  shows "heap s' = heap s \<or> (\<exists>p h h'. heap s p = Some h \<and> header_step h h' \<and> heap s' = (heap s)(p \<mapsto> h'))"
proof -
  from end_render_raw[OF assms(1)] obtain h where h: "heap s rp = Some h"
    and c: "heap s' = heap s \<or> (inProgress (renderPass h) \<and>
         (\<exists>g. heap s (commandBuffer (renderPass h)) = Some g \<and>
            heap s' = (heap s)(commandBuffer (renderPass h) \<mapsto>
              g\<lparr>renderPass := (renderPass g)\<lparr>inProgress := False\<rparr>, graphicsPipelineBound := False\<rparr>)))"
    by blast
  from heap_linkedD[OF assms(2) h] have l: "commandBuffer (renderPass h) = rp" by simp
  from c show ?thesis
  proof
    assume "heap s' = heap s" then show ?thesis by simp
  next
    assume a: "inProgress (renderPass h) \<and>
         (\<exists>g. heap s (commandBuffer (renderPass h)) = Some g \<and>
            heap s' = (heap s)(commandBuffer (renderPass h) \<mapsto>
              g\<lparr>renderPass := (renderPass g)\<lparr>inProgress := False\<rparr>, graphicsPipelineBound := False\<rparr>))"
    with l h have "heap s' = (heap s)(rp \<mapsto> h\<lparr>renderPass := (renderPass h)\<lparr>inProgress := False\<rparr>, graphicsPipelineBound := False\<rparr>)"
      by auto
    moreover from a have "header_step h (h\<lparr>renderPass := (renderPass h)\<lparr>inProgress := False\<rparr>, graphicsPipelineBound := False\<rparr>)"
      by (blast intro: header_step.end_render)
    ultimately show ?thesis using h by blast
  qed
qed

lemma end_compute_step:
  assumes "SDL_GpuEndComputePass cp s = Inr (r, s')" "heap_linked s"
  shows "heap s' = heap s \<or> (\<exists>p h h'. heap s p = Some h \<and> header_step h h' \<and> heap s' = (heap s)(p \<mapsto> h'))"
proof -
  from end_compute_raw[OF assms(1)] obtain h where h: "heap s cp = Some h"
    and c: "heap s' = heap s \<or> (inProgress (computePass h) \<and>
         (\<exists>g. heap s (commandBuffer (computePass h)) = Some g \<and>
            heap s' = (heap s)(commandBuffer (computePass h) \<mapsto>
              g\<lparr>computePass := (computePass g)\<lparr>inProgress := False\<rparr>, computePipelineBound := False\<rparr>)))"
    by blast
  from heap_linkedD[OF assms(2) h] have l: "commandBuffer (computePass h) = cp" by simp
  from c show ?thesis
  proof
    assume "heap s' = heap s" then show ?thesis by simp
  next
    assume a: "inProgress (computePass h) \<and>
         (\<exists>g. heap s (commandBuffer (computePass h)) = Some g \<and>
            heap s' = (heap s)(commandBuffer (computePass h) \<mapsto>
              g\<lparr>computePass := (computePass g)\<lparr>inProgress := False\<rparr>, computePipelineBound := False\<rparr>))"
    with l h have "heap s' = (heap s)(cp \<mapsto> h\<lparr>computePass := (computePass h)\<lparr>inProgress := False\<rparr>, computePipelineBound := False\<rparr>)"
      by auto
    moreover from a have "header_step h (h\<lparr>computePass := (computePass h)\<lparr>inProgress := False\<rparr>, computePipelineBound := False\<rparr>)"
      by (blast intro: header_step.end_compute)
    ultimately show ?thesis using h by blast
  qed
qed

lemma end_copy_step:
  assumes "SDL_GpuEndCopyPass xp s = Inr (r, s')" "heap_linked s"
  shows "heap s' = heap s \<or> (\<exists>p h h'. heap s p = Some h \<and> header_step h h' \<and> heap s' = (heap s)(p \<mapsto> h'))"
proof -
  from end_copy_raw[OF assms(1)] obtain h where h: "heap s xp = Some h"
    and c: "heap s' = heap s \<or> (inProgress (copyPass h) \<and>
         (\<exists>g. heap s (commandBuffer (copyPass h)) = Some g \<and>
            heap s' = (heap s)(commandBuffer (copyPass h) \<mapsto>
              g\<lparr>copyPass := (copyPass g)\<lparr>inProgress := False\<rparr>\<rparr>)))"
    by blast
  from heap_linkedD[OF assms(2) h] have l: "commandBuffer (copyPass h) = xp" by simp
  from c show ?thesis
  proof
    assume "heap s' = heap s" then show ?thesis by simp
  next
    assume a: "inProgress (copyPass h) \<and>
         (\<exists>g. heap s (commandBuffer (copyPass h)) = Some g \<and>
            heap s' = (heap s)(commandBuffer (copyPass h) \<mapsto>
              g\<lparr>copyPass := (copyPass g)\<lparr>inProgress := False\<rparr>\<rparr>))"
    with l h have "heap s' = (heap s)(xp \<mapsto> h\<lparr>copyPass := (copyPass h)\<lparr>inProgress := False\<rparr>\<rparr>)"
      by auto
    moreover from a have "header_step h (h\<lparr>copyPass := (copyPass h)\<lparr>inProgress := False\<rparr>\<rparr>)"
      by (blast intro: header_step.end_copy)
    ultimately show ?thesis using h by blast
  qed
qed

lemma bind_graphics_step:
  assumes "SDL_GpuBindGraphicsPipeline rp a s = Inr (r, s')" "heap_linked s"
  shows "heap s' = heap s \<or> (\<exists>p h h'. heap s p = Some h \<and> header_step h h' \<and> heap s' = (heap s)(p \<mapsto> h'))"
proof -
  from bind_graphics_raw[OF assms(1)] obtain h g where h: "heap s rp = Some h"
    and g: "heap s (commandBuffer (renderPass h)) = Some g"
    and c: "heap s' = (heap s)(commandBuffer (renderPass h) \<mapsto> g\<lparr>graphicsPipelineBound := True\<rparr>)"
    by blast
  have "header_step g (g\<lparr>graphicsPipelineBound := True\<rparr>)" by (rule header_step.bind_graphics)
  with g c show ?thesis by blast
qed

lemma bind_compute_step:
  assumes "SDL_GpuBindComputePipeline cp a s = Inr (r, s')" "heap_linked s"
  shows "heap s' = heap s \<or> (\<exists>p h h'. heap s p = Some h \<and> header_step h h' \<and> heap s' = (heap s)(p \<mapsto> h'))"
proof -
  from bind_compute_raw[OF assms(1)] obtain h where h: "heap s cp = Some h"
    and c: "heap s' = heap s \<or> (inProgress (computePass h) \<and>
         (\<exists>g. heap s (commandBuffer (computePass h)) = Some g \<and>
            heap s' = (heap s)(commandBuffer (computePass h) \<mapsto> g\<lparr>computePipelineBound := True\<rparr>)))"
    by blast
  from heap_linkedD[OF assms(2) h] have l: "commandBuffer (computePass h) = cp" by simp
  from c show ?thesis
  proof
    assume "heap s' = heap s" then show ?thesis by simp
  next
    assume a: "inProgress (computePass h) \<and>
         (\<exists>g. heap s (commandBuffer (computePass h)) = Some g \<and>
            heap s' = (heap s)(commandBuffer (computePass h) \<mapsto> g\<lparr>computePipelineBound := True\<rparr>))"
    with l h have "heap s' = (heap s)(cp \<mapsto> h\<lparr>computePipelineBound := True\<rparr>)" by auto
    moreover from a have "header_step h (h\<lparr>computePipelineBound := True\<rparr>)"
      by (blast intro: header_step.bind_compute)
    ultimately show ?thesis using h by blast
  qed
qed

lemmas mutator_step =
  begin_render_step begin_compute_step begin_copy_step end_render_step end_compute_step
  end_copy_step bind_graphics_step bind_compute_step submit_step submit_fence_step

lemma command_step_heap:
  assumes "command_step s s'" "heap_linked s"
  shows "heap s' = heap s \<or>
     (\<exists>p h h'. heap s p = Some h \<and> header_step h h' \<and> heap s' = (heap s)(p \<mapsto> h'))"
  using assms
  by (cases rule: command_step.cases) (blast dest: forward_heap mutator_step)+

lemma api_step_heap:
  assumes "api_step s s'" "heap_linked s"
  shows "heap s' = heap s
     \<or> (\<exists>p h h'. heap s p = Some h \<and> header_step h h' \<and> heap s' = (heap s)(p \<mapsto> h'))
     \<or> (\<exists>p dev. p \<noteq> NULL \<and> heap s' = (heap s)(p \<mapsto> idle_header dev p))"
  using assms(1)
proof cases
  case Command
  from command_step_heap[OF this assms(2)] show ?thesis by blast
next
  case (Acquire dev r)
  from acquire_raw[OF this] show ?thesis by blast
next
  case Device
  then show ?thesis by simp
qed

lemma reachable_invariant:
  "reachable s \<Longrightarrow>
     heap_linked s \<and>
     (\<forall>p h. heap s p = Some h \<longrightarrow>
        passes_in_progress h \<le> 1 \<and> (submitted h \<longrightarrow> \<not> any_pass_in_progress h)
        \<and> (computePipelineBound h \<longrightarrow> inProgress (computePass h)))"
proof (induction rule: reachable.induct)
  case (Start s)
  then show ?case by (simp add: heap_linked_def)
next
  case (Step s s')
  then have l: "heap_linked s" by simp
  from api_step_heap[OF Step.hyps(2) l] consider
      (same) "heap s' = heap s"
    | (upd) p h h' where "heap s p = Some h" "header_step h h'" "heap s' = (heap s)(p \<mapsto> h')"
    | (fresh) p dev where "p \<noteq> NULL" "heap s' = (heap s)(p \<mapsto> idle_header dev p)"
    by blast
  then show ?case
  proof cases
    case same
    with Step.IH show ?thesis by (simp add: heap_linked_def linked_def)
  next
    case upd
    from heap_linkedD[OF l upd(1)] header_step_links[OF upd(2)]
    have "heap_linked s'"
      using l upd(3) by (auto simp: heap_linked_def linked_def split: option.splits)
    moreover have "passes_in_progress h' \<le> 1 \<and> (submitted h' \<longrightarrow> \<not> any_pass_in_progress h')"
      using header_step_passes[OF upd(2)] Step.IH upd(1) by blast
    moreover have "computePipelineBound h' \<longrightarrow> inProgress (computePass h')"
      using header_step_compute_gate[OF upd(2)] Step.IH upd(1) by blast
    ultimately show ?thesis using Step.IH upd(3) by auto
  next
    case fresh
    have "heap_linked s'"
      using l fresh by (auto simp: heap_linked_def linked_def idle_header_def split: option.splits)
    moreover have "passes_in_progress (idle_header dev p) \<le> 1"
      "\<not> any_pass_in_progress (idle_header dev p)" "\<not> computePipelineBound (idle_header dev p)"
      by (simp_all add: idle_header_def passes_in_progress_def any_pass_in_progress_def)
    ultimately show ?thesis using Step.IH fresh(2) by auto
  qed
qed

lemma usable_sample_idle: "usable sample_idle 2"
  by (simp add: usable_def linked_def sample_idle_def sample_start_def idle_header_def)

lemma heap_sample_idle: "heap sample_idle 2 = Some (idle_header 5 2)"
  by (simp add: sample_idle_def sample_start_def)

lemma usable_sample_rendering: "usable sample_rendering 2"
  by (simp add: usable_def linked_def sample_rendering_def sample_idle_def sample_start_def
      rendering_header_def idle_header_def)

lemma heap_sample_rendering: "heap sample_rendering 2 = Some (rendering_header 5 2)"
  by (simp add: sample_rendering_def)

lemma sample_rendering_begun:
  "SDL_GpuBeginRenderPass 2 0 0 0 sample_idle = Inr (2, sample_rendering)"
  by (subst begin_render_eq[OF usable_sample_idle heap_sample_idle])
     (simp add: idle_header_def any_pass_in_progress_def sample_rendering_def sample_idle_def
        sample_start_def rendering_header_def)

lemma reachable_sample_rendering: "reachable sample_rendering"
  using reachable_sample_idle sample_rendering_begun
  by (blast intro: reachable.Step api_step.Command command_step.BeginRenderPass)

text \<open>
  C1. Beginning a render, compute or copy pass on a command buffer that is not submitted
  and has no pass in progress forwards to the backend, sets that pass's in-progress flag
  and returns the pass handle (which is not null); on a submitted buffer or one with a
  pass in progress it returns null, logs a diagnostic and changes nothing else: no backend
  call, no flag; on a null command buffer it returns null and changes nothing. In every
  reachable state at most one of the three passes of a command buffer is in progress.
\<close>

theorem C1_begin_pass_exclusive:
  assumes "usable s cb" and "heap s cb = Some h"
  shows
    "(\<not> submitted h \<and> \<not> any_pass_in_progress h \<longrightarrow>
        SDL_GpuBeginRenderPass cb infos n depth s =
          Inr (cb, s\<lparr>calls := calls s @ [(device h, ''BeginRenderPass'', [Pv cb, Pv infos, Uv n, Pv depth])],
                     heap := (heap s)(cb \<mapsto> h\<lparr>renderPass := (renderPass h)\<lparr>inProgress := True\<rparr>\<rparr>)\<rparr>)
      \<and> SDL_GpuBeginComputePass cb tex tn buf bn s =
          Inr (cb, s\<lparr>calls := calls s @ [(device h, ''BeginComputePass'', [Pv cb, Pv tex, Uv tn, Pv buf, Uv bn])],
                     heap := (heap s)(cb \<mapsto> h\<lparr>computePass := (computePass h)\<lparr>inProgress := True\<rparr>\<rparr>)\<rparr>)
      \<and> SDL_GpuBeginCopyPass cb s =
          Inr (cb, s\<lparr>calls := calls s @ [(device h, ''BeginCopyPass'', [Pv cb])],
                     heap := (heap s)(cb \<mapsto> h\<lparr>copyPass := (copyPass h)\<lparr>inProgress := True\<rparr>\<rparr>)\<rparr>))
     \<and> (submitted h \<or> any_pass_in_progress h \<longrightarrow>
          (let refusal = s\<lparr>logs := logs s @
                  [LogError (if submitted h then ''Command buffer already submitted!''
                             else ''Pass already in progress!'') []]\<rparr>
           in SDL_GpuBeginRenderPass cb infos n depth s = Inr (NULL, refusal)
            \<and> SDL_GpuBeginComputePass cb tex tn buf bn s = Inr (NULL, refusal)
            \<and> SDL_GpuBeginCopyPass cb s = Inr (NULL, refusal)))
     \<and> SDL_GpuBeginRenderPass NULL infos n depth s = Inr (NULL, s)
     \<and> SDL_GpuBeginComputePass NULL tex tn buf bn s = Inr (NULL, s)
     \<and> SDL_GpuBeginCopyPass NULL s = Inr (NULL, s)
     \<and> cb \<noteq> NULL
     \<and> (reachable t \<longrightarrow> heap t p = Some g \<longrightarrow> passes_in_progress g \<le> 1)"
proof -
  note eqs = begin_render_eq[OF assms] begin_compute_eq[OF assms] begin_copy_eq[OF assms]
  have ok: "\<not> submitted h \<and> \<not> any_pass_in_progress h \<longrightarrow>
        SDL_GpuBeginRenderPass cb infos n depth s =
          Inr (cb, s\<lparr>calls := calls s @ [(device h, ''BeginRenderPass'', [Pv cb, Pv infos, Uv n, Pv depth])],
                     heap := (heap s)(cb \<mapsto> h\<lparr>renderPass := (renderPass h)\<lparr>inProgress := True\<rparr>\<rparr>)\<rparr>)
      \<and> SDL_GpuBeginComputePass cb tex tn buf bn s =
          Inr (cb, s\<lparr>calls := calls s @ [(device h, ''BeginComputePass'', [Pv cb, Pv tex, Uv tn, Pv buf, Uv bn])],
                     heap := (heap s)(cb \<mapsto> h\<lparr>computePass := (computePass h)\<lparr>inProgress := True\<rparr>\<rparr>)\<rparr>)
      \<and> SDL_GpuBeginCopyPass cb s =
          Inr (cb, s\<lparr>calls := calls s @ [(device h, ''BeginCopyPass'', [Pv cb])],
                     heap := (heap s)(cb \<mapsto> h\<lparr>copyPass := (copyPass h)\<lparr>inProgress := True\<rparr>\<rparr>)\<rparr>)"
    by (simp add: eqs)
  have refused: "submitted h \<or> any_pass_in_progress h \<longrightarrow>
          (let refusal = s\<lparr>logs := logs s @
                  [LogError (if submitted h then ''Command buffer already submitted!''
                             else ''Pass already in progress!'') []]\<rparr>
           in SDL_GpuBeginRenderPass cb infos n depth s = Inr (NULL, refusal)
            \<and> SDL_GpuBeginComputePass cb tex tn buf bn s = Inr (NULL, refusal)
            \<and> SDL_GpuBeginCopyPass cb s = Inr (NULL, refusal))"
    by (simp add: eqs Let_def)
  have nonnull: "cb \<noteq> NULL" using usableD[OF assms] by simp
  have inv: "reachable t \<longrightarrow> heap t p = Some g \<longrightarrow> passes_in_progress g \<le> 1"
    using reachable_invariant by blast
  from ok refused nonnull inv show ?thesis
    by (simp only: begin_render_NULL begin_compute_NULL begin_copy_NULL simp_thms)
qed

theorem C1_begin_pass_exclusive_witness:
  "usable sample_idle 2 \<and> heap sample_idle 2 = Some (idle_header 5 2)
   \<and> SDL_GpuBeginRenderPass 2 0 0 0 sample_idle = Inr (2, sample_rendering)
   \<and> usable sample_rendering 2 \<and> heap sample_rendering 2 = Some (rendering_header 5 2)
   \<and> SDL_GpuBeginCopyPass 2 sample_rendering =
       Inr (NULL, sample_rendering\<lparr>logs := [LogError ''Pass already in progress!'' []]\<rparr>)
   \<and> reachable sample_rendering \<and> passes_in_progress (rendering_header 5 2) \<le> 1"
  using C1_begin_pass_exclusive[OF usable_sample_idle heap_sample_idle, of 0 0 0 0 0 0 0 sample_rendering 2 "rendering_header 5 2"]
    C1_begin_pass_exclusive[OF usable_sample_rendering heap_sample_rendering, of 0 0 0 0 0 0 0 sample_rendering 2 "rendering_header 5 2"]
    usable_sample_idle heap_sample_idle usable_sample_rendering heap_sample_rendering
    reachable_sample_rendering sample_rendering_begun
  by (simp add: rendering_header_def idle_header_def any_pass_in_progress_def Let_def
      sample_rendering_def sample_idle_def sample_start_def)

lemma usable_logs [simp]: "usable (s\<lparr>logs := l\<rparr>) cb = usable s cb"
  by (simp add: usable_def linked_def split: option.splits)

lemma usable_calls [simp]: "usable (s\<lparr>calls := c\<rparr>) cb = usable s cb"
  by (simp add: usable_def linked_def split: option.splits)

lemma usable_store:
  "usable s cb \<Longrightarrow> heap s cb = Some h \<Longrightarrow>
     commandBuffer (renderPass h') = commandBuffer (renderPass h) \<Longrightarrow>
     commandBuffer (computePass h') = commandBuffer (computePass h) \<Longrightarrow>
     commandBuffer (copyPass h') = commandBuffer (copyPass h) \<Longrightarrow> device h' = device h \<Longrightarrow>
     usable (s\<lparr>heap := (heap s)(cb \<mapsto> h')\<rparr>) cb"
  by (simp add: usable_def linked_def)

lemma reachable_header:
  "reachable s \<Longrightarrow> heap s p = Some h \<Longrightarrow>
     passes_in_progress h \<le> 1 \<and> (submitted h \<longrightarrow> \<not> any_pass_in_progress h)
     \<and> (computePipelineBound h \<longrightarrow> inProgress (computePass h))"
  using reachable_invariant by blast

lemma submitted_kept:
  assumes "reachable s" "command_step s s'" "heap s cb = Some h" "submitted h"
  shows "\<exists>h'. heap s' cb = Some h' \<and> submitted h'"
proof -
  from reachable_invariant[OF assms(1)] have "heap_linked s" by simp
  from command_step_heap[OF assms(2) this] show ?thesis
  proof
    assume "heap s' = heap s" with assms(3,4) show ?thesis by simp
  next
    assume "\<exists>p g g'. heap s p = Some g \<and> header_step g g' \<and> heap s' = (heap s)(p \<mapsto> g')"
    then obtain p g g' where u: "heap s p = Some g" "header_step g g'" "heap s' = (heap s)(p \<mapsto> g')"
      by blast
    show ?thesis
    proof (cases "p = cb")
      case True
      with u assms(3,4) header_step_submitted[OF u(2)] show ?thesis by simp
    next
      case False
      with u assms(3,4) show ?thesis by simp
    qed
  qed
qed


lemma resubmit_after_render:
  assumes u: "usable s cb" and h: "heap s cb = Some h" and r: "reachable s"
    and p: "inProgress (renderPass h)"
  shows "\<exists>s1 s2 s3 h3.
      SDL_GpuSubmit cb s = Inr ((), s1) \<and> heap s1 = heap s \<and> calls s1 = calls s
      \<and> SDL_GpuEndRenderPass cb s1 = Inr ((), s2)
      \<and> SDL_GpuSubmit cb s2 = Inr ((), s3) \<and> heap s3 cb = Some h3 \<and> submitted h3
      \<and> calls s3 = calls s @ [(device h, ''EndRenderPass'', [Pv cb]), (device h, ''Submit'', [Pv cb])]"
proof -
  from reachable_header[OF r h] p
  have one: "passes_in_progress h \<le> 1" and ns: "\<not> submitted h"
    by (auto simp: any_pass_in_progress_def)
  define s1 where "s1 = s\<lparr>logs := logs s @ [LogError ''Cannot submit command buffer while a pass is in progress!'' []]\<rparr>"
  define h2 where "h2 = h\<lparr>renderPass := (renderPass h)\<lparr>inProgress := False\<rparr>, graphicsPipelineBound := False\<rparr>"
  define s2 where "s2 = s1\<lparr>calls := calls s1 @ [(device h, ''EndRenderPass'', [Pv cb])], heap := (heap s1)(cb \<mapsto> h2)\<rparr>"
  define s3 where "s3 = s2\<lparr>calls := calls s2 @ [(device h2, ''Submit'', [Pv cb])], heap := (heap s2)(cb \<mapsto> h2\<lparr>submitted := True\<rparr>)\<rparr>"
  have e1: "SDL_GpuSubmit cb s = Inr ((), s1)"
    using p ns by (simp add: submit_eq[OF u h] any_pass_in_progress_def s1_def)
  have u1: "usable s1 cb" and h1: "heap s1 cb = Some h"
    using u h by (simp_all add: s1_def)
  have e2: "SDL_GpuEndRenderPass cb s1 = Inr ((), s2)"
    using p by (simp add: end_render_eq[OF u1 h1] s2_def h2_def)
  have "usable (s1\<lparr>heap := (heap s1)(cb \<mapsto> h2)\<rparr>) cb"
    using usable_store[OF u1 h1, of h2] by (simp add: h2_def)
  then have u2: "usable s2 cb"
    by (simp add: usable_def linked_def s2_def split: option.splits)
  have h2': "heap s2 cb = Some h2" by (simp add: s2_def)
  have idle: "\<not> any_pass_in_progress h2" "\<not> submitted h2"
    using one p ns
    by (auto simp: h2_def any_pass_in_progress_def passes_in_progress_def split: if_splits)
  have e3: "SDL_GpuSubmit cb s2 = Inr ((), s3)"
    using idle by (simp add: submit_eq[OF u2 h2'] s3_def)
  have "heap s3 cb = Some (h2\<lparr>submitted := True\<rparr>)" by (simp add: s3_def)
  moreover have "calls s3 = calls s @ [(device h, ''EndRenderPass'', [Pv cb]), (device h, ''Submit'', [Pv cb])]"
    by (simp add: s3_def s2_def s1_def h2_def)
  moreover have "heap s1 = heap s" "calls s1 = calls s" by (simp_all add: s1_def)
  ultimately show ?thesis using e1 e2 e3 by auto
qed


lemma resubmit_after_compute:
  assumes u: "usable s cb" and h: "heap s cb = Some h" and r: "reachable s"
    and p: "inProgress (computePass h)"
  shows "\<exists>s1 s2 s3 h3.
      SDL_GpuSubmit cb s = Inr ((), s1) \<and> heap s1 = heap s \<and> calls s1 = calls s
      \<and> SDL_GpuEndComputePass cb s1 = Inr ((), s2)
      \<and> SDL_GpuSubmit cb s2 = Inr ((), s3) \<and> heap s3 cb = Some h3 \<and> submitted h3
      \<and> calls s3 = calls s @ [(device h, ''EndComputePass'', [Pv cb]), (device h, ''Submit'', [Pv cb])]"
proof -
  from reachable_header[OF r h] p
  have one: "passes_in_progress h \<le> 1" and ns: "\<not> submitted h"
    by (auto simp: any_pass_in_progress_def)
  define s1 where "s1 = s\<lparr>logs := logs s @ [LogError ''Cannot submit command buffer while a pass is in progress!'' []]\<rparr>"
  define h2 where "h2 = h\<lparr>computePass := (computePass h)\<lparr>inProgress := False\<rparr>, computePipelineBound := False\<rparr>"
  define s2 where "s2 = s1\<lparr>calls := calls s1 @ [(device h, ''EndComputePass'', [Pv cb])], heap := (heap s1)(cb \<mapsto> h2)\<rparr>"
  define s3 where "s3 = s2\<lparr>calls := calls s2 @ [(device h2, ''Submit'', [Pv cb])], heap := (heap s2)(cb \<mapsto> h2\<lparr>submitted := True\<rparr>)\<rparr>"
  have e1: "SDL_GpuSubmit cb s = Inr ((), s1)"
    using p ns by (simp add: submit_eq[OF u h] any_pass_in_progress_def s1_def)
  have u1: "usable s1 cb" and h1: "heap s1 cb = Some h"
    using u h by (simp_all add: s1_def)
  have e2: "SDL_GpuEndComputePass cb s1 = Inr ((), s2)"
    using p by (simp add: end_compute_eq[OF u1 h1] s2_def h2_def)
  have "usable (s1\<lparr>heap := (heap s1)(cb \<mapsto> h2)\<rparr>) cb"
    using usable_store[OF u1 h1, of h2] by (simp add: h2_def)
  then have u2: "usable s2 cb"
    by (simp add: usable_def linked_def s2_def split: option.splits)
  have h2': "heap s2 cb = Some h2" by (simp add: s2_def)
  have idle: "\<not> any_pass_in_progress h2" "\<not> submitted h2"
    using one p ns
    by (auto simp: h2_def any_pass_in_progress_def passes_in_progress_def split: if_splits)
  have e3: "SDL_GpuSubmit cb s2 = Inr ((), s3)"
    using idle by (simp add: submit_eq[OF u2 h2'] s3_def)
  have "heap s3 cb = Some (h2\<lparr>submitted := True\<rparr>)" by (simp add: s3_def)
  moreover have "calls s3 = calls s @ [(device h, ''EndComputePass'', [Pv cb]), (device h, ''Submit'', [Pv cb])]"
    by (simp add: s3_def s2_def s1_def h2_def)
  moreover have "heap s1 = heap s" "calls s1 = calls s" by (simp_all add: s1_def)
  ultimately show ?thesis using e1 e2 e3 by auto
qed


lemma resubmit_after_copy:
  assumes u: "usable s cb" and h: "heap s cb = Some h" and r: "reachable s"
    and p: "inProgress (copyPass h)"
  shows "\<exists>s1 s2 s3 h3.
      SDL_GpuSubmit cb s = Inr ((), s1) \<and> heap s1 = heap s \<and> calls s1 = calls s
      \<and> SDL_GpuEndCopyPass cb s1 = Inr ((), s2)
      \<and> SDL_GpuSubmit cb s2 = Inr ((), s3) \<and> heap s3 cb = Some h3 \<and> submitted h3
      \<and> calls s3 = calls s @ [(device h, ''EndCopyPass'', [Pv cb]), (device h, ''Submit'', [Pv cb])]"
proof -
  from reachable_header[OF r h] p
  have one: "passes_in_progress h \<le> 1" and ns: "\<not> submitted h"
    by (auto simp: any_pass_in_progress_def)
  define s1 where "s1 = s\<lparr>logs := logs s @ [LogError ''Cannot submit command buffer while a pass is in progress!'' []]\<rparr>"
  define h2 where "h2 = h\<lparr>copyPass := (copyPass h)\<lparr>inProgress := False\<rparr>\<rparr>"
  define s2 where "s2 = s1\<lparr>calls := calls s1 @ [(device h, ''EndCopyPass'', [Pv cb])], heap := (heap s1)(cb \<mapsto> h2)\<rparr>"
  define s3 where "s3 = s2\<lparr>calls := calls s2 @ [(device h2, ''Submit'', [Pv cb])], heap := (heap s2)(cb \<mapsto> h2\<lparr>submitted := True\<rparr>)\<rparr>"
  have e1: "SDL_GpuSubmit cb s = Inr ((), s1)"
    using p ns by (simp add: submit_eq[OF u h] any_pass_in_progress_def s1_def)
  have u1: "usable s1 cb" and h1: "heap s1 cb = Some h"
    using u h by (simp_all add: s1_def)
  have e2: "SDL_GpuEndCopyPass cb s1 = Inr ((), s2)"
    using p by (simp add: end_copy_eq[OF u1 h1] s2_def h2_def)
  have "usable (s1\<lparr>heap := (heap s1)(cb \<mapsto> h2)\<rparr>) cb"
    using usable_store[OF u1 h1, of h2] by (simp add: h2_def)
  then have u2: "usable s2 cb"
    by (simp add: usable_def linked_def s2_def split: option.splits)
  have h2': "heap s2 cb = Some h2" by (simp add: s2_def)
  have idle: "\<not> any_pass_in_progress h2" "\<not> submitted h2"
    using one p ns
    by (auto simp: h2_def any_pass_in_progress_def passes_in_progress_def split: if_splits)
  have e3: "SDL_GpuSubmit cb s2 = Inr ((), s3)"
    using idle by (simp add: submit_eq[OF u2 h2'] s3_def)
  have "heap s3 cb = Some (h2\<lparr>submitted := True\<rparr>)" by (simp add: s3_def)
  moreover have "calls s3 = calls s @ [(device h, ''EndCopyPass'', [Pv cb]), (device h, ''Submit'', [Pv cb])]"
    by (simp add: s3_def s2_def s1_def h2_def)
  moreover have "heap s1 = heap s" "calls s1 = calls s" by (simp_all add: s1_def)
  ultimately show ?thesis using e1 e2 e3 by auto
qed


lemma acquire_resets:
  "SDL_GpuAcquireCommandBuffer dev s = Inr (r, s') \<Longrightarrow> r \<noteq> NULL \<Longrightarrow>
     heap s' r = Some (idle_header dev r)"
  by (auto simp: SDL_GpuAcquireCommandBuffer_def macro_defs seq_def deref_device_def idle_header_def
      split: outcome_splits)

lemma not_acquisition:
  assumes "heap s' cb = Some h'" "submitted h'" "cb \<noteq> NULL"
  shows "SDL_GpuAcquireCommandBuffer dev s \<noteq> Inr (cb, s')"
proof
  assume "SDL_GpuAcquireCommandBuffer dev s = Inr (cb, s')"
  from acquire_resets[OF this assms(3)] assms(1,2) show False
    by (simp add: idle_header_def)
qed

lemma submitted_kept_api:
  assumes "reachable s" "api_step s s'" "heap s cb = Some h" "submitted h"
  shows "(\<exists>h'. heap s' cb = Some h' \<and> submitted h')
     \<or> (\<exists>dev. SDL_GpuAcquireCommandBuffer dev s = Inr (cb, s'))"
  using assms(2)
proof cases
  case Command
  from submitted_kept[OF assms(1) this assms(3,4)] show ?thesis by blast
next
  case (Acquire dev r)
  show ?thesis
  proof (cases "r = cb")
    case True
    with Acquire show ?thesis by blast
  next
    case False
    with acquire_raw[OF Acquire] assms(3,4) show ?thesis by auto
  qed
next
  case Device
  with assms(3,4) show ?thesis by simp
qed

lemma submitted_stays:
  assumes "not_reacquired cb s s'" "reachable s" "heap s cb = Some h" "submitted h"
  shows "reachable s' \<and> (\<exists>h'. heap s' cb = Some h' \<and> submitted h')"
  using assms
proof (induction rule: not_reacquired.induct)
  case Here
  then show ?case by blast
next
  case (Later s' s'')
  then obtain h' where r: "reachable s'" and k: "heap s' cb = Some h'" "submitted h'"
    by blast
  from submitted_kept_api[OF r Later(2) k] Later(3)
  have "\<exists>h''. heap s'' cb = Some h'' \<and> submitted h''" by blast
  moreover from r Later(2) have "reachable s''" by (rule reachable.Step)
  ultimately show ?case by blast
qed

lemma submitted_refused:
  assumes "cb \<noteq> NULL" "heap s cb = Some h" "submitted h"
  shows
    "SDL_GpuBeginRenderPass cb infos n depth s =
       Inr (NULL, s\<lparr>logs := logs s @ [LogError ''Command buffer already submitted!'' []]\<rparr>)"
    "SDL_GpuBeginComputePass cb tex tn buf bn s =
       Inr (NULL, s\<lparr>logs := logs s @ [LogError ''Command buffer already submitted!'' []]\<rparr>)"
    "SDL_GpuBeginCopyPass cb s =
       Inr (NULL, s\<lparr>logs := logs s @ [LogError ''Command buffer already submitted!'' []]\<rparr>)"
    "SDL_GpuSubmit cb s =
       Inr ((), s\<lparr>logs := logs s @ [LogError ''Command buffer already submitted!'' []]\<rparr>)"
    "SDL_GpuSubmitAndAcquireFence cb s =
       Inr (NULL, s\<lparr>logs := logs s @ [LogError ''Command buffer already submitted!'' []]\<rparr>)"
  using assms
  by (simp_all add: SDL_GpuBeginRenderPass_def SDL_GpuBeginComputePass_def SDL_GpuBeginCopyPass_def
      SDL_GpuSubmit_def SDL_GpuSubmitAndAcquireFence_def CHECK_COMMAND_BUFFER_def
      CHECK_COMMAND_BUFFER_RETURN_NULL_def header_def log_msg_def)

lemma refused_thereafter:
  assumes "not_reacquired cb s s''" "reachable s" "heap s cb = Some h" "submitted h"
  shows "(\<exists>h''. heap s'' cb = Some h'' \<and> submitted h'')
     \<and> (let refusal = s''\<lparr>logs := logs s'' @ [LogError ''Command buffer already submitted!'' []]\<rparr>
        in SDL_GpuBeginRenderPass cb infos n depth s'' = Inr (NULL, refusal)
         \<and> SDL_GpuBeginComputePass cb tex tn buf bn s'' = Inr (NULL, refusal)
         \<and> SDL_GpuBeginCopyPass cb s'' = Inr (NULL, refusal)
         \<and> SDL_GpuSubmit cb s'' = Inr ((), refusal)
         \<and> SDL_GpuSubmitAndAcquireFence cb s'' = Inr (NULL, refusal))"
proof -
  from submitted_stays[OF assms] obtain h'' where r: "reachable s''"
    and k: "heap s'' cb = Some h''" "submitted h''"
    by blast
  from reachable_invariant[OF r] have "heap_linked s''" by simp
  from heap_linkedD[OF this k(1)] have nn: "cb \<noteq> NULL" by simp
  from submitted_refused[OF nn k] k show ?thesis by (simp add: Let_def)
qed

lemma usable_sample_submitted: "usable sample_submitted 2"
  by (simp add: usable_def linked_def sample_submitted_def sample_idle_def sample_start_def
      submitted_header_def idle_header_def)

lemma heap_sample_submitted: "heap sample_submitted 2 = Some (submitted_header 5 2)"
  by (simp add: sample_submitted_def)

lemma sample_submitted_done: "SDL_GpuSubmit 2 sample_idle = Inr ((), sample_submitted)"
  by (subst submit_eq[OF usable_sample_idle heap_sample_idle])
     (simp add: idle_header_def any_pass_in_progress_def sample_submitted_def sample_idle_def
        sample_start_def submitted_header_def)

lemma reachable_sample_submitted: "reachable sample_submitted"
  using reachable_sample_idle sample_submitted_done
  by (blast intro: reachable.Step api_step.Command command_step.Submit)

lemma sample_devices:
  "devices sample_idle 5 = Some sample_device" "devices sample_rendering 5 = Some sample_device"
  "devices sample_submitted 5 = Some sample_device"
  by (simp_all add: sample_idle_def sample_rendering_def sample_submitted_def sample_start_def)

lemma sample_submitted_refuses:
  "SDL_GpuBeginCopyPass 2 sample_submitted =
     Inr (NULL, sample_submitted\<lparr>logs := [LogError ''Command buffer already submitted!'' []]\<rparr>)"
  by (subst begin_copy_eq[OF usable_sample_submitted heap_sample_submitted])
     (simp add: submitted_header_def idle_header_def sample_submitted_def sample_idle_def
        sample_start_def)

lemma usable_sample_reacquired: "usable sample_reacquired 2"
  by (simp add: usable_def linked_def sample_reacquired_def sample_idle_def sample_start_def
      idle_header_def)

lemma heap_sample_reacquired: "heap sample_reacquired 2 = Some (idle_header 5 2)"
  by (simp add: sample_reacquired_def)

lemma sample_reacquired_acquired:
  "SDL_GpuAcquireCommandBuffer 5 sample_submitted = Inr (2, sample_reacquired)"
  by (simp add: SDL_GpuAcquireCommandBuffer_def macro_defs deref_device_def sample_submitted_def
      sample_reacquired_def sample_idle_def sample_start_def sample_device_def idle_header_def)

lemma sample_refused_later_created:
  "SDL_GpuCreateBuffer 6 0 16 sample_refused = Inr (1, sample_refused_later)"
  by (simp add: SDL_GpuCreateBuffer_def macro_defs deref_device_def sample_refused_def
      sample_refused_later_def sample_submitted_def sample_idle_def sample_start_def
      permissive_device_def)

lemma sample_not_reacquired: "not_reacquired 2 sample_submitted sample_refused_later"
proof -
  have h1: "heap sample_refused 2 = Some (submitted_header 5 2)"
    and h2: "heap sample_refused_later 2 = Some (submitted_header 5 2)"
    and e: "heap sample_refused_later = heap sample_refused"
    by (simp_all add: sample_refused_def sample_refused_later_def sample_submitted_def)
  have u: "submitted (submitted_header 5 2)" by (simp add: submitted_header_def)
  have nn: "(2::ptr) \<noteq> NULL" by simp
  have "command_step sample_submitted sample_refused"
    unfolding sample_refused_def using sample_submitted_refuses by (rule command_step.BeginCopyPass)
  then have s1: "api_step sample_submitted sample_refused" by (rule api_step.Command)
  from e have s2: "api_step sample_refused sample_refused_later" by (rule api_step.Device)
  have "not_reacquired 2 sample_submitted sample_submitted" by (rule not_reacquired.Here)
  from not_reacquired.Later[OF this s1] not_acquisition[OF h1 u nn]
  have "not_reacquired 2 sample_submitted sample_refused" by blast
  from not_reacquired.Later[OF this s2] not_acquisition[OF h2 u nn]
  show ?thesis by blast
qed

text \<open>
  C2 fails as stated. Submission does not put a command buffer out of use for good:
  \<open>SDL_GpuAcquireCommandBuffer\<close> writes every member of the header of the buffer the driver
  hands out, the submitted flag included. When the driver hands out a buffer that was
  submitted before, a render pass begins on it and it is submitted again.
\<close>

theorem C2_reacquired_buffer_counterexample:
  "SDL_GpuSubmit 2 sample_idle = Inr ((), sample_submitted)
   \<and> reachable sample_submitted
   \<and> heap sample_submitted 2 = Some (submitted_header 5 2) \<and> submitted (submitted_header 5 2)
   \<and> SDL_GpuAcquireCommandBuffer 5 sample_submitted = Inr (2, sample_reacquired)
   \<and> api_step sample_submitted sample_reacquired
   \<and> heap sample_reacquired 2 = Some (idle_header 5 2) \<and> \<not> submitted (idle_header 5 2)
   \<and> SDL_GpuBeginRenderPass 2 0 0 0 sample_reacquired =
       Inr (2, sample_reacquired\<lparr>calls := calls sample_reacquired @
                 [(5, ''BeginRenderPass'', [Pv 2, Pv 0, Uv 0, Pv 0])],
               heap := [2 \<mapsto> rendering_header 5 2]\<rparr>)
   \<and> SDL_GpuBeginRenderPass 2 0 0 0 sample_reacquired \<noteq>
       Inr (NULL, sample_reacquired\<lparr>logs := logs sample_reacquired @
                    [LogError ''Command buffer already submitted!'' []]\<rparr>)
   \<and> SDL_GpuSubmit 2 sample_reacquired =
       Inr ((), sample_reacquired\<lparr>calls := calls sample_reacquired @ [(5, ''Submit'', [Pv 2])],
                heap := [2 \<mapsto> submitted_header 5 2]\<rparr>)
   \<and> SDL_GpuSubmit 2 sample_reacquired \<noteq>
       Inr ((), sample_reacquired\<lparr>logs := logs sample_reacquired @
                    [LogError ''Command buffer already submitted!'' []]\<rparr>)"
proof -
  have i: "\<not> submitted (idle_header 5 2)" "\<not> any_pass_in_progress (idle_header 5 2)"
      "device (idle_header 5 2) = 5"
    by (simp_all add: idle_header_def any_pass_in_progress_def)
  have u: "submitted (submitted_header 5 2)" by (simp add: submitted_header_def)
  have st: "api_step sample_submitted sample_reacquired"
    using sample_reacquired_acquired by (rule api_step.Acquire)
  have b: "SDL_GpuBeginRenderPass 2 0 0 0 sample_reacquired =
       Inr (2, sample_reacquired\<lparr>calls := calls sample_reacquired @
                 [(5, ''BeginRenderPass'', [Pv 2, Pv 0, Uv 0, Pv 0])],
               heap := [2 \<mapsto> rendering_header 5 2]\<rparr>)"
    by (subst begin_render_eq[OF usable_sample_reacquired heap_sample_reacquired])
       (simp add: idle_header_def any_pass_in_progress_def rendering_header_def sample_reacquired_def)
  have c: "SDL_GpuSubmit 2 sample_reacquired =
       Inr ((), sample_reacquired\<lparr>calls := calls sample_reacquired @ [(5, ''Submit'', [Pv 2])],
                heap := [2 \<mapsto> submitted_header 5 2]\<rparr>)"
    by (subst submit_eq[OF usable_sample_reacquired heap_sample_reacquired])
       (simp add: idle_header_def any_pass_in_progress_def submitted_header_def sample_reacquired_def)
  have b': "SDL_GpuBeginRenderPass 2 0 0 0 sample_reacquired \<noteq>
       Inr (NULL, sample_reacquired\<lparr>logs := logs sample_reacquired @
                    [LogError ''Command buffer already submitted!'' []]\<rparr>)"
    unfolding b by simp
  have c': "SDL_GpuSubmit 2 sample_reacquired \<noteq>
       Inr ((), sample_reacquired\<lparr>logs := logs sample_reacquired @
                    [LogError ''Command buffer already submitted!'' []]\<rparr>)"
  proof
    assume "SDL_GpuSubmit 2 sample_reacquired =
       Inr ((), sample_reacquired\<lparr>logs := logs sample_reacquired @
                    [LogError ''Command buffer already submitted!'' []]\<rparr>)"
    with c have "calls (sample_reacquired\<lparr>calls := calls sample_reacquired @ [(5, ''Submit'', [Pv 2])],
                heap := [2 \<mapsto> submitted_header 5 2]\<rparr>)
        = calls (sample_reacquired\<lparr>logs := logs sample_reacquired @
                    [LogError ''Command buffer already submitted!'' []]\<rparr>)"
      by simp
    then show False by simp
  qed
  from sample_submitted_done reachable_sample_submitted heap_sample_submitted u
    sample_reacquired_acquired st heap_sample_reacquired i(1) b b' c c'
  show ?thesis by (intro conjI)
qed

text \<open>
  C2 as the code has it. Submission, plain or fence-returning, of a command buffer with a
  pass in progress is refused: a diagnostic is logged and nothing else changes (no backend
  call, every flag as it was), and in a reachable state the submitted flag of such a
  buffer is false. The buffer stays usable: once the pass is ended, submission is
  accepted. With no pass in progress, submission of a buffer not yet submitted sets the
  submitted flag and forwards the buffer to the backend (the fence variant returns the
  backend's fence). After that every pass begin and every submission on the buffer is
  refused, and stays refused after any run of API calls in which no acquisition hands the
  buffer out again: no function taking a command buffer or pass clears the flag, and a
  call of the API either keeps the flag or is an acquisition that returns this buffer.
\<close>

theorem C2_submission_guard:
  assumes "usable s cb" and "heap s cb = Some h" and "devices s (device h) = Some d"
  shows
    "(any_pass_in_progress h \<longrightarrow>
        (let refusal = s\<lparr>logs := logs s @
                 [LogError (if submitted h then ''Command buffer already submitted!''
                            else ''Cannot submit command buffer while a pass is in progress!'') []]\<rparr>
         in SDL_GpuSubmit cb s = Inr ((), refusal)
          \<and> SDL_GpuSubmitAndAcquireFence cb s = Inr (NULL, refusal))
        \<and> (reachable s \<longrightarrow> \<not> submitted h))
     \<and> (reachable s \<and> inProgress (renderPass h) \<longrightarrow>
          (\<exists>s1 s2 s3 h3.
             SDL_GpuSubmit cb s = Inr ((), s1) \<and> heap s1 = heap s \<and> calls s1 = calls s
             \<and> SDL_GpuEndRenderPass cb s1 = Inr ((), s2)
             \<and> SDL_GpuSubmit cb s2 = Inr ((), s3) \<and> heap s3 cb = Some h3 \<and> submitted h3
             \<and> calls s3 = calls s @ [(device h, ''EndRenderPass'', [Pv cb]), (device h, ''Submit'', [Pv cb])]))
     \<and> (reachable s \<and> inProgress (computePass h) \<longrightarrow>
          (\<exists>s1 s2 s3 h3.
             SDL_GpuSubmit cb s = Inr ((), s1) \<and> heap s1 = heap s \<and> calls s1 = calls s
             \<and> SDL_GpuEndComputePass cb s1 = Inr ((), s2)
             \<and> SDL_GpuSubmit cb s2 = Inr ((), s3) \<and> heap s3 cb = Some h3 \<and> submitted h3
             \<and> calls s3 = calls s @ [(device h, ''EndComputePass'', [Pv cb]), (device h, ''Submit'', [Pv cb])]))
     \<and> (reachable s \<and> inProgress (copyPass h) \<longrightarrow>
          (\<exists>s1 s2 s3 h3.
             SDL_GpuSubmit cb s = Inr ((), s1) \<and> heap s1 = heap s \<and> calls s1 = calls s
             \<and> SDL_GpuEndCopyPass cb s1 = Inr ((), s2)
             \<and> SDL_GpuSubmit cb s2 = Inr ((), s3) \<and> heap s3 cb = Some h3 \<and> submitted h3
             \<and> calls s3 = calls s @ [(device h, ''EndCopyPass'', [Pv cb]), (device h, ''Submit'', [Pv cb])]))
     \<and> (\<not> any_pass_in_progress h \<and> \<not> submitted h \<longrightarrow>
          SDL_GpuSubmit cb s =
            Inr ((), s\<lparr>calls := calls s @ [(device h, ''Submit'', [Pv cb])],
                       heap := (heap s)(cb \<mapsto> h\<lparr>submitted := True\<rparr>)\<rparr>)
        \<and> SDL_GpuSubmitAndAcquireFence cb s =
            Inr (table d (calls s) ''SubmitAndAcquireFence'' [Pv cb],
                 s\<lparr>calls := calls s @ [(device h, ''SubmitAndAcquireFence'', [Pv cb])],
                   heap := (heap s)(cb \<mapsto> h\<lparr>submitted := True\<rparr>)\<rparr>))
     \<and> (submitted h \<longrightarrow>
          (let refusal = s\<lparr>logs := logs s @ [LogError ''Command buffer already submitted!'' []]\<rparr>
           in SDL_GpuBeginRenderPass cb infos n depth s = Inr (NULL, refusal)
            \<and> SDL_GpuBeginComputePass cb tex tn buf bn s = Inr (NULL, refusal)
            \<and> SDL_GpuBeginCopyPass cb s = Inr (NULL, refusal)
            \<and> SDL_GpuSubmit cb s = Inr ((), refusal)
            \<and> SDL_GpuSubmitAndAcquireFence cb s = Inr (NULL, refusal))
        \<and> (reachable s \<longrightarrow> command_step s s' \<longrightarrow> (\<exists>h'. heap s' cb = Some h' \<and> submitted h')))
     \<and> (submitted h \<and> reachable s \<and> api_step s s' \<longrightarrow>
          (\<exists>h'. heap s' cb = Some h' \<and> submitted h')
          \<or> (\<exists>dev. SDL_GpuAcquireCommandBuffer dev s = Inr (cb, s')))
     \<and> (submitted h \<and> reachable s \<and> not_reacquired cb s s'' \<longrightarrow>
          (\<exists>h''. heap s'' cb = Some h'' \<and> submitted h'')
          \<and> (let refusal = s''\<lparr>logs := logs s'' @ [LogError ''Command buffer already submitted!'' []]\<rparr>
             in SDL_GpuBeginRenderPass cb infos n depth s'' = Inr (NULL, refusal)
              \<and> SDL_GpuBeginComputePass cb tex tn buf bn s'' = Inr (NULL, refusal)
              \<and> SDL_GpuBeginCopyPass cb s'' = Inr (NULL, refusal)
              \<and> SDL_GpuSubmit cb s'' = Inr ((), refusal)
              \<and> SDL_GpuSubmitAndAcquireFence cb s'' = Inr (NULL, refusal)))"
proof -
  note ua = assms(1,2)
  note eqs = submit_eq[OF ua] submit_fence_eq[OF assms] begin_render_eq[OF ua]
    begin_compute_eq[OF ua] begin_copy_eq[OF ua]
  have a: "any_pass_in_progress h \<longrightarrow>
        (let refusal = s\<lparr>logs := logs s @
                 [LogError (if submitted h then ''Command buffer already submitted!''
                            else ''Cannot submit command buffer while a pass is in progress!'') []]\<rparr>
         in SDL_GpuSubmit cb s = Inr ((), refusal)
          \<and> SDL_GpuSubmitAndAcquireFence cb s = Inr (NULL, refusal))
        \<and> (reachable s \<longrightarrow> \<not> submitted h)"
    using reachable_header[OF _ assms(2)] by (auto simp: eqs Let_def)
  have c: "\<not> any_pass_in_progress h \<and> \<not> submitted h \<longrightarrow>
          SDL_GpuSubmit cb s =
            Inr ((), s\<lparr>calls := calls s @ [(device h, ''Submit'', [Pv cb])],
                       heap := (heap s)(cb \<mapsto> h\<lparr>submitted := True\<rparr>)\<rparr>)
        \<and> SDL_GpuSubmitAndAcquireFence cb s =
            Inr (table d (calls s) ''SubmitAndAcquireFence'' [Pv cb],
                 s\<lparr>calls := calls s @ [(device h, ''SubmitAndAcquireFence'', [Pv cb])],
                   heap := (heap s)(cb \<mapsto> h\<lparr>submitted := True\<rparr>)\<rparr>)"
    by (simp add: eqs)
  have d: "submitted h \<longrightarrow>
          (let refusal = s\<lparr>logs := logs s @ [LogError ''Command buffer already submitted!'' []]\<rparr>
           in SDL_GpuBeginRenderPass cb infos n depth s = Inr (NULL, refusal)
            \<and> SDL_GpuBeginComputePass cb tex tn buf bn s = Inr (NULL, refusal)
            \<and> SDL_GpuBeginCopyPass cb s = Inr (NULL, refusal)
            \<and> SDL_GpuSubmit cb s = Inr ((), refusal)
            \<and> SDL_GpuSubmitAndAcquireFence cb s = Inr (NULL, refusal))
        \<and> (reachable s \<longrightarrow> command_step s s' \<longrightarrow> (\<exists>h'. heap s' cb = Some h' \<and> submitted h'))"
    using submitted_kept[OF _ _ assms(2)] by (auto simp: eqs Let_def)
  have e: "submitted h \<and> reachable s \<and> api_step s s' \<longrightarrow>
          (\<exists>h'. heap s' cb = Some h' \<and> submitted h')
          \<or> (\<exists>dev. SDL_GpuAcquireCommandBuffer dev s = Inr (cb, s'))"
    using submitted_kept_api[OF _ _ assms(2)] by blast
  have f: "submitted h \<and> reachable s \<and> not_reacquired cb s s'' \<longrightarrow>
          (\<exists>h''. heap s'' cb = Some h'' \<and> submitted h'')
          \<and> (let refusal = s''\<lparr>logs := logs s'' @ [LogError ''Command buffer already submitted!'' []]\<rparr>
             in SDL_GpuBeginRenderPass cb infos n depth s'' = Inr (NULL, refusal)
              \<and> SDL_GpuBeginComputePass cb tex tn buf bn s'' = Inr (NULL, refusal)
              \<and> SDL_GpuBeginCopyPass cb s'' = Inr (NULL, refusal)
              \<and> SDL_GpuSubmit cb s'' = Inr ((), refusal)
              \<and> SDL_GpuSubmitAndAcquireFence cb s'' = Inr (NULL, refusal))"
    using refused_thereafter[OF _ _ assms(2)] by blast
  from a c d e f resubmit_after_render[OF ua] resubmit_after_compute[OF ua] resubmit_after_copy[OF ua]
  show ?thesis by blast
qed

theorem C2_submission_guard_witness:
  "usable sample_rendering 2 \<and> heap sample_rendering 2 = Some (rendering_header 5 2)
   \<and> devices sample_rendering 5 = Some sample_device \<and> reachable sample_rendering
   \<and> SDL_GpuSubmit 2 sample_rendering =
       Inr ((), sample_rendering\<lparr>logs :=
          [LogError ''Cannot submit command buffer while a pass is in progress!'' []]\<rparr>)
   \<and> \<not> submitted (rendering_header 5 2)
   \<and> (\<exists>s1 s2 s3 h3.
         SDL_GpuSubmit 2 sample_rendering = Inr ((), s1)
         \<and> SDL_GpuEndRenderPass 2 s1 = Inr ((), s2)
         \<and> SDL_GpuSubmit 2 s2 = Inr ((), s3) \<and> heap s3 2 = Some h3 \<and> submitted h3)
   \<and> usable sample_idle 2 \<and> heap sample_idle 2 = Some (idle_header 5 2)
   \<and> SDL_GpuSubmit 2 sample_idle = Inr ((), sample_submitted)
   \<and> usable sample_submitted 2 \<and> heap sample_submitted 2 = Some (submitted_header 5 2)
   \<and> reachable sample_submitted
   \<and> command_step sample_submitted
        (sample_submitted\<lparr>logs := [LogError ''Command buffer already submitted!'' []]\<rparr>)
   \<and> SDL_GpuSubmitAndAcquireFence 2 sample_submitted =
        Inr (NULL, sample_submitted\<lparr>logs := [LogError ''Command buffer already submitted!'' []]\<rparr>)
   \<and> (\<exists>h'. heap (sample_submitted\<lparr>logs := [LogError ''Command buffer already submitted!'' []]\<rparr>) 2
              = Some h' \<and> submitted h')
   \<and> api_step sample_submitted sample_reacquired
   \<and> SDL_GpuAcquireCommandBuffer 5 sample_submitted = Inr (2, sample_reacquired)
   \<and> SDL_GpuCreateBuffer 6 0 16 sample_refused = Inr (1, sample_refused_later)
   \<and> not_reacquired 2 sample_submitted sample_refused_later
   \<and> heap sample_refused_later 2 = Some (submitted_header 5 2)
   \<and> SDL_GpuBeginRenderPass 2 0 0 0 sample_refused_later =
        Inr (NULL, sample_refused_later\<lparr>logs :=
           [LogError ''Command buffer already submitted!'' [],
            LogError ''Command buffer already submitted!'' []]\<rparr>)
   \<and> SDL_GpuSubmit 2 sample_refused_later =
        Inr ((), sample_refused_later\<lparr>logs :=
           [LogError ''Command buffer already submitted!'' [],
            LogError ''Command buffer already submitted!'' []]\<rparr>)"
proof -
  have r: "\<not> submitted (rendering_header 5 2)" "any_pass_in_progress (rendering_header 5 2)"
      "inProgress (renderPass (rendering_header 5 2))" "device (rendering_header 5 2) = 5"
    by (simp_all add: rendering_header_def idle_header_def any_pass_in_progress_def)
  have i: "\<not> submitted (idle_header 5 2)" "\<not> any_pass_in_progress (idle_header 5 2)"
      "device (idle_header 5 2) = 5"
    by (simp_all add: idle_header_def any_pass_in_progress_def)
  have u: "submitted (submitted_header 5 2)" "device (submitted_header 5 2) = 5"
    by (simp_all add: submitted_header_def idle_header_def)
  have st: "command_step sample_submitted
        (sample_submitted\<lparr>logs := [LogError ''Command buffer already submitted!'' []]\<rparr>)"
    using sample_submitted_refuses by (rule command_step.BeginCopyPass)
  have sa: "api_step sample_submitted sample_reacquired"
    using sample_reacquired_acquired by (rule api_step.Acquire)
  have l: "logs sample_rendering = []" "logs sample_submitted = []"
      "logs sample_refused_later = [LogError ''Command buffer already submitted!'' []]"
    by (simp_all add: sample_rendering_def sample_submitted_def sample_idle_def sample_start_def
        sample_refused_later_def sample_refused_def)
  have hl: "heap sample_refused_later 2 = Some (submitted_header 5 2)"
    by (simp add: sample_refused_later_def sample_refused_def sample_submitted_def)
  from C2_submission_guard[OF usable_sample_rendering heap_sample_rendering, where
      d = sample_device and infos = 0 and n = 0 and depth = 0 and tex = 0 and tn = 0 and buf = 0
      and bn = 0 and s' = sample_rendering and s'' = sample_rendering]
  have a: "SDL_GpuSubmit 2 sample_rendering =
       Inr ((), sample_rendering\<lparr>logs :=
          [LogError ''Cannot submit command buffer while a pass is in progress!'' []]\<rparr>)"
    and b: "\<exists>s1 s2 s3 h3.
         SDL_GpuSubmit 2 sample_rendering = Inr ((), s1)
         \<and> SDL_GpuEndRenderPass 2 s1 = Inr ((), s2)
         \<and> SDL_GpuSubmit 2 s2 = Inr ((), s3) \<and> heap s3 2 = Some h3 \<and> submitted h3"
    using r sample_devices reachable_sample_rendering l by (auto simp: Let_def)
  note sub = C2_submission_guard[OF usable_sample_submitted heap_sample_submitted, where
      d = sample_device and infos = 0 and n = 0 and depth = 0 and tex = 0 and tn = 0 and buf = 0
      and bn = 0
      and s' = "sample_submitted\<lparr>logs := [LogError ''Command buffer already submitted!'' []]\<rparr>"
      and s'' = sample_refused_later]
  from sub
  have c: "SDL_GpuSubmitAndAcquireFence 2 sample_submitted =
        Inr (NULL, sample_submitted\<lparr>logs := [LogError ''Command buffer already submitted!'' []]\<rparr>)"
    and d: "\<exists>h'. heap (sample_submitted\<lparr>logs := [LogError ''Command buffer already submitted!'' []]\<rparr>) 2
              = Some h' \<and> submitted h'"
    using u sample_devices reachable_sample_submitted st l by (auto simp: Let_def)
  from sub
  have f: "SDL_GpuBeginRenderPass 2 0 0 0 sample_refused_later =
        Inr (NULL, sample_refused_later\<lparr>logs :=
           [LogError ''Command buffer already submitted!'' [],
            LogError ''Command buffer already submitted!'' []]\<rparr>)"
    and g: "SDL_GpuSubmit 2 sample_refused_later =
        Inr ((), sample_refused_later\<lparr>logs :=
           [LogError ''Command buffer already submitted!'' [],
            LogError ''Command buffer already submitted!'' []]\<rparr>)"
    using u sample_devices reachable_sample_submitted sample_not_reacquired l
    by (auto simp: Let_def)
  from C2_submission_guard[OF usable_sample_idle heap_sample_idle, where d = sample_device]
  have e: "SDL_GpuSubmit 2 sample_idle = Inr ((), sample_submitted)"
    using sample_submitted_done by simp
  from a b c d e f g r(1) st sa hl sample_reacquired_acquired sample_refused_later_created
    sample_not_reacquired
  show ?thesis
    using usable_sample_rendering heap_sample_rendering sample_devices reachable_sample_rendering
      usable_sample_idle heap_sample_idle usable_sample_submitted heap_sample_submitted
      reachable_sample_submitted
    by simp
qed

lemma draw_after_end:
  assumes u: "usable s p" and h: "heap s p = Some h"
    and i: "\<not> submitted h" "\<not> any_pass_in_progress h"
  shows "\<exists>s1 s2.
      SDL_GpuBeginRenderPass p infos n depth s = Inr (p, s1)
      \<and> SDL_GpuEndRenderPass p s1 = Inr ((), s2)
      \<and> calls s2 = calls s @ [(device h, ''BeginRenderPass'', [Pv p, Pv infos, Uv n, Pv depth]),
                               (device h, ''EndRenderPass'', [Pv p])]
      \<and> (let refusal = Inr ((), s2\<lparr>logs := logs s2 @ [LogError ''Render pass not in progress!'' []]\<rparr>)
         in SDL_GpuDrawPrimitives p vertexStart primitiveCount s2 = refusal
          \<and> SDL_GpuDrawIndexedPrimitives p baseVertex startIndex primitiveCount instanceCount s2 = refusal
          \<and> SDL_GpuDrawPrimitivesIndirect p buffer offsetInBytes drawCount stride s2 = refusal
          \<and> SDL_GpuDrawIndexedPrimitivesIndirect p buffer offsetInBytes drawCount stride s2 = refusal)"
proof -
  define h1 where "h1 = h\<lparr>renderPass := (renderPass h)\<lparr>inProgress := True\<rparr>\<rparr>"
  define s1 where "s1 = s\<lparr>calls := calls s @ [(device h, ''BeginRenderPass'', [Pv p, Pv infos, Uv n, Pv depth])],
                     heap := (heap s)(p \<mapsto> h1)\<rparr>"
  define h2 where "h2 = h1\<lparr>renderPass := (renderPass h1)\<lparr>inProgress := False\<rparr>, graphicsPipelineBound := False\<rparr>"
  define s2 where "s2 = s1\<lparr>calls := calls s1 @ [(device h1, ''EndRenderPass'', [Pv p])],
                     heap := (heap s1)(p \<mapsto> h2)\<rparr>"
  have e1: "SDL_GpuBeginRenderPass p infos n depth s = Inr (p, s1)"
    using i by (simp add: begin_render_eq[OF u h] s1_def h1_def)
  have "usable (s\<lparr>heap := (heap s)(p \<mapsto> h1)\<rparr>) p"
    using usable_store[OF u h, of h1] by (simp add: h1_def)
  then have u1: "usable s1 p"
    by (simp add: usable_def linked_def s1_def split: option.splits)
  have g1: "heap s1 p = Some h1" by (simp add: s1_def)
  have e2: "SDL_GpuEndRenderPass p s1 = Inr ((), s2)"
    by (simp add: end_render_eq[OF u1 g1] s2_def h2_def h1_def)
  have "usable (s1\<lparr>heap := (heap s1)(p \<mapsto> h2)\<rparr>) p"
    using usable_store[OF u1 g1, of h2] by (simp add: h2_def)
  then have u2: "usable s2 p"
    by (simp add: usable_def linked_def s2_def split: option.splits)
  have g2: "heap s2 p = Some h2" by (simp add: s2_def)
  have gate: "spec_render_gate h2 = Some ''Render pass not in progress!''"
    by (simp add: spec_render_gate_def h2_def)
  have c: "calls s2 = calls s @ [(device h, ''BeginRenderPass'', [Pv p, Pv infos, Uv n, Pv depth]),
                               (device h, ''EndRenderPass'', [Pv p])]"
    by (simp add: s2_def s1_def h1_def)
  have d: "SDL_GpuDrawPrimitives p vertexStart primitiveCount s2 =
             Inr ((), s2\<lparr>logs := logs s2 @ [LogError ''Render pass not in progress!'' []]\<rparr>)"
      "SDL_GpuDrawIndexedPrimitives p baseVertex startIndex primitiveCount instanceCount s2 =
             Inr ((), s2\<lparr>logs := logs s2 @ [LogError ''Render pass not in progress!'' []]\<rparr>)"
      "SDL_GpuDrawPrimitivesIndirect p buffer offsetInBytes drawCount stride s2 =
             Inr ((), s2\<lparr>logs := logs s2 @ [LogError ''Render pass not in progress!'' []]\<rparr>)"
      "SDL_GpuDrawIndexedPrimitivesIndirect p buffer offsetInBytes drawCount stride s2 =
             Inr ((), s2\<lparr>logs := logs s2 @ [LogError ''Render pass not in progress!'' []]\<rparr>)"
    by (simp_all add: DrawPrimitives_eq[OF u2 g2] DrawIndexedPrimitives_eq[OF u2 g2]
        DrawPrimitivesIndirect_eq[OF u2 g2] DrawIndexedPrimitivesIndirect_eq[OF u2 g2]
        gate spec_gated_def)
  from e1 e2 c d show ?thesis by (simp add: Let_def)
qed

text \<open>
  C3. On a usable command buffer every render-pass resource call (vertex and index buffer
  binds, vertex and fragment sampler and storage binds, vertex and fragment uniform
  pushes, the four draw calls) and every compute-pass resource call (compute storage
  binds, compute uniform push, dispatch) behaves as the specification's two-gate rule
  says: if the pass is not in progress, or else the pipeline is not bound, the call logs
  the matching diagnostic and does nothing else (no backend call, no state change);
  otherwise it forwards to the backend with its arguments and does nothing else. In
  particular, after a render pass is begun and ended, every draw call is refused.
\<close>

theorem C3_pass_scoped_calls_gated:
  assumes "usable s p" and "heap s p = Some h"
  shows
    "(spec_render_gate h = None) = (inProgress (renderPass h) \<and> graphicsPipelineBound h)
     \<and> (spec_compute_gate h = None) = (inProgress (computePass h) \<and> computePipelineBound h)
     \<and> SDL_GpuBindVertexBuffers p firstBinding pBindings bindingCount s =
       spec_gated (spec_render_gate h) (device h, ''BindVertexBuffers'', [Pv p, Uv firstBinding, Pv pBindings, Uv bindingCount]) s
     \<and> SDL_GpuBindIndexBuffer p pBinding indexElementSize s =
       spec_gated (spec_render_gate h) (device h, ''BindIndexBuffer'', [Pv p, Pv pBinding, Ev indexElementSize]) s
     \<and> SDL_GpuBindVertexSamplers p firstSlot textureSamplerBindings bindingCount s =
       spec_gated (spec_render_gate h) (device h, ''BindVertexSamplers'', [Pv p, Uv firstSlot, Pv textureSamplerBindings, Uv bindingCount]) s
     \<and> SDL_GpuBindVertexStorageTextures p firstSlot storageTextureSlices bindingCount s =
       spec_gated (spec_render_gate h) (device h, ''BindVertexStorageTextures'', [Pv p, Uv firstSlot, Pv storageTextureSlices, Uv bindingCount]) s
     \<and> SDL_GpuBindVertexStorageBuffers p firstSlot storageBuffers bindingCount s =
       spec_gated (spec_render_gate h) (device h, ''BindVertexStorageBuffers'', [Pv p, Uv firstSlot, Pv storageBuffers, Uv bindingCount]) s
     \<and> SDL_GpuBindFragmentSamplers p firstSlot textureSamplerBindings bindingCount s =
       spec_gated (spec_render_gate h) (device h, ''BindFragmentSamplers'', [Pv p, Uv firstSlot, Pv textureSamplerBindings, Uv bindingCount]) s
     \<and> SDL_GpuBindFragmentStorageTextures p firstSlot storageTextureSlices bindingCount s =
       spec_gated (spec_render_gate h) (device h, ''BindFragmentStorageTextures'', [Pv p, Uv firstSlot, Pv storageTextureSlices, Uv bindingCount]) s
     \<and> SDL_GpuBindFragmentStorageBuffers p firstSlot storageBuffers bindingCount s =
       spec_gated (spec_render_gate h) (device h, ''BindFragmentStorageBuffers'', [Pv p, Uv firstSlot, Pv storageBuffers, Uv bindingCount]) s
     \<and> SDL_GpuPushVertexUniformData p slotIndex data dataLengthInBytes s =
       spec_gated (spec_render_gate h) (device h, ''PushVertexUniformData'', [Pv p, Uv slotIndex, Pv data, Uv dataLengthInBytes]) s
     \<and> SDL_GpuPushFragmentUniformData p slotIndex data dataLengthInBytes s =
       spec_gated (spec_render_gate h) (device h, ''PushFragmentUniformData'', [Pv p, Uv slotIndex, Pv data, Uv dataLengthInBytes]) s
     \<and> SDL_GpuDrawIndexedPrimitives p baseVertex startIndex primitiveCount instanceCount s =
       spec_gated (spec_render_gate h) (device h, ''DrawIndexedPrimitives'', [Pv p, Uv baseVertex, Uv startIndex, Uv primitiveCount, Uv instanceCount]) s
     \<and> SDL_GpuDrawPrimitives p vertexStart primitiveCount s =
       spec_gated (spec_render_gate h) (device h, ''DrawPrimitives'', [Pv p, Uv vertexStart, Uv primitiveCount]) s
     \<and> SDL_GpuDrawPrimitivesIndirect p buffer offsetInBytes drawCount stride s =
       spec_gated (spec_render_gate h) (device h, ''DrawPrimitivesIndirect'', [Pv p, Pv buffer, Uv offsetInBytes, Uv drawCount, Uv stride]) s
     \<and> SDL_GpuDrawIndexedPrimitivesIndirect p buffer offsetInBytes drawCount stride s =
       spec_gated (spec_render_gate h) (device h, ''DrawIndexedPrimitivesIndirect'', [Pv p, Pv buffer, Uv offsetInBytes, Uv drawCount, Uv stride]) s
     \<and> SDL_GpuBindComputeStorageTextures p firstSlot storageTextureSlices bindingCount s =
       spec_gated (spec_compute_gate h) (device h, ''BindComputeStorageTextures'', [Pv p, Uv firstSlot, Pv storageTextureSlices, Uv bindingCount]) s
     \<and> SDL_GpuBindComputeStorageBuffers p firstSlot storageBuffers bindingCount s =
       spec_gated (spec_compute_gate h) (device h, ''BindComputeStorageBuffers'', [Pv p, Uv firstSlot, Pv storageBuffers, Uv bindingCount]) s
     \<and> SDL_GpuPushComputeUniformData p slotIndex data dataLengthInBytes s =
       spec_gated (spec_compute_gate h) (device h, ''PushComputeUniformData'', [Pv p, Uv slotIndex, Pv data, Uv dataLengthInBytes]) s
     \<and> SDL_GpuDispatchCompute p groupCountX groupCountY groupCountZ s =
       spec_gated (spec_compute_gate h) (device h, ''DispatchCompute'', [Pv p, Uv groupCountX, Uv groupCountY, Uv groupCountZ]) s
     \<and> (\<not> submitted h \<and> \<not> any_pass_in_progress h \<longrightarrow>
          (\<exists>s1 s2.
             SDL_GpuBeginRenderPass p infos n depth s = Inr (p, s1)
             \<and> SDL_GpuEndRenderPass p s1 = Inr ((), s2)
             \<and> calls s2 = calls s @ [(device h, ''BeginRenderPass'', [Pv p, Pv infos, Uv n, Pv depth]),
                                      (device h, ''EndRenderPass'', [Pv p])]
             \<and> (let refusal = Inr ((), s2\<lparr>logs := logs s2 @ [LogError ''Render pass not in progress!'' []]\<rparr>)
                in SDL_GpuDrawPrimitives p vertexStart primitiveCount s2 = refusal
                 \<and> SDL_GpuDrawIndexedPrimitives p baseVertex startIndex primitiveCount instanceCount s2 = refusal
                 \<and> SDL_GpuDrawPrimitivesIndirect p buffer offsetInBytes drawCount stride s2 = refusal
                 \<and> SDL_GpuDrawIndexedPrimitivesIndirect p buffer offsetInBytes drawCount stride s2 = refusal)))"
proof -
  have gates: "(spec_render_gate h = None) = (inProgress (renderPass h) \<and> graphicsPipelineBound h)"
    "(spec_compute_gate h = None) = (inProgress (computePass h) \<and> computePipelineBound h)"
    by (simp_all add: spec_render_gate_def spec_compute_gate_def)
  note eqs = BindVertexBuffers_eq[OF assms] BindIndexBuffer_eq[OF assms] BindVertexSamplers_eq[OF assms] BindVertexStorageTextures_eq[OF assms] BindVertexStorageBuffers_eq[OF assms] BindFragmentSamplers_eq[OF assms] BindFragmentStorageTextures_eq[OF assms] BindFragmentStorageBuffers_eq[OF assms] PushVertexUniformData_eq[OF assms] PushFragmentUniformData_eq[OF assms] DrawIndexedPrimitives_eq[OF assms] DrawPrimitives_eq[OF assms] DrawPrimitivesIndirect_eq[OF assms] DrawIndexedPrimitivesIndirect_eq[OF assms] BindComputeStorageTextures_eq[OF assms] BindComputeStorageBuffers_eq[OF assms] PushComputeUniformData_eq[OF assms] DispatchCompute_eq[OF assms]
  from draw_after_end[OF assms]
  have after: "\<not> submitted h \<and> \<not> any_pass_in_progress h \<longrightarrow>
          (\<exists>s1 s2.
             SDL_GpuBeginRenderPass p infos n depth s = Inr (p, s1)
             \<and> SDL_GpuEndRenderPass p s1 = Inr ((), s2)
             \<and> calls s2 = calls s @ [(device h, ''BeginRenderPass'', [Pv p, Pv infos, Uv n, Pv depth]),
                                      (device h, ''EndRenderPass'', [Pv p])]
             \<and> (let refusal = Inr ((), s2\<lparr>logs := logs s2 @ [LogError ''Render pass not in progress!'' []]\<rparr>)
                in SDL_GpuDrawPrimitives p vertexStart primitiveCount s2 = refusal
                 \<and> SDL_GpuDrawIndexedPrimitives p baseVertex startIndex primitiveCount instanceCount s2 = refusal
                 \<and> SDL_GpuDrawPrimitivesIndirect p buffer offsetInBytes drawCount stride s2 = refusal
                 \<and> SDL_GpuDrawIndexedPrimitivesIndirect p buffer offsetInBytes drawCount stride s2 = refusal))"
    by blast
  show ?thesis
    by (intro conjI gates eqs after)
qed

lemma usable_sample_drawing: "usable sample_drawing 2"
  by (simp add: usable_def linked_def sample_drawing_def sample_idle_def sample_start_def
      drawing_header_def rendering_header_def idle_header_def)

lemma heap_sample_drawing: "heap sample_drawing 2 = Some (drawing_header 5 2)"
  by (simp add: sample_drawing_def)

theorem C3_pass_scoped_calls_gated_witness:
  "usable sample_drawing 2 \<and> heap sample_drawing 2 = Some (drawing_header 5 2)
   \<and> SDL_GpuDrawPrimitives 2 0 3 sample_drawing =
       Inr ((), sample_drawing\<lparr>calls := calls sample_drawing @ [(5, ''DrawPrimitives'', [Pv 2, Uv 0, Uv 3])]\<rparr>)
   \<and> usable sample_rendering 2 \<and> heap sample_rendering 2 = Some (rendering_header 5 2)
   \<and> SDL_GpuDrawPrimitives 2 0 3 sample_rendering =
       Inr ((), sample_rendering\<lparr>logs := logs sample_rendering @ [LogError ''Graphics pipeline not bound!'' []]\<rparr>)
   \<and> SDL_GpuDispatchCompute 2 1 1 1 sample_rendering =
       Inr ((), sample_rendering\<lparr>logs := logs sample_rendering @ [LogError ''Compute pass not in progress!'' []]\<rparr>)
   \<and> usable sample_idle 2 \<and> heap sample_idle 2 = Some (idle_header 5 2)
   \<and> (\<exists>s1 s2.
         SDL_GpuBeginRenderPass 2 0 0 0 sample_idle = Inr (2, s1)
         \<and> SDL_GpuEndRenderPass 2 s1 = Inr ((), s2)
         \<and> SDL_GpuDrawPrimitives 2 0 3 s2 =
             Inr ((), s2\<lparr>logs := logs s2 @ [LogError ''Render pass not in progress!'' []]\<rparr>))"
proof -
  have g: "spec_render_gate (drawing_header 5 2) = None"
      "spec_render_gate (rendering_header 5 2) = Some ''Graphics pipeline not bound!''"
      "spec_compute_gate (rendering_header 5 2) = Some ''Compute pass not in progress!''"
      "device (drawing_header 5 2) = 5" "device (rendering_header 5 2) = 5"
    by (simp_all add: spec_render_gate_def spec_compute_gate_def drawing_header_def
        rendering_header_def idle_header_def)
  have i: "\<not> submitted (idle_header 5 2)" "\<not> any_pass_in_progress (idle_header 5 2)"
    by (simp_all add: idle_header_def any_pass_in_progress_def)
  from C3_pass_scoped_calls_gated[OF usable_sample_drawing heap_sample_drawing,
      where firstBinding = 0 and pBindings = 0 and bindingCount = 0 and pBinding = 0 and
        indexElementSize = 0 and firstSlot = 0 and textureSamplerBindings = 0 and
        storageTextureSlices = 0 and storageBuffers = 0 and slotIndex = 0 and data = 0 and
        dataLengthInBytes = 0 and baseVertex = 0 and startIndex = 0 and
        primitiveCount = 3 and instanceCount = 0 and vertexStart = 0 and buffer = 0 and
        offsetInBytes = 0 and drawCount = 0 and stride = 0 and groupCountX = 1 and
        groupCountY = 1 and groupCountZ = 1 and infos = 0 and n = 0 and depth = 0]
  have a: "SDL_GpuDrawPrimitives 2 0 3 sample_drawing =
       Inr ((), sample_drawing\<lparr>calls := calls sample_drawing @ [(5, ''DrawPrimitives'', [Pv 2, Uv 0, Uv 3])]\<rparr>)"
    by (simp add: g spec_gated_def)
  from C3_pass_scoped_calls_gated[OF usable_sample_rendering heap_sample_rendering,
      where firstBinding = 0 and pBindings = 0 and bindingCount = 0 and pBinding = 0 and
        indexElementSize = 0 and firstSlot = 0 and textureSamplerBindings = 0 and
        storageTextureSlices = 0 and storageBuffers = 0 and slotIndex = 0 and data = 0 and
        dataLengthInBytes = 0 and baseVertex = 0 and startIndex = 0 and
        primitiveCount = 3 and instanceCount = 0 and vertexStart = 0 and buffer = 0 and
        offsetInBytes = 0 and drawCount = 0 and stride = 0 and groupCountX = 1 and
        groupCountY = 1 and groupCountZ = 1 and infos = 0 and n = 0 and depth = 0]
  have b: "SDL_GpuDrawPrimitives 2 0 3 sample_rendering =
       Inr ((), sample_rendering\<lparr>logs := logs sample_rendering @ [LogError ''Graphics pipeline not bound!'' []]\<rparr>)"
    and c: "SDL_GpuDispatchCompute 2 1 1 1 sample_rendering =
       Inr ((), sample_rendering\<lparr>logs := logs sample_rendering @ [LogError ''Compute pass not in progress!'' []]\<rparr>)"
    by (simp_all add: g spec_gated_def)
  from C3_pass_scoped_calls_gated[OF usable_sample_idle heap_sample_idle,
      where firstBinding = 0 and pBindings = 0 and bindingCount = 0 and pBinding = 0 and
        indexElementSize = 0 and firstSlot = 0 and textureSamplerBindings = 0 and
        storageTextureSlices = 0 and storageBuffers = 0 and slotIndex = 0 and data = 0 and
        dataLengthInBytes = 0 and baseVertex = 0 and startIndex = 0 and
        primitiveCount = 3 and instanceCount = 0 and vertexStart = 0 and buffer = 0 and
        offsetInBytes = 0 and drawCount = 0 and stride = 0 and groupCountX = 1 and
        groupCountY = 1 and groupCountZ = 1 and infos = 0 and n = 0 and depth = 0] i
  have d: "\<exists>s1 s2.
         SDL_GpuBeginRenderPass 2 0 0 0 sample_idle = Inr (2, s1)
         \<and> SDL_GpuEndRenderPass 2 s1 = Inr ((), s2)
         \<and> SDL_GpuDrawPrimitives 2 0 3 s2 =
             Inr ((), s2\<lparr>logs := logs s2 @ [LogError ''Render pass not in progress!'' []]\<rparr>)"
    by (simp add: Let_def) blast
  from a b c d show ?thesis
    using usable_sample_drawing heap_sample_drawing usable_sample_rendering heap_sample_rendering
      usable_sample_idle heap_sample_idle
    by simp
qed

lemma usable_heap_calls:
  "usable (s\<lparr>calls := c, heap := m\<rparr>) cb = usable (s\<lparr>heap := m\<rparr>) cb"
  by (simp add: usable_def linked_def split: option.splits)

text \<open>
  C4 fails on the code. \<open>SDL_GpuBindGraphicsPipeline\<close> has no \<open>CHECK_RENDERPASS\<close>: called
  with the handle of a render pass that was begun and ended, it reaches the backend and
  sets the graphics-pipeline-bound gate although the render pass is not in progress, and
  the state it leaves is reachable. \<open>SDL_GpuBindComputePipeline\<close>, which has the check,
  refuses the same call for the compute pass.
\<close>

theorem C4_bind_graphics_pipeline_outside_pass:
  "\<exists>s1 s2 h2.
      SDL_GpuBeginRenderPass 2 0 0 0 sample_idle = Inr (2, sample_rendering)
      \<and> SDL_GpuEndRenderPass 2 sample_rendering = Inr ((), s1)
      \<and> heap s1 2 = Some (idle_header 5 2)
      \<and> SDL_GpuBindGraphicsPipeline 2 9 s1 = Inr ((), s2)
      \<and> calls s2 = calls s1 @ [(5, ''BindGraphicsPipeline'', [Pv 2, Pv 9])]
      \<and> heap s2 2 = Some h2 \<and> graphicsPipelineBound h2 \<and> \<not> inProgress (renderPass h2)
      \<and> reachable s2
      \<and> SDL_GpuBindComputePipeline 2 9 s1 =
          Inr ((), s1\<lparr>logs := logs s1 @ [LogError ''Compute pass not in progress!'' []]\<rparr>)"
proof -
  define s1 where "s1 = sample_rendering\<lparr>calls := calls sample_rendering @ [(5, ''EndRenderPass'', [Pv 2])],
      heap := (heap sample_rendering)(2 \<mapsto> idle_header 5 2)\<rparr>"
  define s2 where "s2 = s1\<lparr>calls := calls s1 @ [(5, ''BindGraphicsPipeline'', [Pv 2, Pv 9])],
      heap := (heap s1)(2 \<mapsto> (idle_header 5 2)\<lparr>graphicsPipelineBound := True\<rparr>)\<rparr>"
  have e1: "SDL_GpuEndRenderPass 2 sample_rendering = Inr ((), s1)"
    by (subst end_render_eq[OF usable_sample_rendering heap_sample_rendering])
       (simp add: s1_def rendering_header_def idle_header_def)
  have u1: "usable s1 2"
    using usable_store[OF usable_sample_rendering heap_sample_rendering, of "idle_header 5 2"]
    by (simp add: s1_def usable_heap_calls rendering_header_def idle_header_def)
  have g1: "heap s1 2 = Some (idle_header 5 2)" by (simp add: s1_def)
  have e2: "SDL_GpuBindGraphicsPipeline 2 9 s1 = Inr ((), s2)"
    by (subst bind_graphics_eq[OF u1 g1]) (simp add: s2_def idle_header_def)
  have e3: "SDL_GpuBindComputePipeline 2 9 s1 =
          Inr ((), s1\<lparr>logs := logs s1 @ [LogError ''Compute pass not in progress!'' []]\<rparr>)"
    by (subst bind_compute_eq[OF u1 g1]) (simp add: idle_header_def)
  have r1: "reachable s1"
    using reachable_sample_rendering e1
    by (blast intro: reachable.Step api_step.Command command_step.EndRenderPass)
  have r2: "reachable s2"
    using r1 e2 by (blast intro: reachable.Step api_step.Command command_step.BindGraphicsPipeline)
  have "heap s2 2 = Some ((idle_header 5 2)\<lparr>graphicsPipelineBound := True\<rparr>)"
    by (simp add: s2_def)
  moreover have "calls s2 = calls s1 @ [(5, ''BindGraphicsPipeline'', [Pv 2, Pv 9])]"
    by (simp add: s2_def)
  moreover have "graphicsPipelineBound ((idle_header 5 2)\<lparr>graphicsPipelineBound := True\<rparr>)"
    "\<not> inProgress (renderPass ((idle_header 5 2)\<lparr>graphicsPipelineBound := True\<rparr>))"
    by (simp_all add: idle_header_def)
  ultimately show ?thesis
    using sample_rendering_begun e1 g1 e2 r2 e3 by blast
qed

text \<open>
  C5 fails on the code. Of the seven copy-pass operations only \<open>SDL_GpuUploadToTexture\<close>
  has \<open>CHECK_COPYPASS\<close>. Called with the handle of a copy pass that was begun and ended,
  the other six reach the backend although the copy pass is not in progress, where
  \<open>SDL_GpuUploadToTexture\<close> is refused with the diagnostic.
\<close>

theorem C5_copy_calls_outside_pass:
  "\<exists>s1 s2.
      SDL_GpuBeginCopyPass 2 sample_idle = Inr (2, s1)
      \<and> SDL_GpuEndCopyPass 2 s1 = Inr ((), s2)
      \<and> heap s2 2 = Some (idle_header 5 2) \<and> \<not> inProgress (copyPass (idle_header 5 2))
      \<and> SDL_GpuUploadToBuffer 2 11 12 13 False s2 =
          Inr ((), s2\<lparr>calls := calls s2 @ [(5, ''UploadToBuffer'', [Pv 2, Pv 11, Pv 12, Pv 13, Bv False])]\<rparr>)
      \<and> SDL_GpuCopyTextureToTexture 2 11 12 False s2 =
          Inr ((), s2\<lparr>calls := calls s2 @ [(5, ''CopyTextureToTexture'', [Pv 2, Pv 11, Pv 12, Bv False])]\<rparr>)
      \<and> SDL_GpuCopyBufferToBuffer 2 11 12 13 False s2 =
          Inr ((), s2\<lparr>calls := calls s2 @ [(5, ''CopyBufferToBuffer'', [Pv 2, Pv 11, Pv 12, Pv 13, Bv False])]\<rparr>)
      \<and> SDL_GpuGenerateMipmaps 2 11 s2 =
          Inr ((), s2\<lparr>calls := calls s2 @ [(5, ''GenerateMipmaps'', [Pv 2, Pv 11])]\<rparr>)
      \<and> SDL_GpuDownloadFromTexture 2 11 12 13 s2 =
          Inr ((), s2\<lparr>calls := calls s2 @ [(5, ''DownloadFromTexture'', [Pv 2, Pv 11, Pv 12, Pv 13])]\<rparr>)
      \<and> SDL_GpuDownloadFromBuffer 2 11 12 13 s2 =
          Inr ((), s2\<lparr>calls := calls s2 @ [(5, ''DownloadFromBuffer'', [Pv 2, Pv 11, Pv 12, Pv 13])]\<rparr>)
      \<and> SDL_GpuUploadToTexture 2 11 12 13 False s2 =
          Inr ((), s2\<lparr>logs := logs s2 @ [LogError ''Copy pass not in progress!'' []]\<rparr>)"
proof -
  define h1 where "h1 = (idle_header 5 2)\<lparr>copyPass := \<lparr>commandBuffer = 2, inProgress = True\<rparr>\<rparr>"
  define s1 where "s1 = sample_idle\<lparr>calls := calls sample_idle @ [(5, ''BeginCopyPass'', [Pv 2])],
      heap := (heap sample_idle)(2 \<mapsto> h1)\<rparr>"
  define s2 where "s2 = s1\<lparr>calls := calls s1 @ [(5, ''EndCopyPass'', [Pv 2])],
      heap := (heap s1)(2 \<mapsto> idle_header 5 2)\<rparr>"
  have e1: "SDL_GpuBeginCopyPass 2 sample_idle = Inr (2, s1)"
    by (subst begin_copy_eq[OF usable_sample_idle heap_sample_idle])
       (simp add: s1_def h1_def idle_header_def any_pass_in_progress_def)
  have u1: "usable s1 2"
    using usable_store[OF usable_sample_idle heap_sample_idle, of h1]
    by (simp add: s1_def h1_def usable_heap_calls idle_header_def)
  have g1: "heap s1 2 = Some h1" by (simp add: s1_def)
  have e2: "SDL_GpuEndCopyPass 2 s1 = Inr ((), s2)"
    by (subst end_copy_eq[OF u1 g1]) (simp add: s2_def h1_def idle_header_def)
  have u2: "usable s2 2"
    using usable_store[OF u1 g1, of "idle_header 5 2"]
    by (simp add: s2_def h1_def usable_heap_calls idle_header_def)
  have g2: "heap s2 2 = Some (idle_header 5 2)" by (simp add: s2_def)
  have n: "\<not> inProgress (copyPass (idle_header 5 2))" "device (idle_header 5 2) = 5"
    by (simp_all add: idle_header_def)
  note fw = UploadToBuffer_eq[OF u2 g2] CopyTextureToTexture_eq[OF u2 g2]
    CopyBufferToBuffer_eq[OF u2 g2] GenerateMipmaps_eq[OF u2 g2]
    DownloadFromTexture_eq[OF u2 g2] DownloadFromBuffer_eq[OF u2 g2]
  have t: "SDL_GpuUploadToTexture 2 11 12 13 False s2 =
          Inr ((), s2\<lparr>logs := logs s2 @ [LogError ''Copy pass not in progress!'' []]\<rparr>)"
    by (simp add: UploadToTexture_eq[OF u2 g2] n spec_gated_def)
  show ?thesis
    using e1 e2 g2 n(1) t by (auto simp: fw n(2))
qed

lemma probe_loop_selected:
  "fst (probe_loop test bs) = map_option backendflag (find (\<lambda>b. test b \<and> PrepareDriver b) bs)"
  by (induction bs) (auto split: prod.splits)

lemma probe_loop_probed:
  "n \<in> set (snd (probe_loop test bs)) \<Longrightarrow> \<exists>b\<in>set bs. test b \<and> Name b = n"
  by (induction bs) (auto split: prod.splits if_splits)

lemma probe_loop_eq:
  "probe_loop test bs =
     (map_option backendflag (find (\<lambda>b. test b \<and> PrepareDriver b) bs), snd (probe_loop test bs))"
  by (simp add: probe_loop_selected[symmetric])

lemma select_override:
  "SDL_GpuSelectBackend bs (Some g) pref =
     (case find (\<lambda>b. SDL_strcasecmp g (Name b) = 0 \<and> PrepareDriver b) bs of
        Some b \<Rightarrow> (backendflag b, snd (probe_loop (\<lambda>b. SDL_strcasecmp g (Name b) = 0) bs), [])
      | None \<Rightarrow> (SDL_GPU_BACKEND_INVALID, snd (probe_loop (\<lambda>b. SDL_strcasecmp g (Name b) = 0) bs),
                 [LogError ''SDL_HINT_GPU_BACKEND %s unsupported!'' [ArgString g]]))"
  unfolding SDL_GpuSelectBackend_def
  by (subst probe_loop_eq) (simp split: option.splits)

lemma select_fallback:
  "SDL_GpuSelectBackend bs None SDL_GPU_BACKEND_INVALID =
     (case find PrepareDriver bs of
        Some b \<Rightarrow> (backendflag b, snd (probe_loop (\<lambda>b. True) bs), [])
      | None \<Rightarrow> (SDL_GPU_BACKEND_INVALID, snd (probe_loop (\<lambda>b. True) bs),
                 [LogError ''No supported SDL_Gpu backend found!'' []]))"
  unfolding SDL_GpuSelectBackend_def
  by (subst probe_loop_eq) (simp split: option.splits)

lemma select_preferred:
  assumes "pref \<noteq> SDL_GPU_BACKEND_INVALID"
  shows "SDL_GpuSelectBackend bs None pref =
     (case find (\<lambda>b. pref AND backendflag b \<noteq> 0 \<and> PrepareDriver b) bs of
        Some b \<Rightarrow> (backendflag b, snd (probe_loop (\<lambda>b. pref AND backendflag b \<noteq> 0) bs), [])
      | None \<Rightarrow>
         (case find PrepareDriver bs of
            Some b \<Rightarrow> (backendflag b,
                snd (probe_loop (\<lambda>b. pref AND backendflag b \<noteq> 0) bs) @ snd (probe_loop (\<lambda>b. True) bs),
                [LogWarn ''No preferred SDL_Gpu backend found!'' []])
          | None \<Rightarrow> (SDL_GPU_BACKEND_INVALID,
                snd (probe_loop (\<lambda>b. pref AND backendflag b \<noteq> 0) bs) @ snd (probe_loop (\<lambda>b. True) bs),
                [LogWarn ''No preferred SDL_Gpu backend found!'' [],
                 LogError ''No supported SDL_Gpu backend found!'' []])))"
  unfolding SDL_GpuSelectBackend_def using assms
  by (subst probe_loop_eq, subst (2) probe_loop_eq) (simp split: option.splits)

lemma find_no_probe: "\<forall>b\<in>set bs. \<not> PrepareDriver b \<Longrightarrow> find (\<lambda>b. test b \<and> PrepareDriver b) bs = None"
  by (simp add: find_None_iff)

lemma select_none_probe:
  assumes "\<forall>b\<in>set bs. \<not> PrepareDriver b"
  shows "fst (SDL_GpuSelectBackend bs hint pref) = SDL_GPU_BACKEND_INVALID"
proof (cases hint)
  case (Some g)
  then show ?thesis using find_no_probe[OF assms] by (simp add: select_override)
next
  case None
  have f: "find PrepareDriver bs = None" using assms by (simp add: find_None_iff)
  show ?thesis
  proof (cases "pref = SDL_GPU_BACKEND_INVALID")
    case True
    with None f show ?thesis by (simp add: select_fallback)
  next
    case False
    with None f find_no_probe[OF assms] show ?thesis by (simp add: select_preferred)
  qed
qed

lemma create_device_invalid:
  "fst (SDL_GpuSelectBackend bs hint pref) = SDL_GPU_BACKEND_INVALID \<Longrightarrow>
     fst (SDL_GpuCreateDevice bs hint pref dbg) = None"
  by (cases "SDL_GpuSelectBackend bs hint pref") (simp add: SDL_GpuCreateDevice_def)

text \<open>
  C6. With the environment override set, the backend selected is the first in registry
  order whose name matches the override (up to case) and whose probe succeeds, and the
  failure sentinel when there is none (unrecognised name or failed probe); only drivers
  with a matching name are probed, the preferred mask plays no part, and on failure device
  creation returns no device. Without the override and with a non-empty preferred mask, the
  first backend in registry order whose flag intersects the mask and whose probe succeeds
  is selected with no message; when there is none a warning is logged and the first
  registered backend whose probe succeeds is selected, or the failure sentinel. With an
  empty mask the first registered backend whose probe succeeds is selected. When no probe
  succeeds at all the result is the failure sentinel and no device is created.
\<close>

theorem C6_backend_selection:
  "fst (SDL_GpuSelectBackend backends (Some g) preferred) =
     (case find (\<lambda>b. SDL_strcasecmp g (Name b) = 0 \<and> PrepareDriver b) backends of
        Some b \<Rightarrow> backendflag b | None \<Rightarrow> SDL_GPU_BACKEND_INVALID)
   \<and> (\<forall>n\<in>set (fst (snd (SDL_GpuSelectBackend backends (Some g) preferred))).
         SDL_strcasecmp g n = 0)
   \<and> SDL_GpuSelectBackend backends (Some g) preferred = SDL_GpuSelectBackend backends (Some g) preferred'
   \<and> (find (\<lambda>b. SDL_strcasecmp g (Name b) = 0 \<and> PrepareDriver b) backends = None \<longrightarrow>
         fst (SDL_GpuCreateDevice backends (Some g) preferred debugMode) = None)
   \<and> (preferred \<noteq> SDL_GPU_BACKEND_INVALID \<longrightarrow>
        (case find (\<lambda>b. preferred AND backendflag b \<noteq> 0 \<and> PrepareDriver b) backends of
           Some b \<Rightarrow>
             fst (SDL_GpuSelectBackend backends None preferred) = backendflag b
             \<and> snd (snd (SDL_GpuSelectBackend backends None preferred)) = []
         | None \<Rightarrow>
             fst (SDL_GpuSelectBackend backends None preferred) =
               (case find PrepareDriver backends of
                  Some b \<Rightarrow> backendflag b | None \<Rightarrow> SDL_GPU_BACKEND_INVALID)
             \<and> hd (snd (snd (SDL_GpuSelectBackend backends None preferred))) =
                 LogWarn ''No preferred SDL_Gpu backend found!'' []))
   \<and> (preferred = SDL_GPU_BACKEND_INVALID \<longrightarrow>
        fst (SDL_GpuSelectBackend backends None preferred) =
          (case find PrepareDriver backends of
             Some b \<Rightarrow> backendflag b | None \<Rightarrow> SDL_GPU_BACKEND_INVALID))
   \<and> ((\<forall>b\<in>set backends. \<not> PrepareDriver b) \<longrightarrow>
        fst (SDL_GpuSelectBackend backends gpudriver preferred) = SDL_GPU_BACKEND_INVALID
        \<and> fst (SDL_GpuCreateDevice backends gpudriver preferred debugMode) = None)"
proof -
  have a: "fst (SDL_GpuSelectBackend backends (Some g) preferred) =
     (case find (\<lambda>b. SDL_strcasecmp g (Name b) = 0 \<and> PrepareDriver b) backends of
        Some b \<Rightarrow> backendflag b | None \<Rightarrow> SDL_GPU_BACKEND_INVALID)"
    by (simp add: select_override split: option.splits)
  have b: "\<forall>n\<in>set (fst (snd (SDL_GpuSelectBackend backends (Some g) preferred))).
         SDL_strcasecmp g n = 0"
    using probe_loop_probed[of _ "\<lambda>b. SDL_strcasecmp g (Name b) = 0" backends]
    by (auto simp: select_override split: option.splits)
  have c: "SDL_GpuSelectBackend backends (Some g) preferred = SDL_GpuSelectBackend backends (Some g) preferred'"
    by (simp add: select_override)
  have d: "find (\<lambda>b. SDL_strcasecmp g (Name b) = 0 \<and> PrepareDriver b) backends = None \<longrightarrow>
         fst (SDL_GpuCreateDevice backends (Some g) preferred debugMode) = None"
    using a by (auto intro: create_device_invalid)
  have e: "preferred \<noteq> SDL_GPU_BACKEND_INVALID \<longrightarrow>
        (case find (\<lambda>b. preferred AND backendflag b \<noteq> 0 \<and> PrepareDriver b) backends of
           Some b \<Rightarrow>
             fst (SDL_GpuSelectBackend backends None preferred) = backendflag b
             \<and> snd (snd (SDL_GpuSelectBackend backends None preferred)) = []
         | None \<Rightarrow>
             fst (SDL_GpuSelectBackend backends None preferred) =
               (case find PrepareDriver backends of
                  Some b \<Rightarrow> backendflag b | None \<Rightarrow> SDL_GPU_BACKEND_INVALID)
             \<and> hd (snd (snd (SDL_GpuSelectBackend backends None preferred))) =
                 LogWarn ''No preferred SDL_Gpu backend found!'' [])"
    by (simp add: select_preferred split: option.splits)
  have f: "preferred = SDL_GPU_BACKEND_INVALID \<longrightarrow>
        fst (SDL_GpuSelectBackend backends None preferred) =
          (case find PrepareDriver backends of
             Some b \<Rightarrow> backendflag b | None \<Rightarrow> SDL_GPU_BACKEND_INVALID)"
    by (simp add: select_fallback split: option.splits)
  have g: "(\<forall>b\<in>set backends. \<not> PrepareDriver b) \<longrightarrow>
        fst (SDL_GpuSelectBackend backends gpudriver preferred) = SDL_GPU_BACKEND_INVALID
        \<and> fst (SDL_GpuCreateDevice backends gpudriver preferred debugMode) = None"
    using select_none_probe create_device_invalid by blast
  from a b c d e f g show ?thesis by blast
qed

lemma sample_names:
  "SDL_strcasecmp ''d3d11'' ''Vulkan'' \<noteq> 0" "SDL_strcasecmp ''d3d11'' ''D3D11'' = 0"
  "SDL_strcasecmp ''vulkan'' ''Vulkan'' = 0" "SDL_strcasecmp ''vulkan'' ''D3D11'' \<noteq> 0"
  "SDL_strcasecmp ''vulkan'' ''Metal'' \<noteq> 0"
  by code_simp+

lemma sample_find:
  "find (\<lambda>b. SDL_strcasecmp ''d3d11'' (Name b) = 0 \<and> PrepareDriver b) sample_backends
     = Some sample_d3d11"
  "find (\<lambda>b. SDL_strcasecmp ''vulkan'' (Name b) = 0 \<and> PrepareDriver b) sample_backends = None"
  "find (\<lambda>b. 4 AND backendflag b \<noteq> 0 \<and> PrepareDriver b) sample_backends = Some sample_metal"
  "find (\<lambda>b. 1 AND backendflag b \<noteq> 0 \<and> PrepareDriver b) sample_backends = None"
  "find PrepareDriver sample_backends = Some sample_d3d11"
  by (simp_all add: sample_backends_def sample_vulkan_def sample_d3d11_def sample_metal_def
      sample_names)

lemma sample_flags: "backendflag sample_d3d11 = 2" "backendflag sample_metal = 4"
  by (simp_all add: sample_d3d11_def sample_metal_def)

theorem C6_backend_selection_witness:
  "fst (SDL_GpuSelectBackend sample_backends (Some ''d3d11'') 1) = 2
   \<and> list_all (\<lambda>n. SDL_strcasecmp ''d3d11'' n = 0)
        (fst (snd (SDL_GpuSelectBackend sample_backends (Some ''d3d11'') 1)))
   \<and> find (\<lambda>b. SDL_strcasecmp ''vulkan'' (Name b) = 0 \<and> PrepareDriver b) sample_backends = None
   \<and> fst (SDL_GpuSelectBackend sample_backends (Some ''vulkan'') 6) = SDL_GPU_BACKEND_INVALID
   \<and> fst (SDL_GpuCreateDevice sample_backends (Some ''vulkan'') 6 False) = None
   \<and> (4 :: SDL_GpuBackend) \<noteq> SDL_GPU_BACKEND_INVALID
   \<and> fst (SDL_GpuSelectBackend sample_backends None 4) = 4
   \<and> snd (snd (SDL_GpuSelectBackend sample_backends None 4)) = []
   \<and> (1 :: SDL_GpuBackend) \<noteq> SDL_GPU_BACKEND_INVALID
   \<and> fst (SDL_GpuSelectBackend sample_backends None 1) = 2
   \<and> hd (snd (snd (SDL_GpuSelectBackend sample_backends None 1))) =
       LogWarn ''No preferred SDL_Gpu backend found!'' []
   \<and> fst (SDL_GpuSelectBackend sample_backends None SDL_GPU_BACKEND_INVALID) = 2
   \<and> list_all (\<lambda>b. \<not> PrepareDriver b) (take 1 sample_backends)
   \<and> fst (SDL_GpuSelectBackend (take 1 sample_backends) None 7) = SDL_GPU_BACKEND_INVALID
   \<and> fst (SDL_GpuCreateDevice (take 1 sample_backends) None 7 False) = None"
proof -
  have nz: "(4 :: SDL_GpuBackend) \<noteq> SDL_GPU_BACKEND_INVALID" "(1 :: SDL_GpuBackend) \<noteq> SDL_GPU_BACKEND_INVALID"
    by (simp_all add: SDL_GPU_BACKEND_INVALID_def)
  have nd: "list_all (\<lambda>b. \<not> PrepareDriver b) (take 1 sample_backends)"
    by (simp add: sample_backends_def sample_vulkan_def)
  then have nd': "\<forall>b\<in>set (take 1 sample_backends). \<not> PrepareDriver b"
    by (simp add: list_all_iff)
  from C6_backend_selection[of sample_backends "''d3d11''" 1 1 False None]
  have a: "fst (SDL_GpuSelectBackend sample_backends (Some ''d3d11'') 1) = 2"
    and b: "list_all (\<lambda>n. SDL_strcasecmp ''d3d11'' n = 0)
        (fst (snd (SDL_GpuSelectBackend sample_backends (Some ''d3d11'') 1)))"
    and c: "fst (SDL_GpuSelectBackend sample_backends None 1) = 2"
    and d: "hd (snd (snd (SDL_GpuSelectBackend sample_backends None 1))) =
       LogWarn ''No preferred SDL_Gpu backend found!'' []"
    using nz by (simp_all add: sample_find sample_flags list_all_iff)
  from C6_backend_selection[of sample_backends "''vulkan''" 6 6 False None]
  have e: "fst (SDL_GpuSelectBackend sample_backends (Some ''vulkan'') 6) = SDL_GPU_BACKEND_INVALID"
    and f: "fst (SDL_GpuCreateDevice sample_backends (Some ''vulkan'') 6 False) = None"
    by (simp_all add: sample_find sample_flags)
  from C6_backend_selection[of sample_backends "''d3d11''" 4 4 False None]
  have g: "fst (SDL_GpuSelectBackend sample_backends None 4) = 4"
    and h: "snd (snd (SDL_GpuSelectBackend sample_backends None 4)) = []"
    using nz by (simp_all add: sample_find sample_flags)
  from C6_backend_selection[of sample_backends "''d3d11''" SDL_GPU_BACKEND_INVALID 4 False None]
  have i: "fst (SDL_GpuSelectBackend sample_backends None SDL_GPU_BACKEND_INVALID) = 2"
    by (simp add: sample_find sample_flags)
  from C6_backend_selection[of "take 1 sample_backends" "''d3d11''" 7 7 False None] nd'
  have j: "fst (SDL_GpuSelectBackend (take 1 sample_backends) None 7) = SDL_GPU_BACKEND_INVALID"
    and k: "fst (SDL_GpuCreateDevice (take 1 sample_backends) None 7 False) = None"
    by blast+
  from a b c d e f g h i j k nz nd sample_find(2) show ?thesis by simp
qed

lemma create_texture_eq:
  assumes "dev \<noteq> NULL" "devices s dev = Some d"
  shows "SDL_GpuCreateTexture IsDepthFormat dev info s =
     (let q = [Pv (driverData d), Fv (format info), Tv SDL_GPU_TEXTURETYPE_2D, Uv (usageFlags info)];
          substituted = (IsDepthFormat (format info)
                         \<and> table d (calls s) ''IsTextureFormatSupported'' q = 0);
          info' = (if substituted then info\<lparr>format := texture_depth_fallback (format info)\<rparr> else info);
          s1 = (if IsDepthFormat (format info)
                then s\<lparr>calls := calls s @ [(dev, ''IsTextureFormatSupported'', q)]\<rparr> else s);
          s2 = (if substituted
                then s1\<lparr>logs := logs s1 @ [LogWarn ''Requested unsupported depth format %d, falling back to format %d!''
                                                    [ArgFormat (format info),
                                                     ArgFormat (texture_depth_fallback (format info))]]\<rparr>
                else s1)
      in Inr ((table d (calls s2) ''CreateTexture'' [Pv (driverData d), TextureInfo info'], info'),
              s2\<lparr>calls := calls s2 @ [(dev, ''CreateTexture'', [Pv (driverData d), TextureInfo info'])]\<rparr>))"
  using assms
  by (auto simp: SDL_GpuCreateTexture_def macro_defs deref_device_def Let_def)

lemma create_pipeline_eq:
  assumes "dev \<noteq> NULL" "devices s dev = Some d"
  shows "SDL_GpuCreateGraphicsPipeline BIT dev info s =
     (let requested = depthStencilFormat (attachmentInfo info);
          q = [Pv (driverData d), Fv requested, Tv SDL_GPU_TEXTURETYPE_2D, Uv BIT];
          substituted = (hasDepthStencilAttachment (attachmentInfo info)
                         \<and> table d (calls s) ''IsTextureFormatSupported'' q = 0);
          info' = (if substituted
                   then info\<lparr>attachmentInfo := (attachmentInfo info)\<lparr>depthStencilFormat :=
                                pipeline_depth_fallback requested\<rparr>\<rparr>
                   else info);
          s1 = (if hasDepthStencilAttachment (attachmentInfo info)
                then s\<lparr>calls := calls s @ [(dev, ''IsTextureFormatSupported'', q)]\<rparr> else s);
          s2 = (if substituted
                then s1\<lparr>logs := logs s1 @ [LogWarn ''Requested unsupported depth format %d, falling back to format %d!''
                                                    [ArgFormat requested,
                                                     ArgFormat (pipeline_depth_fallback requested)]]\<rparr>
                else s1)
      in Inr ((table d (calls s2) ''CreateGraphicsPipeline'' [Pv (driverData d), PipelineInfo info'], info'),
              s2\<lparr>calls := calls s2 @ [(dev, ''CreateGraphicsPipeline'', [Pv (driverData d), PipelineInfo info'])]\<rparr>))"
  using assms
  by (auto simp: SDL_GpuCreateGraphicsPipeline_def macro_defs deref_device_def Let_def)

lemma texture_fallback_spec: "texture_depth_fallback f = spec_depth_fallback f"
  by (cases f) (simp_all add: texture_depth_fallback_def spec_depth_fallback_def)

lemma pipeline_fallback_spec: "pipeline_depth_fallback f = spec_depth_fallback f"
  by (cases f) (simp_all add: pipeline_depth_fallback_def spec_depth_fallback_def)

text \<open>
  C7. When the backend reports a requested depth format unsupported, texture creation (for
  a depth format) and graphics pipeline creation (for a declared depth/stencil attachment)
  hand the backend the create-info with the format replaced by the documented fallback
  partner and log one warning naming the requested and the substituted format. Both call
  sites use the same table: D24_UNORM and D32_SFLOAT fall back to each other,
  D24_UNORM_S8_UINT and D32_SFLOAT_S8_UINT fall back to each other, every other format to
  D16_UNORM.
\<close>

theorem C7_depth_format_fallback:
  assumes "dev \<noteq> NULL" and "devices s dev = Some d"
  shows
    "(IsDepthFormat (format info)
      \<and> table d (calls s) ''IsTextureFormatSupported''
           [Pv (driverData d), Fv (format info), Tv SDL_GPU_TEXTURETYPE_2D, Uv (usageFlags info)] = 0
      \<longrightarrow> (\<exists>r s'. SDL_GpuCreateTexture IsDepthFormat dev info s =
                     Inr ((r, info\<lparr>format := spec_depth_fallback (format info)\<rparr>), s')
             \<and> logs s' = logs s @ [LogWarn ''Requested unsupported depth format %d, falling back to format %d!''
                                          [ArgFormat (format info),
                                           ArgFormat (spec_depth_fallback (format info))]]
             \<and> last (calls s') =
                 (dev, ''CreateTexture'',
                  [Pv (driverData d), TextureInfo (info\<lparr>format := spec_depth_fallback (format info)\<rparr>)])))
     \<and> (hasDepthStencilAttachment (attachmentInfo pinfo)
         \<and> table d (calls s) ''IsTextureFormatSupported''
              [Pv (driverData d), Fv (depthStencilFormat (attachmentInfo pinfo)),
               Tv SDL_GPU_TEXTURETYPE_2D, Uv DEPTH_STENCIL_TARGET_BIT] = 0
         \<longrightarrow> (\<exists>r s'. SDL_GpuCreateGraphicsPipeline DEPTH_STENCIL_TARGET_BIT dev pinfo s =
                     Inr ((r, pinfo\<lparr>attachmentInfo := (attachmentInfo pinfo)\<lparr>depthStencilFormat :=
                                 spec_depth_fallback (depthStencilFormat (attachmentInfo pinfo))\<rparr>\<rparr>), s')
             \<and> logs s' = logs s @ [LogWarn ''Requested unsupported depth format %d, falling back to format %d!''
                                          [ArgFormat (depthStencilFormat (attachmentInfo pinfo)),
                                           ArgFormat (spec_depth_fallback (depthStencilFormat (attachmentInfo pinfo)))]]
             \<and> last (calls s') =
                 (dev, ''CreateGraphicsPipeline'',
                  [Pv (driverData d),
                   PipelineInfo (pinfo\<lparr>attachmentInfo := (attachmentInfo pinfo)\<lparr>depthStencilFormat :=
                                 spec_depth_fallback (depthStencilFormat (attachmentInfo pinfo))\<rparr>\<rparr>)])))
     \<and> texture_depth_fallback f = spec_depth_fallback f
     \<and> pipeline_depth_fallback f = spec_depth_fallback f
     \<and> spec_depth_fallback SDL_GPU_TEXTUREFORMAT_D24_UNORM = SDL_GPU_TEXTUREFORMAT_D32_SFLOAT
     \<and> spec_depth_fallback SDL_GPU_TEXTUREFORMAT_D32_SFLOAT = SDL_GPU_TEXTUREFORMAT_D24_UNORM
     \<and> spec_depth_fallback SDL_GPU_TEXTUREFORMAT_D24_UNORM_S8_UINT = SDL_GPU_TEXTUREFORMAT_D32_SFLOAT_S8_UINT
     \<and> spec_depth_fallback SDL_GPU_TEXTUREFORMAT_D32_SFLOAT_S8_UINT = SDL_GPU_TEXTUREFORMAT_D24_UNORM_S8_UINT
     \<and> (f \<notin> {SDL_GPU_TEXTUREFORMAT_D24_UNORM, SDL_GPU_TEXTUREFORMAT_D32_SFLOAT,
               SDL_GPU_TEXTUREFORMAT_D24_UNORM_S8_UINT, SDL_GPU_TEXTUREFORMAT_D32_SFLOAT_S8_UINT}
         \<longrightarrow> spec_depth_fallback f = SDL_GPU_TEXTUREFORMAT_D16_UNORM)"
proof -
  have t: "IsDepthFormat (format info)
      \<and> table d (calls s) ''IsTextureFormatSupported''
           [Pv (driverData d), Fv (format info), Tv SDL_GPU_TEXTURETYPE_2D, Uv (usageFlags info)] = 0
      \<longrightarrow> (\<exists>r s'. SDL_GpuCreateTexture IsDepthFormat dev info s =
                     Inr ((r, info\<lparr>format := spec_depth_fallback (format info)\<rparr>), s')
             \<and> logs s' = logs s @ [LogWarn ''Requested unsupported depth format %d, falling back to format %d!''
                                          [ArgFormat (format info),
                                           ArgFormat (spec_depth_fallback (format info))]]
             \<and> last (calls s') =
                 (dev, ''CreateTexture'',
                  [Pv (driverData d), TextureInfo (info\<lparr>format := spec_depth_fallback (format info)\<rparr>)]))"
    by (simp add: create_texture_eq[OF assms] Let_def texture_fallback_spec)
  have p: "hasDepthStencilAttachment (attachmentInfo pinfo)
         \<and> table d (calls s) ''IsTextureFormatSupported''
              [Pv (driverData d), Fv (depthStencilFormat (attachmentInfo pinfo)),
               Tv SDL_GPU_TEXTURETYPE_2D, Uv DEPTH_STENCIL_TARGET_BIT] = 0
         \<longrightarrow> (\<exists>r s'. SDL_GpuCreateGraphicsPipeline DEPTH_STENCIL_TARGET_BIT dev pinfo s =
                     Inr ((r, pinfo\<lparr>attachmentInfo := (attachmentInfo pinfo)\<lparr>depthStencilFormat :=
                                 spec_depth_fallback (depthStencilFormat (attachmentInfo pinfo))\<rparr>\<rparr>), s')
             \<and> logs s' = logs s @ [LogWarn ''Requested unsupported depth format %d, falling back to format %d!''
                                          [ArgFormat (depthStencilFormat (attachmentInfo pinfo)),
                                           ArgFormat (spec_depth_fallback (depthStencilFormat (attachmentInfo pinfo)))]]
             \<and> last (calls s') =
                 (dev, ''CreateGraphicsPipeline'',
                  [Pv (driverData d),
                   PipelineInfo (pinfo\<lparr>attachmentInfo := (attachmentInfo pinfo)\<lparr>depthStencilFormat :=
                                 spec_depth_fallback (depthStencilFormat (attachmentInfo pinfo))\<rparr>\<rparr>)]))"
    by (simp add: create_pipeline_eq[OF assms] Let_def pipeline_fallback_spec)
  have tab: "spec_depth_fallback SDL_GPU_TEXTUREFORMAT_D24_UNORM = SDL_GPU_TEXTUREFORMAT_D32_SFLOAT"
     "spec_depth_fallback SDL_GPU_TEXTUREFORMAT_D32_SFLOAT = SDL_GPU_TEXTUREFORMAT_D24_UNORM"
     "spec_depth_fallback SDL_GPU_TEXTUREFORMAT_D24_UNORM_S8_UINT = SDL_GPU_TEXTUREFORMAT_D32_SFLOAT_S8_UINT"
     "spec_depth_fallback SDL_GPU_TEXTUREFORMAT_D32_SFLOAT_S8_UINT = SDL_GPU_TEXTUREFORMAT_D24_UNORM_S8_UINT"
     "f \<notin> {SDL_GPU_TEXTUREFORMAT_D24_UNORM, SDL_GPU_TEXTUREFORMAT_D32_SFLOAT,
               SDL_GPU_TEXTUREFORMAT_D24_UNORM_S8_UINT, SDL_GPU_TEXTUREFORMAT_D32_SFLOAT_S8_UINT}
         \<longrightarrow> spec_depth_fallback f = SDL_GPU_TEXTUREFORMAT_D16_UNORM"
    by (simp_all add: spec_depth_fallback_def)
  show ?thesis
    by (intro conjI t p tab texture_fallback_spec pipeline_fallback_spec)
qed

lemma sample_start_devices:
  "devices sample_start 5 = Some sample_device" "devices sample_start 6 = Some permissive_device"
  by (simp_all add: sample_start_def)

theorem C7_depth_format_fallback_witness:
  "(5::ptr) \<noteq> NULL \<and> devices sample_start 5 = Some sample_device
   \<and> sample_IsDepthFormat (format sample_texture_info)
   \<and> table sample_device (calls sample_start) ''IsTextureFormatSupported''
        [Pv (driverData sample_device), Fv (format sample_texture_info),
         Tv SDL_GPU_TEXTURETYPE_2D, Uv (usageFlags sample_texture_info)] = 0
   \<and> (\<exists>r s'. SDL_GpuCreateTexture sample_IsDepthFormat 5 sample_texture_info sample_start =
                Inr ((r, sample_texture_info\<lparr>format := SDL_GPU_TEXTUREFORMAT_D32_SFLOAT\<rparr>), s')
        \<and> logs s' = [LogWarn ''Requested unsupported depth format %d, falling back to format %d!''
                            [ArgFormat SDL_GPU_TEXTUREFORMAT_D24_UNORM,
                             ArgFormat SDL_GPU_TEXTUREFORMAT_D32_SFLOAT]])
   \<and> hasDepthStencilAttachment (attachmentInfo sample_pipeline_info)
   \<and> (\<exists>r s'. SDL_GpuCreateGraphicsPipeline 4 5 sample_pipeline_info sample_start =
                Inr ((r, sample_pipeline_info\<lparr>attachmentInfo :=
                        (attachmentInfo sample_pipeline_info)\<lparr>depthStencilFormat :=
                           SDL_GPU_TEXTUREFORMAT_D24_UNORM_S8_UINT\<rparr>\<rparr>), s')
        \<and> logs s' = [LogWarn ''Requested unsupported depth format %d, falling back to format %d!''
                            [ArgFormat SDL_GPU_TEXTUREFORMAT_D32_SFLOAT_S8_UINT,
                             ArgFormat SDL_GPU_TEXTUREFORMAT_D24_UNORM_S8_UINT]])
   \<and> SDL_GPU_TEXTUREFORMAT_R8 \<notin> {SDL_GPU_TEXTUREFORMAT_D24_UNORM, SDL_GPU_TEXTUREFORMAT_D32_SFLOAT,
               SDL_GPU_TEXTUREFORMAT_D24_UNORM_S8_UINT, SDL_GPU_TEXTUREFORMAT_D32_SFLOAT_S8_UINT}
   \<and> texture_depth_fallback SDL_GPU_TEXTUREFORMAT_R8 = SDL_GPU_TEXTUREFORMAT_D16_UNORM
   \<and> pipeline_depth_fallback SDL_GPU_TEXTUREFORMAT_R8 = SDL_GPU_TEXTUREFORMAT_D16_UNORM"
proof -
  have nn: "(5::ptr) \<noteq> NULL" by simp
  have q: "sample_IsDepthFormat (format sample_texture_info)"
    "table sample_device (calls sample_start) ''IsTextureFormatSupported''
        [Pv (driverData sample_device), Fv (format sample_texture_info),
         Tv SDL_GPU_TEXTURETYPE_2D, Uv (usageFlags sample_texture_info)] = 0"
    "hasDepthStencilAttachment (attachmentInfo sample_pipeline_info)"
    "table sample_device (calls sample_start) ''IsTextureFormatSupported''
        [Pv (driverData sample_device), Fv (depthStencilFormat (attachmentInfo sample_pipeline_info)),
         Tv SDL_GPU_TEXTURETYPE_2D, Uv 4] = 0"
    "format sample_texture_info = SDL_GPU_TEXTUREFORMAT_D24_UNORM"
    "depthStencilFormat (attachmentInfo sample_pipeline_info) = SDL_GPU_TEXTUREFORMAT_D32_SFLOAT_S8_UINT"
    "logs sample_start = []"
    by (simp_all add: sample_IsDepthFormat_def sample_texture_info_def sample_pipeline_info_def
        sample_device_def sample_start_def)
  have o: "SDL_GPU_TEXTUREFORMAT_R8 \<notin> {SDL_GPU_TEXTUREFORMAT_D24_UNORM, SDL_GPU_TEXTUREFORMAT_D32_SFLOAT,
               SDL_GPU_TEXTUREFORMAT_D24_UNORM_S8_UINT, SDL_GPU_TEXTUREFORMAT_D32_SFLOAT_S8_UINT}"
    by simp
  note th = C7_depth_format_fallback[OF nn sample_start_devices(1), where
      IsDepthFormat = sample_IsDepthFormat and info = sample_texture_info
      and pinfo = sample_pipeline_info and DEPTH_STENCIL_TARGET_BIT = 4
      and f = SDL_GPU_TEXTUREFORMAT_R8]
  from th q have a: "\<exists>r s'. SDL_GpuCreateTexture sample_IsDepthFormat 5 sample_texture_info sample_start =
                Inr ((r, sample_texture_info\<lparr>format := SDL_GPU_TEXTUREFORMAT_D32_SFLOAT\<rparr>), s')
        \<and> logs s' = [LogWarn ''Requested unsupported depth format %d, falling back to format %d!''
                            [ArgFormat SDL_GPU_TEXTUREFORMAT_D24_UNORM,
                             ArgFormat SDL_GPU_TEXTUREFORMAT_D32_SFLOAT]]"
    by auto
  from th q have b: "\<exists>r s'. SDL_GpuCreateGraphicsPipeline 4 5 sample_pipeline_info sample_start =
                Inr ((r, sample_pipeline_info\<lparr>attachmentInfo :=
                        (attachmentInfo sample_pipeline_info)\<lparr>depthStencilFormat :=
                           SDL_GPU_TEXTUREFORMAT_D24_UNORM_S8_UINT\<rparr>\<rparr>), s')
        \<and> logs s' = [LogWarn ''Requested unsupported depth format %d, falling back to format %d!''
                            [ArgFormat SDL_GPU_TEXTUREFORMAT_D32_SFLOAT_S8_UINT,
                             ArgFormat SDL_GPU_TEXTUREFORMAT_D24_UNORM_S8_UINT]]"
    by auto
  from th o have c: "texture_depth_fallback SDL_GPU_TEXTUREFORMAT_R8 = SDL_GPU_TEXTUREFORMAT_D16_UNORM"
    "pipeline_depth_fallback SDL_GPU_TEXTUREFORMAT_R8 = SDL_GPU_TEXTUREFORMAT_D16_UNORM"
    by simp_all
  from a b c o q(1,2,3) nn sample_start_devices(1) show ?thesis by blast
qed

text \<open>
  C10. Texture creation and graphics pipeline creation return the create-info as the call
  leaves it in the caller's structure. When negotiation substitutes a fallback (a depth
  format, respectively a declared depth/stencil attachment, that the backend reports
  unsupported) the format field holds the substituted format and every other field is as
  the caller passed it; otherwise the structure is exactly as the caller passed it.
\<close>

theorem C10_create_info_written_back:
  assumes "dev \<noteq> NULL" and "devices s dev = Some d"
  shows
    "(\<exists>r info' s'.
        SDL_GpuCreateTexture IsDepthFormat dev info s = Inr ((r, info'), s')
        \<and> usageFlags info' = usageFlags info
        \<and> textureOtherMembers info' = textureOtherMembers info
        \<and> format info' =
            (if IsDepthFormat (format info)
                \<and> table d (calls s) ''IsTextureFormatSupported''
                     [Pv (driverData d), Fv (format info), Tv SDL_GPU_TEXTURETYPE_2D,
                      Uv (usageFlags info)] = 0
             then texture_depth_fallback (format info) else format info)
        \<and> (\<not> (IsDepthFormat (format info)
                \<and> table d (calls s) ''IsTextureFormatSupported''
                     [Pv (driverData d), Fv (format info), Tv SDL_GPU_TEXTURETYPE_2D,
                      Uv (usageFlags info)] = 0)
            \<longrightarrow> info' = info))
     \<and> (\<exists>r pinfo' s'.
        SDL_GpuCreateGraphicsPipeline DEPTH_STENCIL_TARGET_BIT dev pinfo s = Inr ((r, pinfo'), s')
        \<and> pipelineOtherMembers pinfo' = pipelineOtherMembers pinfo
        \<and> hasDepthStencilAttachment (attachmentInfo pinfo') = hasDepthStencilAttachment (attachmentInfo pinfo)
        \<and> attachmentOtherMembers (attachmentInfo pinfo') = attachmentOtherMembers (attachmentInfo pinfo)
        \<and> depthStencilFormat (attachmentInfo pinfo') =
            (if hasDepthStencilAttachment (attachmentInfo pinfo)
                \<and> table d (calls s) ''IsTextureFormatSupported''
                     [Pv (driverData d), Fv (depthStencilFormat (attachmentInfo pinfo)),
                      Tv SDL_GPU_TEXTURETYPE_2D, Uv DEPTH_STENCIL_TARGET_BIT] = 0
             then pipeline_depth_fallback (depthStencilFormat (attachmentInfo pinfo))
             else depthStencilFormat (attachmentInfo pinfo))
        \<and> (\<not> (hasDepthStencilAttachment (attachmentInfo pinfo)
                \<and> table d (calls s) ''IsTextureFormatSupported''
                     [Pv (driverData d), Fv (depthStencilFormat (attachmentInfo pinfo)),
                      Tv SDL_GPU_TEXTURETYPE_2D, Uv DEPTH_STENCIL_TARGET_BIT] = 0)
            \<longrightarrow> pinfo' = pinfo))"
  by (simp add: create_texture_eq[OF assms] create_pipeline_eq[OF assms] Let_def)

theorem C10_create_info_written_back_witness:
  "(5::ptr) \<noteq> NULL \<and> devices sample_start 5 = Some sample_device
   \<and> (\<exists>r s'. SDL_GpuCreateTexture sample_IsDepthFormat 5 sample_texture_info sample_start =
         Inr ((r, \<lparr>format = SDL_GPU_TEXTUREFORMAT_D32_SFLOAT, usageFlags = 4,
                   textureOtherMembers = [64, 64, 1]\<rparr>), s'))
   \<and> (\<exists>r s'. SDL_GpuCreateGraphicsPipeline 4 5 sample_pipeline_info sample_start =
         Inr ((r, \<lparr>attachmentInfo =
                     \<lparr>hasDepthStencilAttachment = True,
                      depthStencilFormat = SDL_GPU_TEXTUREFORMAT_D24_UNORM_S8_UINT,
                      attachmentOtherMembers = [1]\<rparr>,
                   pipelineOtherMembers = [7, 8]\<rparr>), s'))
   \<and> (6::ptr) \<noteq> NULL \<and> devices sample_start 6 = Some permissive_device
   \<and> (\<exists>r s'. SDL_GpuCreateTexture sample_IsDepthFormat 6 sample_texture_info sample_start =
         Inr ((r, sample_texture_info), s'))
   \<and> (\<exists>r s'. SDL_GpuCreateGraphicsPipeline 4 6 sample_pipeline_info sample_start =
         Inr ((r, sample_pipeline_info), s'))"
proof -
  have n5: "(5::ptr) \<noteq> NULL" and n6: "(6::ptr) \<noteq> NULL" by simp_all
  have q5: "sample_IsDepthFormat (format sample_texture_info)
      \<and> table sample_device (calls sample_start) ''IsTextureFormatSupported''
        [Pv (driverData sample_device), Fv (format sample_texture_info),
         Tv SDL_GPU_TEXTURETYPE_2D, Uv (usageFlags sample_texture_info)] = 0"
    "hasDepthStencilAttachment (attachmentInfo sample_pipeline_info)
      \<and> table sample_device (calls sample_start) ''IsTextureFormatSupported''
        [Pv (driverData sample_device), Fv (depthStencilFormat (attachmentInfo sample_pipeline_info)),
         Tv SDL_GPU_TEXTURETYPE_2D, Uv 4] = 0"
    by (simp_all add: sample_IsDepthFormat_def sample_texture_info_def sample_pipeline_info_def
        sample_device_def)
  have q6: "\<not> (sample_IsDepthFormat (format sample_texture_info)
      \<and> table permissive_device (calls sample_start) ''IsTextureFormatSupported''
        [Pv (driverData permissive_device), Fv (format sample_texture_info),
         Tv SDL_GPU_TEXTURETYPE_2D, Uv (usageFlags sample_texture_info)] = 0)"
    "\<not> (hasDepthStencilAttachment (attachmentInfo sample_pipeline_info)
      \<and> table permissive_device (calls sample_start) ''IsTextureFormatSupported''
        [Pv (driverData permissive_device), Fv (depthStencilFormat (attachmentInfo sample_pipeline_info)),
         Tv SDL_GPU_TEXTURETYPE_2D, Uv 4] = 0)"
    by (simp_all add: permissive_device_def)
  have v: "texture_depth_fallback (format sample_texture_info) = SDL_GPU_TEXTUREFORMAT_D32_SFLOAT"
    "pipeline_depth_fallback (depthStencilFormat (attachmentInfo sample_pipeline_info))
       = SDL_GPU_TEXTUREFORMAT_D24_UNORM_S8_UINT"
    "usageFlags sample_texture_info = 4" "textureOtherMembers sample_texture_info = [64, 64, 1]"
    "pipelineOtherMembers sample_pipeline_info = [7, 8]"
    "hasDepthStencilAttachment (attachmentInfo sample_pipeline_info)"
    "attachmentOtherMembers (attachmentInfo sample_pipeline_info) = [1]"
    by (simp_all add: texture_depth_fallback_def pipeline_depth_fallback_def
        sample_texture_info_def sample_pipeline_info_def)
  note t5 = C10_create_info_written_back[OF n5 sample_start_devices(1), where
      IsDepthFormat = sample_IsDepthFormat and info = sample_texture_info
      and pinfo = sample_pipeline_info and DEPTH_STENCIL_TARGET_BIT = 4]
  note t6 = C10_create_info_written_back[OF n6 sample_start_devices(2), where
      IsDepthFormat = sample_IsDepthFormat and info = sample_texture_info
      and pinfo = sample_pipeline_info and DEPTH_STENCIL_TARGET_BIT = 4]
  from t5 q5(1) v obtain r s' info' where
      "SDL_GpuCreateTexture sample_IsDepthFormat 5 sample_texture_info sample_start = Inr ((r, info'), s')"
      "usageFlags info' = 4" "textureOtherMembers info' = [64, 64, 1]"
      "format info' = SDL_GPU_TEXTUREFORMAT_D32_SFLOAT"
    by auto
  then have a: "\<exists>r s'. SDL_GpuCreateTexture sample_IsDepthFormat 5 sample_texture_info sample_start =
         Inr ((r, \<lparr>format = SDL_GPU_TEXTUREFORMAT_D32_SFLOAT, usageFlags = 4,
                   textureOtherMembers = [64, 64, 1]\<rparr>), s')"
    by (cases info') auto
  from t5 q5(2) v obtain r s' pinfo' where
      "SDL_GpuCreateGraphicsPipeline 4 5 sample_pipeline_info sample_start = Inr ((r, pinfo'), s')"
      "pipelineOtherMembers pinfo' = [7, 8]"
      "hasDepthStencilAttachment (attachmentInfo pinfo')"
      "attachmentOtherMembers (attachmentInfo pinfo') = [1]"
      "depthStencilFormat (attachmentInfo pinfo') = SDL_GPU_TEXTUREFORMAT_D24_UNORM_S8_UINT"
    by auto
  then have b: "\<exists>r s'. SDL_GpuCreateGraphicsPipeline 4 5 sample_pipeline_info sample_start =
         Inr ((r, \<lparr>attachmentInfo =
                     \<lparr>hasDepthStencilAttachment = True,
                      depthStencilFormat = SDL_GPU_TEXTUREFORMAT_D24_UNORM_S8_UINT,
                      attachmentOtherMembers = [1]\<rparr>,
                   pipelineOtherMembers = [7, 8]\<rparr>), s')"
    by (cases pinfo'; cases "attachmentInfo pinfo'") auto
  from t6 q6(1) have c: "\<exists>r s'. SDL_GpuCreateTexture sample_IsDepthFormat 6 sample_texture_info sample_start =
         Inr ((r, sample_texture_info), s')"
    by auto
  from t6 q6(2) have d: "\<exists>r s'. SDL_GpuCreateGraphicsPipeline 4 6 sample_pipeline_info sample_start =
         Inr ((r, sample_pipeline_info), s')"
    by auto
  from a b c d n5 n6 sample_start_devices show ?thesis by blast
qed

text \<open>
  C9. Acquisition through a valid device asks the backend for a command buffer. When the
  backend yields one, it is returned with its header in the idle state: no pass in
  progress, no pipeline bound, not submitted, each of the three pass trackers pointing
  back at the command buffer and the device reference pointing at the acquiring device;
  no other header, no device and no log entry changes. When the backend yields none, null
  is returned and nothing changes but the record of the backend call.
\<close>

theorem C9_acquired_command_buffer_idle:
  assumes "dev \<noteq> NULL" and "devices s dev = Some d"
  shows
    "(let cb = table d (calls s) ''AcquireCommandBuffer'' [Pv (driverData d)];
          asked = s\<lparr>calls := calls s @ [(dev, ''AcquireCommandBuffer'', [Pv (driverData d)])]\<rparr>
      in (cb \<noteq> NULL \<longrightarrow>
            SDL_GpuAcquireCommandBuffer dev s =
              Inr (cb, asked\<lparr>heap := (heap s)(cb \<mapsto>
                \<lparr>device = dev,
                 renderPass = \<lparr>commandBuffer = cb, inProgress = False\<rparr>,
                 graphicsPipelineBound = False,
                 computePass = \<lparr>commandBuffer = cb, inProgress = False\<rparr>,
                 computePipelineBound = False,
                 copyPass = \<lparr>commandBuffer = cb, inProgress = False\<rparr>,
                 submitted = False\<rparr>)\<rparr>))
       \<and> (cb = NULL \<longrightarrow> SDL_GpuAcquireCommandBuffer dev s = Inr (NULL, asked)))"
  by (simp add: acquire_eq[OF assms] Let_def idle_header_def)

theorem C9_acquired_command_buffer_idle_witness:
  "(5::ptr) \<noteq> NULL \<and> devices sample_start 5 = Some sample_device
   \<and> table sample_device (calls sample_start) ''AcquireCommandBuffer'' [Pv (driverData sample_device)] = 2
   \<and> (2::ptr) \<noteq> NULL
   \<and> SDL_GpuAcquireCommandBuffer 5 sample_start =
       Inr (2, sample_start\<lparr>calls := [(5, ''AcquireCommandBuffer'', [Pv 40])],
                 heap := [2 \<mapsto>
                   \<lparr>device = 5,
                    renderPass = \<lparr>commandBuffer = 2, inProgress = False\<rparr>,
                    graphicsPipelineBound = False,
                    computePass = \<lparr>commandBuffer = 2, inProgress = False\<rparr>,
                    computePipelineBound = False,
                    copyPass = \<lparr>commandBuffer = 2, inProgress = False\<rparr>,
                    submitted = False\<rparr>]\<rparr>)
   \<and> (7::ptr) \<noteq> NULL \<and> devices sample_start 7 = Some exhausted_device
   \<and> table exhausted_device (calls sample_start) ''AcquireCommandBuffer'' [Pv (driverData exhausted_device)] = NULL
   \<and> SDL_GpuAcquireCommandBuffer 7 sample_start =
       Inr (NULL, sample_start\<lparr>calls := [(7, ''AcquireCommandBuffer'', [Pv 42])]\<rparr>)"
proof -
  have n: "(5::ptr) \<noteq> NULL" "(7::ptr) \<noteq> NULL" "(2::ptr) \<noteq> NULL" by simp_all
  have d: "devices sample_start 5 = Some sample_device" "devices sample_start 7 = Some exhausted_device"
    by (simp_all add: sample_start_def)
  have q: "table sample_device (calls sample_start) ''AcquireCommandBuffer'' [Pv (driverData sample_device)] = 2"
    "table exhausted_device (calls sample_start) ''AcquireCommandBuffer'' [Pv (driverData exhausted_device)] = NULL"
    "driverData sample_device = 40" "driverData exhausted_device = 42"
    "calls sample_start = []" "heap sample_start = Map.empty"
    by (simp_all add: sample_device_def exhausted_device_def sample_start_def)
  from C9_acquired_command_buffer_idle[OF n(1) d(1)] q
  have a: "SDL_GpuAcquireCommandBuffer 5 sample_start =
       Inr (2, sample_start\<lparr>calls := [(5, ''AcquireCommandBuffer'', [Pv 40])],
                 heap := [2 \<mapsto>
                   \<lparr>device = 5,
                    renderPass = \<lparr>commandBuffer = 2, inProgress = False\<rparr>,
                    graphicsPipelineBound = False,
                    computePass = \<lparr>commandBuffer = 2, inProgress = False\<rparr>,
                    computePipelineBound = False,
                    copyPass = \<lparr>commandBuffer = 2, inProgress = False\<rparr>,
                    submitted = False\<rparr>]\<rparr>)"
    by (simp add: Let_def)
  from C9_acquired_command_buffer_idle[OF n(2) d(2)] q
  have b: "SDL_GpuAcquireCommandBuffer 7 sample_start =
       Inr (NULL, sample_start\<lparr>calls := [(7, ''AcquireCommandBuffer'', [Pv 42])]\<rparr>)"
    by (simp add: Let_def)
  from a b n d q(1,2) show ?thesis by simp
qed














end
